theory Spec2Isabelle
  imports Complex_Main "HOL-Library.Sublist"
begin

section \<open>Python strings and values\<close>

text \<open>
  The operations of Python's \<^verbatim>\<open>str\<close> that the game calls, on \<^typ>\<open>string\<close>. The model's
  alphabet is ASCII: whitespace, letter case and the word characters of \<^verbatim>\<open>\w\<close> are the
  ASCII ones.
\<close>

definition is_space :: "char \<Rightarrow> bool" where
  "is_space c = (c \<in> set [CHR 0x09, CHR 0x0A, CHR 0x0B, CHR 0x0C, CHR 0x0D,
                             CHR 0x1C, CHR 0x1D, CHR 0x1E, CHR 0x1F, CHR 0x20])"

definition strip :: "string \<Rightarrow> string" where
  "strip s = rev (dropWhile is_space (rev (dropWhile is_space s)))"

definition UPPERCASE :: string where
  "UPPERCASE = ''ABCDEFGHIJKLMNOPQRSTUVWXYZ''"

definition LOWERCASE :: string where
  "LOWERCASE = ''abcdefghijklmnopqrstuvwxyz''"

definition DIGITS :: string where
  "DIGITS = ''0123456789''"

definition is_upper :: "char \<Rightarrow> bool" where
  "is_upper c = (c \<in> set UPPERCASE)"

definition is_lower :: "char \<Rightarrow> bool" where
  "is_lower c = (c \<in> set LOWERCASE)"

definition lower_char :: "char \<Rightarrow> char" where
  "lower_char c = (case map_of (zip UPPERCASE LOWERCASE) c of Some l \<Rightarrow> l | None \<Rightarrow> c)"

definition upper_char :: "char \<Rightarrow> char" where
  "upper_char c = (case map_of (zip LOWERCASE UPPERCASE) c of Some u \<Rightarrow> u | None \<Rightarrow> c)"

definition lower :: "string \<Rightarrow> string" where
  "lower s = map lower_char s"

text \<open>\<^verbatim>\<open>str.title\<close>: a cased character is upper case after an uncased one, lower case otherwise.\<close>

fun title_from :: "bool \<Rightarrow> string \<Rightarrow> string" where
  "title_from prev_cased [] = []"
| "title_from prev_cased (c # cs) =
     (if is_upper c \<or> is_lower c
      then (if prev_cased then lower_char c else upper_char c) # title_from True cs
      else c # title_from False cs)"

definition title_case :: "string \<Rightarrow> string" where
  "title_case s = title_from False s"

definition startswith :: "string \<Rightarrow> string \<Rightarrow> bool" where
  "startswith s pre = prefix pre s"

definition endswith :: "string \<Rightarrow> string \<Rightarrow> bool" where
  "endswith s suf = suffix suf s"

text \<open>\<^verbatim>\<open>needle in s\<close>.\<close>

fun contains :: "string \<Rightarrow> string \<Rightarrow> bool" where
  "contains [] needle = (needle = [])"
| "contains (c # cs) needle = (prefix needle (c # cs) \<or> contains cs needle)"

text \<open>
  \<^verbatim>\<open>s.replace(old, new)\<close>: every occurrence of \<^verbatim>\<open>old\<close>, left to right, without overlap. An
  empty \<^verbatim>\<open>old\<close> matches before every character and at the end.
\<close>

function replace :: "string \<Rightarrow> string \<Rightarrow> string \<Rightarrow> string" where
  "replace s old new =
     (if old = [] then new @ concat (map (\<lambda>c. c # new) s)
      else if s = [] then []
      else if prefix old s then new @ replace (drop (length old) s) old new
      else hd s # replace (tl s) old new)"
  by pat_completeness auto
termination
  by (relation "measure (\<lambda>(s, old, new). length s)") auto

text \<open>\<^verbatim>\<open>str(n)\<close> for an integer.\<close>

definition digit_char :: "nat \<Rightarrow> char" where
  "digit_char d = DIGITS ! d"

function str_nat :: "nat \<Rightarrow> string" where
  "str_nat n = (if n < 10 then [digit_char n] else str_nat (n div 10) @ [digit_char (n mod 10)])"
  by pat_completeness auto
termination
  by (relation "measure id") auto

definition str_int :: "int \<Rightarrow> string" where
  "str_int i = (if i < 0 then ''-'' @ str_nat (nat (- i)) else str_nat (nat i))"

text \<open>
  The values a command argument can denote: the argument of \<^verbatim>\<open>hero.say\<close> is formatted
  into the message with \<^verbatim>\<open>str\<close>.
\<close>

datatype py_value = PyStr string | PyInt int | PyBool bool | PyNone

fun py_str :: "py_value \<Rightarrow> string" where
  "py_str (PyStr s) = s"
| "py_str (PyInt i) = str_int i"
| "py_str (PyBool b) = (if b then ''True'' else ''False'')"
| "py_str PyNone = ''None''"

text \<open>The exceptions the interpreter raises and catches.\<close>

datatype py_exception = SyntaxError | NameError | AttributeError | TypeError

section \<open>Settings (settings.py)\<close>

definition TILE_SIZE :: int where "TILE_SIZE = 64"
definition GRID_COLS :: int where "GRID_COLS = 12"
definition GRID_ROWS :: int where "GRID_ROWS = 9"
definition GAME_AREA_X :: int where "GAME_AREA_X = 40"
definition GAME_AREA_Y :: int where "GAME_AREA_Y = 40"
definition PLAYER_START_COL :: int where "PLAYER_START_COL = 5"
definition PLAYER_START_ROW :: int where "PLAYER_START_ROW = 4"
definition PLAYER_MOVE_SPEED :: real where "PLAYER_MOVE_SPEED = 8"

section \<open>Sprites (sprites.py)\<close>

datatype Direction = NONE | UP | DOWN | LEFT | RIGHT

text \<open>
  \<^verbatim>\<open>Obstacle\<close>: a grid cell and a category tag. The pixel position, size and rectangle
  of the sprite only feed drawing and are left out.
\<close>

record Obstacle =
  obs_grid_col :: int
  obs_grid_row :: int
  obstacle_type :: string

text \<open>
  \<^verbatim>\<open>Player\<close>. The pixel position \<^verbatim>\<open>x\<close>, \<^verbatim>\<open>y\<close> is a Python number (an \<^verbatim>\<open>int\<close> at rest,
  a \<^verbatim>\<open>float\<close> during the animation); it is modelled as a real. The fields that only feed
  drawing (image, rect, size, colours, pulse timer, dance offset, particle system) are
  left out.
\<close>

record Player =
  grid_col :: int
  grid_row :: int
  pixel_x :: real
  pixel_y :: real
  target_x :: real
  target_y :: real
  is_moving :: bool
  direction :: Direction
  move_speed :: real
  is_spinning :: bool
  spin_timer :: int
  is_dancing :: bool
  dance_timer :: int
  p_obstacles :: "Obstacle list"
  eye_direction :: Direction

definition grid_to_pixel_x :: "int \<Rightarrow> real" where
  "grid_to_pixel_x col = real_of_int (GAME_AREA_X + col * TILE_SIZE + TILE_SIZE div 2)"

definition grid_to_pixel_y :: "int \<Rightarrow> real" where
  "grid_to_pixel_y row = real_of_int (GAME_AREA_Y + row * TILE_SIZE + TILE_SIZE div 2)"

text \<open>\<^verbatim>\<open>Player.__init__\<close> with its default arguments, given the obstacle list.\<close>

definition Player_init :: "int \<Rightarrow> int \<Rightarrow> Obstacle list \<Rightarrow> Player" where
  "Player_init col row obs =
     \<lparr> grid_col = col, grid_row = row,
       pixel_x = grid_to_pixel_x col, pixel_y = grid_to_pixel_y row,
       target_x = grid_to_pixel_x col, target_y = grid_to_pixel_y row,
       is_moving = False, direction = NONE, move_speed = PLAYER_MOVE_SPEED,
       is_spinning = False, spin_timer = 0, is_dancing = False, dance_timer = 0,
       p_obstacles = obs, eye_direction = NONE \<rparr>"

text \<open>\<^verbatim>\<open>Player._is_blocked\<close>: the loop over the obstacles returns at the first hit.\<close>

fun is_blocked_in :: "Obstacle list \<Rightarrow> int \<Rightarrow> int \<Rightarrow> bool" where
  "is_blocked_in [] col row = False"
| "is_blocked_in (obstacle # rest) col row =
     (if obs_grid_col obstacle = col \<and> obs_grid_row obstacle = row then True
      else is_blocked_in rest col row)"

definition is_blocked :: "Player \<Rightarrow> int \<Rightarrow> int \<Rightarrow> bool" where
  "is_blocked p col row = is_blocked_in (p_obstacles p) col row"

text \<open>
  \<^verbatim>\<open>Player._try_move\<close>: the returned pair is the method's boolean result and the player
  after the call.
\<close>

definition try_move :: "int \<Rightarrow> int \<Rightarrow> Direction \<Rightarrow> Player \<Rightarrow> bool \<times> Player" where
  "try_move dx dy dir p =
     (if is_moving p \<or> is_spinning p \<or> is_dancing p then (False, p)
      else
        let new_col = grid_col p + dx; new_row = grid_row p + dy in
        if \<not> (0 \<le> new_col \<and> new_col < GRID_COLS \<and> 0 \<le> new_row \<and> new_row < GRID_ROWS)
        then (False, p)
        else if is_blocked p new_col new_row then (False, p)
        else (True,
          p\<lparr> grid_col := new_col, grid_row := new_row,
             target_x := grid_to_pixel_x new_col, target_y := grid_to_pixel_y new_row,
             direction := dir, eye_direction := dir, is_moving := True \<rparr>))"

definition move_right :: "Player \<Rightarrow> bool \<times> Player" where
  "move_right p = try_move 1 0 RIGHT p"

definition move_left :: "Player \<Rightarrow> bool \<times> Player" where
  "move_left p = try_move (- 1) 0 LEFT p"

definition move_up :: "Player \<Rightarrow> bool \<times> Player" where
  "move_up p = try_move 0 (- 1) UP p"

definition move_down :: "Player \<Rightarrow> bool \<times> Player" where
  "move_down p = try_move 0 1 DOWN p"

definition spin :: "Player \<Rightarrow> bool \<times> Player" where
  "spin p =
     (if is_moving p \<or> is_spinning p \<or> is_dancing p then (False, p)
      else (True, p\<lparr> is_spinning := True, spin_timer := 0 \<rparr>))"

definition dance :: "Player \<Rightarrow> bool \<times> Player" where
  "dance p =
     (if is_moving p \<or> is_spinning p \<or> is_dancing p then (False, p)
      else (True, p\<lparr> is_dancing := True, dance_timer := 0 \<rparr>))"

text \<open>
  \<^verbatim>\<open>Player.update\<close>: one tick of the animation. The distance is
  \<^verbatim>\<open>(dx ** 2 + dy ** 2) ** 0.5\<close>; the trail particles, the rectangle and the pulse
  timer are drawing only.
\<close>

definition update_moving :: "Player \<Rightarrow> Player" where
  "update_moving p =
     (if is_moving p then
        let dx = target_x p - pixel_x p; dy = target_y p - pixel_y p;
            distance = sqrt (dx\<^sup>2 + dy\<^sup>2) in
        if distance < move_speed p
        then p\<lparr> pixel_x := target_x p, pixel_y := target_y p,
                is_moving := False, direction := NONE \<rparr>
        else p\<lparr> pixel_x := pixel_x p + (dx / distance) * move_speed p,
                pixel_y := pixel_y p + (dy / distance) * move_speed p \<rparr>
      else p)"

definition update_spinning :: "Player \<Rightarrow> Player" where
  "update_spinning p =
     (if is_spinning p then
        let p1 = p\<lparr> spin_timer := spin_timer p + 1 \<rparr> in
        if spin_timer p1 \<ge> 30 then p1\<lparr> is_spinning := False, spin_timer := 0 \<rparr> else p1
      else p)"

definition update_dancing :: "Player \<Rightarrow> Player" where
  "update_dancing p =
     (if is_dancing p then
        let p1 = p\<lparr> dance_timer := dance_timer p + 1 \<rparr> in
        if dance_timer p1 \<ge> 60 then p1\<lparr> is_dancing := False, dance_timer := 0 \<rparr> else p1
      else p)"

definition Player_update :: "Player \<Rightarrow> Player" where
  "Player_update p = update_dancing (update_spinning (update_moving p))"

text \<open>\<^verbatim>\<open>Player.reset_position\<close>.\<close>

definition reset_position :: "Player \<Rightarrow> Player" where
  "reset_position p =
     p\<lparr> grid_col := PLAYER_START_COL, grid_row := PLAYER_START_ROW,
        pixel_x := grid_to_pixel_x PLAYER_START_COL,
        pixel_y := grid_to_pixel_y PLAYER_START_ROW,
        target_x := grid_to_pixel_x PLAYER_START_COL,
        target_y := grid_to_pixel_y PLAYER_START_ROW,
        is_moving := False, is_spinning := False, is_dancing := False,
        direction := NONE \<rparr>"


subsection \<open>The hero API\<close>

text \<open>
  \<^verbatim>\<open>Hero\<close> wraps the player. \<^verbatim>\<open>Game.player\<close> and \<^verbatim>\<open>Hero._player\<close> are one object in the
  source; the model keeps it once, inside the hero. A Python string is modelled as a
  \<^typ>\<open>string\<close>; a code point outside ASCII stands as the bytes of its UTF-8 encoding.
  Every method returns its message and the hero after the call.
\<close>

record Hero =
  player :: Player
  last_command_result :: "string option"

definition Hero_init :: "Player \<Rightarrow> Hero" where
  "Hero_init p = \<lparr> player = p, last_command_result = None \<rparr>"

definition MSG_STILL_MOVING :: string where
  "MSG_STILL_MOVING = ''Wait! Still moving...''"

definition MSG_BUSY_PERFORMING :: string where
  "MSG_BUSY_PERFORMING = ''Wait! Hero is busy performing...''"

text \<open>
  The four \<^verbatim>\<open>Hero.move_*\<close> methods have one body, up to the player method called and
  the two messages; \<open>hero_move\<close> is that body.
\<close>

definition hero_move ::
  "(Player \<Rightarrow> bool \<times> Player) \<Rightarrow> string \<Rightarrow> string \<Rightarrow> Hero \<Rightarrow> string \<times> Hero" where
  "hero_move player_move ok_msg blocked_msg h =
     (let (started, p) = player_move (player h);
          msg = (if started then ok_msg
                 else if is_moving p then MSG_STILL_MOVING
                 else if is_spinning p \<or> is_dancing p then MSG_BUSY_PERFORMING
                 else blocked_msg)
      in (msg, h\<lparr> player := p, last_command_result := Some msg \<rparr>))"

definition MSG_MOVING_RIGHT :: string where
  "MSG_MOVING_RIGHT =
     ''Moving right! '' @ [CHR 0xC3, CHR 0xA2, CHR 0xE2, CHR 0x80, CHR 0xA0, CHR 0xE2, CHR 0x80, CHR 0x99]"

definition MSG_MOVING_LEFT :: string where
  "MSG_MOVING_LEFT = ''Moving left! '' @ [CHR 0xC3, CHR 0xA2, CHR 0xE2, CHR 0x80, CHR 0xA0]"

definition MSG_MOVING_UP :: string where
  "MSG_MOVING_UP =
     ''Moving up! '' @ [CHR 0xC3, CHR 0xA2, CHR 0xE2, CHR 0x80, CHR 0xA0, CHR 0xE2, CHR 0x80, CHR 0x98]"

definition MSG_MOVING_DOWN :: string where
  "MSG_MOVING_DOWN =
     ''Moving down! '' @ [CHR 0xC3, CHR 0xA2, CHR 0xE2, CHR 0x80, CHR 0xA0, CHR 0xE2, CHR 0x80, CHR 0x9C]"

definition Hero_move_right :: "Hero \<Rightarrow> string \<times> Hero" where
  "Hero_move_right = hero_move move_right MSG_MOVING_RIGHT ''Can't move right - blocked!''"

definition Hero_move_left :: "Hero \<Rightarrow> string \<times> Hero" where
  "Hero_move_left = hero_move move_left MSG_MOVING_LEFT ''Can't move left - blocked!''"

definition Hero_move_up :: "Hero \<Rightarrow> string \<times> Hero" where
  "Hero_move_up = hero_move move_up MSG_MOVING_UP ''Can't move up - blocked!''"

definition Hero_move_down :: "Hero \<Rightarrow> string \<times> Hero" where
  "Hero_move_down = hero_move move_down MSG_MOVING_DOWN ''Can't move down - blocked!''"

definition returning :: "string \<Rightarrow> Hero \<Rightarrow> string \<times> Hero" where
  "returning msg h = (msg, h\<lparr> last_command_result := Some msg \<rparr>)"

definition Hero_say :: "py_value \<Rightarrow> Hero \<Rightarrow> string \<times> Hero" where
  "Hero_say message h = returning (''Hero says: \"'' @ py_str message @ ''\"'') h"

definition Hero_spin :: "Hero \<Rightarrow> string \<times> Hero" where
  "Hero_spin h =
     (let (ok, p) = spin (player h);
          msg = (if ok then ''Wheeeee! '' @ [CHR 0xC3, CHR 0xB0, CHR 0xC5, CHR 0xB8, CHR 0xC5, CHR 0x92, CHR 0xE2, CHR 0x82, CHR 0xAC]
                 else ''Can't spin right now!'')
      in (msg, h\<lparr> player := p, last_command_result := Some msg \<rparr>))"

definition Hero_dance :: "Hero \<Rightarrow> string \<times> Hero" where
  "Hero_dance h =
     (let (ok, p) = dance (player h);
          msg = (if ok then [CHR 0xC3, CHR 0xB0, CHR 0xC5, CHR 0xB8, CHR 0xE2, CHR 0x80, CHR 0x99, CHR 0xC6, CHR 0x92]
                      @ '' Dancing! '' @ [CHR 0xC3, CHR 0xB0, CHR 0xC5, CHR 0xB8, CHR 0xE2, CHR 0x80, CHR 0xA2, CHR 0xC2, CHR 0xBA]
                 else ''Can't dance right now!'')
      in (msg, h\<lparr> player := p, last_command_result := Some msg \<rparr>))"

definition Hero_jump :: "Hero \<Rightarrow> string \<times> Hero" where
  "Hero_jump h =
     returning (''Jump! '' @ [CHR 0xC3, CHR 0xB0, CHR 0xC5, CHR 0xB8, CHR 0xC2, CHR 0xA6, CHR 0xCB, CHR 0x9C]
                @ '' (Visual coming soon...)'') h"

definition Hero_attack :: "Hero \<Rightarrow> string \<times> Hero" where
  "Hero_attack h =
     returning (''Attack! '' @ [CHR 0xC3, CHR 0xA2, CHR 0xC5, CHR 0xA1, CHR 0xE2, CHR 0x80, CHR 0x9D, CHR 0xC3, CHR 0xAF, CHR 0xC2, CHR 0xB8]
                @ '' (Combat coming soon...)'') h"

definition Hero_defend :: "Hero \<Rightarrow> string \<times> Hero" where
  "Hero_defend h =
     returning (''Defend! '' @ [CHR 0xC3, CHR 0xB0, CHR 0xC5, CHR 0xB8, CHR 0xE2, CHR 0x80, CHR 0xBA, CHR 0xC2, CHR 0xA1, CHR 0xC3, CHR 0xAF, CHR 0xC2, CHR 0xB8]
                @ '' (Combat coming soon...)'') h"

definition Hero_collect :: "Hero \<Rightarrow> string \<times> Hero" where
  "Hero_collect h = returning ''Looking for items... (Use auto-collect by walking!)'' h"

section \<open>The console (settings.py, ui.py)\<close>

definition VALID_HERO_METHODS :: "string list" where
  "VALID_HERO_METHODS =
     [''move_right'', ''move_left'', ''move_up'', ''move_down'', ''jump'', ''attack'',
      ''defend'', ''say'', ''spin'', ''dance'', ''collect'']"

text \<open>The dictionary \<^verbatim>\<open>METHOD_SUGGESTIONS\<close>; its keys are distinct.\<close>

definition METHOD_SUGGESTIONS :: "(string \<times> string) list" where
  "METHOD_SUGGESTIONS =
     [(''moveright'', ''move_right''), (''moveleft'', ''move_left''),
      (''moveup'', ''move_up''), (''movedown'', ''move_down''),
      (''move_rigth'', ''move_right''), (''move_rigt'', ''move_right''),
      (''move_leftt'', ''move_left''), (''move_u'', ''move_up''),
      (''move_d'', ''move_down''), (''right'', ''move_right''),
      (''left'', ''move_left''), (''up'', ''move_up''), (''down'', ''move_down''),
      (''spinn'', ''spin''), (''dans'', ''dance''), (''dansce'', ''dance'')]"

definition CONSOLE_MAX_OUTPUT_LINES :: nat where "CONSOLE_MAX_OUTPUT_LINES = 15"

type_synonym Color = "nat \<times> nat \<times> nat"

definition COLOR_ACCENT :: Color where "COLOR_ACCENT = (34, 211, 238)"
definition COLOR_SUCCESS :: Color where "COLOR_SUCCESS = (52, 211, 153)"
definition COLOR_WARNING :: Color where "COLOR_WARNING = (251, 191, 36)"
definition COLOR_ERROR :: Color where "COLOR_ERROR = (248, 113, 113)"
definition COLOR_TEXT_PRIMARY :: Color where "COLOR_TEXT_PRIMARY = (248, 250, 252)"
definition COLOR_TEXT_SECONDARY :: Color where "COLOR_TEXT_SECONDARY = (148, 163, 184)"
definition COLOR_TEXT_MUTED :: Color where "COLOR_TEXT_MUTED = (100, 116, 139)"
definition COLOR_CONSOLE_BORDER :: Color where "COLOR_CONSOLE_BORDER = (60, 65, 90)"

record OutputLine =
  line_text :: string
  color :: Color
  line_type :: string

text \<open>
  \<^verbatim>\<open>Console\<close>: the output log. The input line, the cursor and the command history are
  not touched by the game's command handling and are left out.
\<close>

record Console =
  output_lines :: "OutputLine list"

text \<open>The loop \<^verbatim>\<open>while len(self.output_lines) > CONSOLE_MAX_OUTPUT_LINES + 20: pop(0)\<close>.\<close>

function limit_lines :: "OutputLine list \<Rightarrow> OutputLine list" where
  "limit_lines ls =
     (if length ls > CONSOLE_MAX_OUTPUT_LINES + 20 then limit_lines (tl ls) else ls)"
  by pat_completeness auto
termination
  by (relation "measure length") auto

definition add_output_typed :: "string \<Rightarrow> Color \<Rightarrow> string \<Rightarrow> Console \<Rightarrow> Console" where
  "add_output_typed txt col ty c =
     c\<lparr> output_lines :=
          limit_lines (output_lines c @ [\<lparr> line_text = txt, color = col, line_type = ty \<rparr>]) \<rparr>"

text \<open>\<^verbatim>\<open>add_output\<close> with the default \<^verbatim>\<open>line_type="normal"\<close>.\<close>

definition add_output :: "string \<Rightarrow> Color \<Rightarrow> Console \<Rightarrow> Console" where
  "add_output txt col c = add_output_typed txt col ''normal'' c"

definition CHECK_MARK :: string where "CHECK_MARK = [CHR 0xE2, CHR 0x9C, CHR 0x93]"
definition BALLOT_X :: string where "BALLOT_X = [CHR 0xE2, CHR 0x9C, CHR 0x97]"
definition INFO_SIGN :: string where "INFO_SIGN = [CHR 0xE2, CHR 0x84, CHR 0xB9]"

definition add_success :: "string \<Rightarrow> Console \<Rightarrow> Console" where
  "add_success txt c = add_output_typed (CHECK_MARK @ '' '' @ txt) COLOR_SUCCESS ''success'' c"

definition add_error :: "string \<Rightarrow> Console \<Rightarrow> Console" where
  "add_error txt c = add_output_typed (BALLOT_X @ '' '' @ txt) COLOR_ERROR ''error'' c"

definition add_info :: "string \<Rightarrow> Console \<Rightarrow> Console" where
  "add_info txt c = add_output_typed (INFO_SIGN @ '' '' @ txt) COLOR_ACCENT ''info'' c"

text \<open>\<^verbatim>\<open>Console.add_educational_error\<close>: the misspelling table is looked up first.\<close>

definition stripped_cmd :: "string \<Rightarrow> string" where
  "stripped_cmd command = strip (replace (replace command ''hero.'' '''') ''()'' '''')"

definition add_educational_error :: "string \<Rightarrow> string \<Rightarrow> Console \<Rightarrow> Console" where
  "add_educational_error command error_type c =
     (let c1 = add_output '''' COLOR_TEXT_MUTED c;
          c2 =
            (case map_of METHOD_SUGGESTIONS (stripped_cmd command) of
               Some suggestion \<Rightarrow>
                 add_output ''  Tip: Python is picky about spelling!'' COLOR_TEXT_MUTED
                   (add_output (''  Did you mean: hero.'' @ suggestion @ ''() ?'') COLOR_WARNING
                     (add_error ''Oops! That's not quite right.'' c1))
             | None \<Rightarrow>
                 if error_type = ''syntax'' then
                   add_output ''  Example: hero.move_right()'' COLOR_SUCCESS
                     (add_output ''  Check your parentheses () and dots .'' COLOR_WARNING
                       (add_error ''Syntax Error!'' c1))
                 else if error_type = ''unknown_method'' then
                   add_output ''  Try: move_right, move_left, move_up, move_down'' COLOR_TEXT_MUTED
                     (add_output ''  The hero doesn't know how to do that.'' COLOR_WARNING
                       (add_error ''Unknown command!'' c1))
                 else if error_type = ''name'' then
                   add_output (''  Commands must start with 'hero.'' @ [CHR 0x27]) COLOR_TEXT_MUTED
                     (add_output ''  Did you forget 'hero.' at the start?'' COLOR_WARNING
                       (add_error ''Name not recognized!'' c1))
                 else
                   add_output ''  Try a command like: hero.move_right()'' COLOR_WARNING
                     (add_error ''Something went wrong!'' c1))
      in add_output '''' COLOR_TEXT_MUTED c2)"

text \<open>\<^verbatim>\<open>Console._add_welcome_message\<close> and \<^verbatim>\<open>Console.clear\<close>.\<close>

definition BOX_H :: string where "BOX_H = [CHR 0xE2, CHR 0x95, CHR 0x90]"
definition BOX_V :: string where "BOX_V = [CHR 0xE2, CHR 0x95, CHR 0x91]"

definition add_welcome_message :: "Console \<Rightarrow> Console" where
  "add_welcome_message c =
     add_output (concat (replicate 40 [CHR 0xE2, CHR 0x94, CHR 0x80])) COLOR_CONSOLE_BORDER
    (add_output (''Press '' @ [CHR 0xE2, CHR 0x86, CHR 0x91] @ ''/'' @ [CHR 0xE2, CHR 0x86, CHR 0x93]
                 @ '' to browse command history'') COLOR_TEXT_MUTED
    (add_output '''' COLOR_TEXT_MUTED
    (add_output ''  hero.move_down()'' COLOR_SUCCESS
    (add_output ''  hero.move_up()'' COLOR_SUCCESS
    (add_output ''  hero.move_left()'' COLOR_SUCCESS
    (add_output ''  hero.move_right()'' COLOR_SUCCESS
    (add_output ''Control the hero with Python commands:'' COLOR_TEXT_SECONDARY
    (add_output '''' COLOR_TEXT_MUTED
    (add_output ([CHR 0xE2, CHR 0x95, CHR 0x9A] @ concat (replicate 38 BOX_H) @ [CHR 0xE2, CHR 0x95, CHR 0x9D]) COLOR_ACCENT
    (add_output (BOX_V @ ''   Welcome to PyVenture Console!     '' @ BOX_V) COLOR_ACCENT
    (add_output ([CHR 0xE2, CHR 0x95, CHR 0x94] @ concat (replicate 38 BOX_H) @ [CHR 0xE2, CHR 0x95, CHR 0x97]) COLOR_ACCENT
       c)))))))))))"

definition Console_init :: Console where
  "Console_init = add_welcome_message \<lparr> output_lines = [] \<rparr>"

definition Console_clear :: "Console \<Rightarrow> Console" where
  "Console_clear c = add_welcome_message (c\<lparr> output_lines := [] \<rparr>)"

section \<open>The game (game.py)\<close>

subsection \<open>Collectibles and challenges\<close>

definition GEM_VALUES :: "(string \<times> int) list" where
  "GEM_VALUES =
     [(''ruby'', 10), (''emerald'', 15), (''sapphire'', 20), (''gold'', 25), (''diamond'', 50)]"

text \<open>\<^verbatim>\<open>Collectible\<close> (sprites.py), without its drawing state.\<close>

record Collectible =
  gem_grid_col :: int
  gem_grid_row :: int
  gem_type :: string
  gem_value :: int
  collected :: bool

definition Collectible_init :: "int \<Rightarrow> int \<Rightarrow> string \<Rightarrow> Collectible" where
  "Collectible_init col row ty =
     \<lparr> gem_grid_col = col, gem_grid_row = row, gem_type = ty,
       gem_value = (case map_of GEM_VALUES ty of Some v \<Rightarrow> v | None \<Rightarrow> 10),
       collected = False \<rparr>"

record Challenge =
  title :: string
  description :: string
  target_col :: int
  target_row :: int
  reward :: int
  completed :: bool

definition Challenge_init :: "string \<Rightarrow> string \<Rightarrow> int \<Rightarrow> int \<Rightarrow> int \<Rightarrow> Challenge" where
  "Challenge_init t d col row r =
     \<lparr> title = t, description = d, target_col = col, target_row = row, reward = r,
       completed = False \<rparr>"

text \<open>\<^verbatim>\<open>Challenge.check_completion\<close>: the result and the challenge after the call.\<close>

definition check_completion :: "int \<Rightarrow> int \<Rightarrow> Challenge \<Rightarrow> bool \<times> Challenge" where
  "check_completion player_col player_row ch =
     (if player_col = target_col ch \<and> player_row = target_row ch
      then (True, ch\<lparr> completed := True \<rparr>)
      else (False, ch))"

subsection \<open>The session\<close>

text \<open>
  \<^verbatim>\<open>Game\<close>. The player is the one inside the hero. The current challenge index is a
  natural number: the game starts it at 0 and counts it up. The display, the clock, the
  fonts, the particles and the floating texts are drawing only and are left out.
\<close>

record Game =
  obstacles :: "Obstacle list"
  collectibles :: "Collectible list"
  hero :: Hero
  console :: Console
  score :: int
  gems_collected :: int
  commands_executed :: int
  successful_moves :: int
  challenges :: "Challenge list"
  current_challenge_idx :: nat
  challenges_completed :: int

definition create_obstacles :: "Obstacle list" where
  "create_obstacles =
     map (\<lambda>(col, row, obs_type).
            \<lparr> obs_grid_col = col, obs_grid_row = row, obstacle_type = obs_type \<rparr>)
       [(2, 2, ''rock''), (2, 3, ''rock''), (3, 6, ''crate''), (4, 6, ''crate''),
        (7, 2, ''bush''), (8, 2, ''bush''), (9, 5, ''rock''), (10, 5, ''rock''),
        (6, 4, ''crate'')]"

definition gem_positions :: "(int \<times> int \<times> string) list" where
  "gem_positions =
     [(1, 1, ''ruby''), (10, 1, ''sapphire''), (0, 7, ''emerald''), (11, 8, ''gold''),
      (6, 7, ''diamond''), (3, 3, ''ruby''), (8, 5, ''emerald'')]"

text \<open>\<^verbatim>\<open>Game._create_collectibles\<close>, from the obstacles of the game.\<close>

definition create_collectibles :: "Obstacle list \<Rightarrow> Collectible list" where
  "create_collectibles obs =
     (let blocked_positions =
            insert (5, 4) (set (map (\<lambda>ob. (obs_grid_col ob, obs_grid_row ob)) obs))
      in map (\<lambda>(col, row, ty). Collectible_init col row ty)
           (filter (\<lambda>(col, row, ty). (col, row) \<notin> blocked_positions) gem_positions))"

definition create_challenges :: "Challenge list" where
  "create_challenges =
     [Challenge_init ''First Steps'' ''Move to the ruby gem at (1, 1)!'' 1 1 25,
      Challenge_init ''Adventure Awaits'' ''Find the diamond at (6, 7)!'' 6 7 50,
      Challenge_init ''Explorer'' ''Reach the corner at (11, 8)!'' 11 8 75]"

definition show_current_challenge :: "Game \<Rightarrow> Game" where
  "show_current_challenge g =
     (if current_challenge_idx g < length (challenges g) then
        let challenge = challenges g ! current_challenge_idx g in
        g\<lparr> console :=
             add_output '''' COLOR_TEXT_MUTED
            (add_output (''   Reward: '' @ str_int (reward challenge) @ '' points'') COLOR_SUCCESS
            (add_output (''   '' @ description challenge) COLOR_TEXT_SECONDARY
            (add_output (''   '' @ title challenge) COLOR_ACCENT
            (add_output ([CHR 0xF0, CHR 0x9F, CHR 0x8E, CHR 0xAF] @ '' NEW CHALLENGE!'') COLOR_WARNING
            (add_output '''' COLOR_TEXT_MUTED (console g)))))) \<rparr>
      else g)"

text \<open>\<^verbatim>\<open>Game.__init__\<close>.\<close>

definition Game_init :: Game where
  "Game_init =
     show_current_challenge
       \<lparr> obstacles = create_obstacles,
         collectibles = create_collectibles create_obstacles,
         hero = Hero_init (Player_init PLAYER_START_COL PLAYER_START_ROW create_obstacles),
         console = Console_init,
         score = 0, gems_collected = 0, commands_executed = 0, successful_moves = 0,
         challenges = create_challenges, current_challenge_idx = 0,
         challenges_completed = 0 \<rparr>"

text \<open>
  \<^verbatim>\<open>Game._check_collections\<close>: the loop over the collectibles, which returns the gems
  after the loop and the game with its counters and console updated.
\<close>

fun collect_loop :: "Collectible list \<Rightarrow> Game \<Rightarrow> Collectible list \<times> Game" where
  "collect_loop [] g = ([], g)"
| "collect_loop (gem # rest) g =
     (if \<not> collected gem \<and> gem_grid_col gem = grid_col (player (hero g))
           \<and> gem_grid_row gem = grid_row (player (hero g))
      then
        let g1 = g\<lparr> gems_collected := gems_collected g + 1,
                    score := score g + gem_value gem,
                    console := add_success (''Collected '' @ title_case (gem_type gem) @ '' gem! +''
                                 @ str_int (gem_value gem) @ '' points'') (console g) \<rparr>;
            (rest1, g2) = collect_loop rest g1
        in (gem\<lparr> collected := True \<rparr> # rest1, g2)
      else
        let (rest1, g2) = collect_loop rest g in (gem # rest1, g2))"

definition check_collections :: "Game \<Rightarrow> Game" where
  "check_collections g =
     (let (gems, g1) = collect_loop (collectibles g) g in g1\<lparr> collectibles := gems \<rparr>)"

text \<open>\<^verbatim>\<open>Game._check_challenge\<close>.\<close>

definition check_challenge :: "Game \<Rightarrow> Game" where
  "check_challenge g =
     (if current_challenge_idx g \<ge> length (challenges g) then g
      else
        let challenge = challenges g ! current_challenge_idx g in
        if \<not> completed challenge then
          (case check_completion (grid_col (player (hero g))) (grid_row (player (hero g))) challenge of
             (True, challenge1) \<Rightarrow>
               let g1 = g\<lparr> challenges := (challenges g)[current_challenge_idx g := challenge1],
                           challenges_completed := challenges_completed g + 1,
                           score := score g + reward challenge1,
                           console :=
                             add_output (''   +'' @ str_int (reward challenge1) @ '' bonus points!'') COLOR_WARNING
                            (add_output (''   '' @ title challenge1 @ '' finished!'') COLOR_ACCENT
                            (add_output ([CHR 0xF0, CHR 0x9F, CHR 0x8F, CHR 0x86] @ '' CHALLENGE COMPLETE!'') COLOR_SUCCESS
                            (add_output '''' COLOR_TEXT_MUTED (console g)))) \<rparr>;
                   g2 = g1\<lparr> current_challenge_idx := current_challenge_idx g1 + 1 \<rparr>
               in if current_challenge_idx g2 < length (challenges g2)
                  then show_current_challenge g2
                  else g2\<lparr> console :=
                             add_output ''   You are a true Code Warrior!'' COLOR_ACCENT
                            (add_output ([CHR 0xF0, CHR 0x9F, CHR 0x8E, CHR 0x89] @ '' ALL CHALLENGES COMPLETE!'') COLOR_SUCCESS
                            (add_output '''' COLOR_TEXT_MUTED (console g2))) \<rparr>
           | (False, challenge1) \<Rightarrow> g)
        else g)"

text \<open>\<^verbatim>\<open>Game._update\<close>: one tick.\<close>

definition update :: "Game \<Rightarrow> Game" where
  "update g =
     check_challenge (check_collections
       (g\<lparr> hero := (hero g)\<lparr> player := Player_update (player (hero g)) \<rparr> \<rparr>))"

subsection \<open>The command interpreter\<close>

text \<open>
  \<^verbatim>\<open>re.match(r'^hero\.(\w+)\((.*)\)$', command)\<close>: the two groups, or \<open>None\<close>. The method
  name is the longest run of word characters after the prefix (the next character must
  be the parenthesis); \<^verbatim>\<open>.\<close> does not match a newline, and \<^verbatim>\<open>$\<close> matches at the end or
  before a last newline. The word characters are the ASCII ones. Python's \<^verbatim>\<open>\w\<close> also
  matches the letters and digits beyond ASCII, so a method name with such a letter is a
  syntax error here and an unknown method there; no statement below runs the pattern on
  a method name outside ASCII.
\<close>

definition is_word_char :: "char \<Rightarrow> bool" where
  "is_word_char c = (c \<in> set (LOWERCASE @ UPPERCASE @ DIGITS @ ''_''))"

definition NEWLINE :: char where "NEWLINE = CHR 0x0A"

definition match_hero_call :: "string \<Rightarrow> (string \<times> string) option" where
  "match_hero_call command =
     (if \<not> prefix ''hero.'' command then None
      else
        let rest = drop 5 command;
            name = takeWhile is_word_char rest;
            after = dropWhile is_word_char rest
        in if name = [] then None
           else (case after of
                   [] \<Rightarrow> None
                 | c # body0 \<Rightarrow>
                     if c \<noteq> CHR ''('' then None
                     else
                       let body = (if body0 \<noteq> [] \<and> last body0 = NEWLINE then butlast body0 else body0)
                       in if body \<noteq> [] \<and> last body = CHR '')'' \<and> NEWLINE \<notin> set (butlast body)
                          then Some (name, butlast body)
                          else None))"

text \<open>
  \<^verbatim>\<open>getattr(self.hero, method_name)\<close> and its call, with the argument if one was given.
  Only \<^verbatim>\<open>say\<close> takes an argument (by default \<^verbatim>\<open>"Hello!"\<close>); a call of another method with
  an argument raises \<^verbatim>\<open>TypeError\<close> before the method runs.
\<close>

definition HERO_METHODS :: "string list" where
  "HERO_METHODS =
     [''move_right'', ''move_left'', ''move_up'', ''move_down'', ''say'', ''spin'',
      ''dance'', ''jump'', ''attack'', ''defend'', ''collect'']"

definition hasattr_hero :: "string \<Rightarrow> bool" where
  "hasattr_hero name = (name \<in> set HERO_METHODS)"

definition call_no_arg :: "string \<Rightarrow> Hero \<Rightarrow> string \<times> Hero" where
  "call_no_arg name h =
     (if name = ''move_right'' then Hero_move_right h
      else if name = ''move_left'' then Hero_move_left h
      else if name = ''move_up'' then Hero_move_up h
      else if name = ''move_down'' then Hero_move_down h
      else if name = ''say'' then Hero_say (PyStr ''Hello!'') h
      else if name = ''spin'' then Hero_spin h
      else if name = ''dance'' then Hero_dance h
      else if name = ''jump'' then Hero_jump h
      else if name = ''attack'' then Hero_attack h
      else if name = ''defend'' then Hero_defend h
      else Hero_collect h)"

definition call_method :: "string \<Rightarrow> py_value option \<Rightarrow> Hero \<Rightarrow> py_exception + string \<times> Hero" where
  "call_method name arg h =
     (case arg of
        None \<Rightarrow> Inr (call_no_arg name h)
      | Some v \<Rightarrow> if name = ''say'' then Inr (Hero_say v h) else Inl TypeError)"

text \<open>
  \<^verbatim>\<open>Game._execute_hero_command\<close>. Python's built-in \<^verbatim>\<open>eval\<close> is the parameter \<open>py_eval\<close>.
  The argument is evaluated inside the method, with the game (\<^verbatim>\<open>self\<close>) in scope, so its
  evaluation can change the game: \<open>py_eval\<close> maps the argument text and the game to the
  value (\<open>None\<close> when the evaluation raises) and the game after the evaluation. The
  method is called on the hero of that game (the evaluation may change the state of the
  hero and of the player, the objects stay the same). The result is the exception raised
  or the returned message (\<open>None\<close> for Python's \<^verbatim>\<open>None\<close>), and the game after the call.
\<close>

type_synonym evaluator = "string \<Rightarrow> Game \<Rightarrow> py_value option \<times> Game"

definition invoke ::
  "string \<Rightarrow> py_value option \<Rightarrow> Game \<Rightarrow> (py_exception + string option) \<times> Game" where
  "invoke method_name arg g =
     (case call_method method_name arg (hero g) of
        Inl e \<Rightarrow> (Inl e, g)
      | Inr (msg, h1) \<Rightarrow> (Inr (Some msg), g\<lparr> hero := h1 \<rparr>))"

definition execute_hero_command ::
  "evaluator \<Rightarrow> string \<Rightarrow> Game \<Rightarrow> (py_exception + string option) \<times> Game" where
  "execute_hero_command py_eval command g =
     (if command = [] then (Inr None, g)
      else if \<not> startswith command ''hero.'' then (Inl NameError, g)
      else
        (case match_hero_call command of
           None \<Rightarrow> (Inl SyntaxError, g)
         | Some (method_name, group2) \<Rightarrow>
             let args_str = strip group2;
                 valid_methods = VALID_HERO_METHODS @ [''spin'', ''dance'', ''collect'']
             in if method_name \<notin> set valid_methods then (Inl AttributeError, g)
                else if \<not> hasattr_hero method_name then (Inl AttributeError, g)
                else if args_str \<noteq> [] then
                  (if startswith args_str ''\"'' \<and> endswith args_str ''\"''
                   then invoke method_name (Some (PyStr (butlast (tl args_str)))) g
                   else if startswith args_str [CHR 0x27] \<and> endswith args_str [CHR 0x27]
                   then invoke method_name (Some (PyStr (butlast (tl args_str)))) g
                   else
                     (case py_eval args_str g of
                        (None, g1) \<Rightarrow> (Inl SyntaxError, g1)
                      | (Some arg, g1) \<Rightarrow>
                          (case invoke method_name (Some arg) g1 of
                             (Inl e, g2) \<Rightarrow> (Inl SyntaxError, g2)
                           | (Inr result, g2) \<Rightarrow> (Inr result, g2))))
                else invoke method_name None g))"

definition show_help :: "Game \<Rightarrow> Game" where
  "show_help g =
     g\<lparr> console :=
          add_output '''' COLOR_TEXT_MUTED
         (add_output ''  clear - Clear console'' COLOR_TEXT_SECONDARY
         (add_output ''  hint  - Get a hint'' COLOR_TEXT_SECONDARY
         (add_output ''  help  - Show this help'' COLOR_TEXT_SECONDARY
         (add_output ([CHR 0xF0, CHR 0x9F, CHR 0x93, CHR 0x96] @ '' Special Commands:'') COLOR_ACCENT
         (add_output '''' COLOR_TEXT_MUTED
         (add_output ''  hero.say('text')   - Speak'' COLOR_TEXT_SECONDARY
         (add_output ''  hero.dance()       - Do a dance'' COLOR_TEXT_SECONDARY
         (add_output ''  hero.spin()        - Spin around'' COLOR_TEXT_SECONDARY
         (add_output ''  hero.move_down()   - Move down'' COLOR_TEXT_SECONDARY
         (add_output ''  hero.move_up()     - Move up'' COLOR_TEXT_SECONDARY
         (add_output ''  hero.move_left()   - Move left'' COLOR_TEXT_SECONDARY
         (add_output ''  hero.move_right()  - Move right'' COLOR_TEXT_SECONDARY
         (add_output ([CHR 0xF0, CHR 0x9F, CHR 0x93, CHR 0x96] @ '' Available Commands:'') COLOR_ACCENT
         (add_output '''' COLOR_TEXT_MUTED (console g))))))))))))))) \<rparr>"

definition add_outputs :: "string list \<Rightarrow> Color \<Rightarrow> Console \<Rightarrow> Console" where
  "add_outputs txts col c = foldl (\<lambda>c1 txt. add_output txt col c1) c txts"

definition show_hint :: "Game \<Rightarrow> Game" where
  "show_hint g =
     (if current_challenge_idx g \<ge> length (challenges g)
      then g\<lparr> console := add_info ''All challenges complete! Try collecting all gems.'' (console g) \<rparr>
      else
        let challenge = challenges g ! current_challenge_idx g;
            dx = target_col challenge - grid_col (player (hero g));
            dy = target_row challenge - grid_row (player (hero g));
            hints =
              (if dx > 0 then [''Move right '' @ str_int dx @ '' times'']
               else if dx < 0 then [''Move left '' @ str_int (abs dx) @ '' times'']
               else [])
              @ (if dy > 0 then [''Move down '' @ str_int dy @ '' times'']
                 else if dy < 0 then [''Move up '' @ str_int (abs dy) @ '' times'']
                 else [])
        in g\<lparr> console :=
               add_output '''' COLOR_TEXT_MUTED
              (add_output ''   (Watch out for obstacles!)'' COLOR_TEXT_MUTED
              (add_outputs (map (\<lambda>hint. ''   '' @ hint) hints) COLOR_TEXT_SECONDARY
              (add_output ([CHR 0xF0, CHR 0x9F, CHR 0x92, CHR 0xA1] @ '' Hint:'') COLOR_WARNING
              (add_output '''' COLOR_TEXT_MUTED (console g))))) \<rparr>)"

text \<open>
  \<^verbatim>\<open>Game._handle_command\<close>: the try statement maps each exception to the error type it
  passes to the console.
\<close>

definition error_type_of :: "py_exception \<Rightarrow> string" where
  "error_type_of e =
     (case e of SyntaxError \<Rightarrow> ''syntax'' | NameError \<Rightarrow> ''name''
      | AttributeError \<Rightarrow> ''unknown_method'' | TypeError \<Rightarrow> ''unknown'')"

definition handle_command :: "evaluator \<Rightarrow> string \<Rightarrow> Game \<Rightarrow> Game" where
  "handle_command py_eval command0 g0 =
     (let g = g0\<lparr> commands_executed := commands_executed g0 + 1 \<rparr>;
          command = strip command0
      in if command = [] then g
         else if lower command = ''help'' then show_help g
         else if lower command = ''clear'' then g\<lparr> console := Console_clear (console g) \<rparr>
         else if lower command = ''hint'' then show_hint g
         else
           (case execute_hero_command py_eval command g of
              (Inr result, g1) \<Rightarrow>
                (case result of
                   None \<Rightarrow> g1
                 | Some msg \<Rightarrow>
                     if msg = [] then g1
                     else
                       let g2 = g1\<lparr> console := add_success msg (console g1) \<rparr>
                       in if contains msg ''Moving''
                          then g2\<lparr> successful_moves := successful_moves g2 + 1 \<rparr>
                          else g2)
            | (Inl e, g1) \<Rightarrow>
                g1\<lparr> console := add_educational_error command (error_type_of e) (console g1) \<rparr>))"

text \<open>\<^verbatim>\<open>Game._reset_game\<close>.\<close>

definition reset_game :: "Game \<Rightarrow> Game" where
  "reset_game g =
     (let g1 = g\<lparr> hero := (hero g)\<lparr> player := reset_position (player (hero g)) \<rparr> \<rparr>;
          g2 = g1\<lparr> collectibles := create_collectibles (obstacles g1) \<rparr>;
          g3 = g2\<lparr> challenges := map (\<lambda>challenge. challenge\<lparr> completed := False \<rparr>) (challenges g2),
                     current_challenge_idx := 0 \<rparr>;
          g4 = g3\<lparr> score := 0, gems_collected := 0, commands_executed := 0,
                     successful_moves := 0, challenges_completed := 0 \<rparr>;
          g5 = g4\<lparr> console := add_info ''Game reset! Ready for new adventure.''
                                  (Console_clear (console g4)) \<rparr>
      in show_current_challenge g5)"

declare replace.simps [simp del] str_nat.simps [simp del] limit_lines.simps [simp del]

section \<open>Notions of the statements\<close>

text \<open>
  The four move requests, the cell each one heads for, and the messages of their
  outcomes. An actor is idle when it is neither moving, spinning nor dancing.
\<close>

datatype move_request = Move_right | Move_left | Move_up | Move_down

fun Player_request :: "move_request \<Rightarrow> Player \<Rightarrow> bool \<times> Player" where
  "Player_request Move_right = move_right"
| "Player_request Move_left = move_left"
| "Player_request Move_up = move_up"
| "Player_request Move_down = move_down"

fun Hero_request :: "move_request \<Rightarrow> Hero \<Rightarrow> string \<times> Hero" where
  "Hero_request Move_right = Hero_move_right"
| "Hero_request Move_left = Hero_move_left"
| "Hero_request Move_up = Hero_move_up"
| "Hero_request Move_down = Hero_move_down"

fun toward :: "move_request \<Rightarrow> int \<times> int \<Rightarrow> int \<times> int" where
  "toward Move_right (col, row) = (col + 1, row)"
| "toward Move_left (col, row) = (col - 1, row)"
| "toward Move_up (col, row) = (col, row - 1)"
| "toward Move_down (col, row) = (col, row + 1)"

fun request_direction :: "move_request \<Rightarrow> Direction" where
  "request_direction Move_right = RIGHT"
| "request_direction Move_left = LEFT"
| "request_direction Move_up = UP"
| "request_direction Move_down = DOWN"

fun moving_result :: "move_request \<Rightarrow> string" where
  "moving_result Move_right = MSG_MOVING_RIGHT"
| "moving_result Move_left = MSG_MOVING_LEFT"
| "moving_result Move_up = MSG_MOVING_UP"
| "moving_result Move_down = MSG_MOVING_DOWN"

fun blocked_result :: "move_request \<Rightarrow> string" where
  "blocked_result Move_right = ''Can't move right - blocked!''"
| "blocked_result Move_left = ''Can't move left - blocked!''"
| "blocked_result Move_up = ''Can't move up - blocked!''"
| "blocked_result Move_down = ''Can't move down - blocked!''"

definition idle :: "Player \<Rightarrow> bool" where
  "idle p = (\<not> is_moving p \<and> \<not> is_spinning p \<and> \<not> is_dancing p)"

definition within_bounds :: "int \<Rightarrow> int \<Rightarrow> bool" where
  "within_bounds col row = (0 \<le> col \<and> col < GRID_COLS \<and> 0 \<le> row \<and> row < GRID_ROWS)"

definition position :: "Player \<Rightarrow> int \<times> int" where
  "position p = (grid_col p, grid_row p)"

text \<open>The messages with which a hero method turns a request down.\<close>

definition busy_results :: "string list" where
  "busy_results = [MSG_STILL_MOVING, MSG_BUSY_PERFORMING]"

definition rejection_results :: "string list" where
  "rejection_results =
     busy_results @ map blocked_result [Move_right, Move_left, Move_up, Move_down]
     @ [''Can't spin right now!'', ''Can't dance right now!'']"

text \<open>
  A hero method succeeds untouched when it leaves the player as it is and answers with a
  message that is none of the rejections, recorded as the last result.
\<close>

definition succeeds_untouched :: "(Hero \<Rightarrow> string \<times> Hero) \<Rightarrow> Hero \<Rightarrow> bool" where
  "succeeds_untouched m h =
     (player (snd (m h)) = player h
      \<and> fst (m h) \<notin> set rejection_results
      \<and> last_command_result (snd (m h)) = Some (fst (m h)))"

text \<open>
  The blocks of lines with which the console reports a failed command, and the console
  after a block has been added to it line by line.
\<close>

definition out_line :: "string \<Rightarrow> Color \<Rightarrow> string \<Rightarrow> OutputLine" where
  "out_line txt col ty = \<lparr> line_text = txt, color = col, line_type = ty \<rparr>"

definition emit :: "OutputLine list \<Rightarrow> Console \<Rightarrow> Console" where
  "emit ls c = foldl (\<lambda>c1 l. add_output_typed (line_text l) (color l) (line_type l) c1) c ls"

definition suggestion_lines :: "string \<Rightarrow> OutputLine list" where
  "suggestion_lines canonical =
     [out_line '''' COLOR_TEXT_MUTED ''normal'',
      out_line (BALLOT_X @ '' Oops! That's not quite right.'') COLOR_ERROR ''error'',
      out_line (''  Did you mean: hero.'' @ canonical @ ''() ?'') COLOR_WARNING ''normal'',
      out_line ''  Tip: Python is picky about spelling!'' COLOR_TEXT_MUTED ''normal'',
      out_line '''' COLOR_TEXT_MUTED ''normal'']"

definition namespace_lines :: "OutputLine list" where
  "namespace_lines =
     [out_line '''' COLOR_TEXT_MUTED ''normal'',
      out_line (BALLOT_X @ '' Name not recognized!'') COLOR_ERROR ''error'',
      out_line ''  Did you forget 'hero.' at the start?'' COLOR_WARNING ''normal'',
      out_line (''  Commands must start with 'hero.'' @ [CHR 0x27]) COLOR_TEXT_MUTED ''normal'',
      out_line '''' COLOR_TEXT_MUTED ''normal'']"

definition syntax_lines :: "OutputLine list" where
  "syntax_lines =
     [out_line '''' COLOR_TEXT_MUTED ''normal'',
      out_line (BALLOT_X @ '' Syntax Error!'') COLOR_ERROR ''error'',
      out_line ''  Check your parentheses () and dots .'' COLOR_WARNING ''normal'',
      out_line ''  Example: hero.move_right()'' COLOR_SUCCESS ''normal'',
      out_line '''' COLOR_TEXT_MUTED ''normal'']"

definition unknown_method_lines :: "OutputLine list" where
  "unknown_method_lines =
     [out_line '''' COLOR_TEXT_MUTED ''normal'',
      out_line (BALLOT_X @ '' Unknown command!'') COLOR_ERROR ''error'',
      out_line ''  The hero doesn't know how to do that.'' COLOR_WARNING ''normal'',
      out_line ''  Try: move_right, move_left, move_up, move_down'' COLOR_TEXT_MUTED ''normal'',
      out_line '''' COLOR_TEXT_MUTED ''normal'']"

definition KEYWORDS :: "string list" where
  "KEYWORDS = [''help'', ''clear'', ''hint'']"

text \<open>
  A session is a sequence of events: a tick of the game loop, a command submitted on the
  console (with the evaluator of its argument) and a reset. The current challenge is in
  order when the challenges before the index are exactly the completed ones; the
  lowest incomplete challenge is the first one whose flag is not set.
\<close>

datatype event = Tick | Command evaluator string | Reset

fun step :: "event \<Rightarrow> Game \<Rightarrow> Game" where
  "step Tick g = update g"
| "step (Command py_eval command) g = handle_command py_eval command g"
| "step Reset g = reset_game g"

definition run :: "event list \<Rightarrow> Game \<Rightarrow> Game" where
  "run es g = foldl (\<lambda>g1 e. step e g1) g es"

text \<open>
  An evaluator is free of effects when it leaves every game as it is; the events of a
  session are plain when the evaluators of its commands are.
\<close>

definition effect_free :: "evaluator \<Rightarrow> bool" where
  "effect_free py_eval = (\<forall>txt g. snd (py_eval txt g) = g)"

fun plain_event :: "event \<Rightarrow> bool" where
  "plain_event Tick = True"
| "plain_event (Command py_eval command) = effect_free py_eval"
| "plain_event Reset = True"

definition plain :: "event list \<Rightarrow> bool" where
  "plain es = list_all plain_event es"

definition no_reset :: "event list \<Rightarrow> bool" where
  "no_reset es = (Reset \<notin> set es)"

definition lowest_incomplete :: "Challenge list \<Rightarrow> nat" where
  "lowest_incomplete chs = length (takeWhile completed chs)"

definition in_order :: "Game \<Rightarrow> bool" where
  "in_order g =
     (current_challenge_idx g \<le> length (challenges g)
      \<and> map completed (challenges g) =
          replicate (current_challenge_idx g) True
          @ replicate (length (challenges g) - current_challenge_idx g) False)"

definition on_cell :: "Game \<Rightarrow> int \<Rightarrow> int \<Rightarrow> bool" where
  "on_cell g col row = (grid_col (player (hero g)) = col \<and> grid_row (player (hero g)) = row)"

text \<open>
  What a list of flagged items gains from one state to a later one: the worth of the
  items whose flag was not set before and is set after, and their number.
\<close>

definition gained :: "('a \<Rightarrow> bool) \<Rightarrow> ('a \<Rightarrow> int) \<Rightarrow> 'a list \<Rightarrow> 'a list \<Rightarrow> int" where
  "gained flag worth before after =
     sum_list (map (\<lambda>(b, a). if \<not> flag b \<and> flag a then worth b else 0) (zip before after))"

definition newly :: "('a \<Rightarrow> bool) \<Rightarrow> 'a list \<Rightarrow> 'a list \<Rightarrow> int" where
  "newly flag before after = gained flag (\<lambda>x. 1) before after"

text \<open>The collectibles stay the same gems, and a collected gem stays collected.\<close>

definition gems_kept :: "Collectible list \<Rightarrow> Collectible list \<Rightarrow> bool" where
  "gems_kept before after =
     list_all2 (\<lambda>b a. a = b\<lparr> collected := collected a \<rparr> \<and> (collected b \<longrightarrow> collected a))
       before after"

definition challenges_kept :: "Challenge list \<Rightarrow> Challenge list \<Rightarrow> bool" where
  "challenges_kept before after =
     list_all2 (\<lambda>b a. a = b\<lparr> completed := completed a \<rparr> \<and> (completed b \<longrightarrow> completed a))
       before after"

subsection \<open>Arguments that change the game\<close>

text \<open>
  \<^verbatim>\<open>eval(args_str)\<close> runs inside \<^verbatim>\<open>Game._execute_hero_command\<close>, where \<^verbatim>\<open>self\<close> is the game.
  The two evaluators below are Python's \<^verbatim>\<open>eval\<close> on one argument text each, a call of the
  built-in \<^verbatim>\<open>setattr\<close>, which makes the assignment and returns \<^verbatim>\<open>None\<close>:
  \<^verbatim>\<open>setattr(self, 'current_challenge_idx', 2)\<close> sets the index of the current challenge, and
  \<^verbatim>\<open>setattr(self.collectibles[5], 'collected', False)\<close> clears the flag of the sixth
  collectible (\<^verbatim>\<open>IndexError\<close> when the list is shorter). Only these texts are modelled: on
  every other text the evaluators answer as for an evaluation that raises.
\<close>

definition eval_challenge_index :: evaluator where
  "eval_challenge_index txt g =
     (if txt = ''setattr(self, 'current_challenge_idx', 2)''
      then (Some PyNone, g\<lparr> current_challenge_idx := 2 \<rparr>)
      else (None, g))"

definition eval_uncollect :: evaluator where
  "eval_uncollect txt g =
     (if txt = ''setattr(self.collectibles[5], 'collected', False)''
      then (if 5 < length (collectibles g)
            then (Some PyNone,
                  g\<lparr> collectibles := (collectibles g)[5 := (collectibles g ! 5)\<lparr> collected := False \<rparr>] \<rparr>)
            else (None, g))
      else (None, g))"

text \<open>
  The walk from the start cell \<open>(5, 4)\<close> to the ruby on \<open>(3, 3)\<close>: two steps to the left,
  each followed by the nine ticks of its animation, a step up and the tick after it.
\<close>

definition ruby_walk :: "event list" where
  "ruby_walk =
     Command eval_uncollect ''hero.move_left()'' # replicate 9 Tick
     @ Command eval_uncollect ''hero.move_left()'' # replicate 9 Tick
     @ [Command eval_uncollect ''hero.move_up()'', Tick]"

section \<open>Auxiliary facts\<close>

lemmas settings_defs =
  TILE_SIZE_def GRID_COLS_def GRID_ROWS_def GAME_AREA_X_def GAME_AREA_Y_def
  PLAYER_START_COL_def PLAYER_START_ROW_def PLAYER_MOVE_SPEED_def


section \<open>The movement state machine\<close>

lemma try_move_success:
  assumes "idle p" and "within_bounds (grid_col p + dx) (grid_row p + dy)"
    and "\<not> is_blocked p (grid_col p + dx) (grid_row p + dy)"
  shows "try_move dx dy d p =
    (True, p\<lparr> grid_col := grid_col p + dx, grid_row := grid_row p + dy,
              target_x := grid_to_pixel_x (grid_col p + dx),
              target_y := grid_to_pixel_y (grid_row p + dy),
              direction := d, eye_direction := d, is_moving := True \<rparr>)"
  using assms by (simp add: try_move_def idle_def within_bounds_def Let_def)

lemma try_move_busy: "\<not> idle p \<Longrightarrow> try_move dx dy d p = (False, p)"
  by (auto simp add: try_move_def idle_def)

lemma try_move_refused:
  assumes "\<not> within_bounds (grid_col p + dx) (grid_row p + dy)
    \<or> is_blocked p (grid_col p + dx) (grid_row p + dy)"
  shows "try_move dx dy d p = (False, p)"
  using assms by (auto simp add: try_move_def within_bounds_def Let_def)

lemma Player_request_try_move:
  "Player_request r p =
     try_move (fst (toward r (0, 0))) (snd (toward r (0, 0))) (request_direction r) p"
  by (cases r) (simp_all add: move_right_def move_left_def move_up_def move_down_def)

lemma toward_delta:
  "toward r (c, w) = (c + fst (toward r (0, 0)), w + snd (toward r (0, 0)))"
  by (cases r) simp_all

lemma Hero_request_hero_move:
  "Hero_request r h = hero_move (Player_request r) (moving_result r) (blocked_result r) h"
  by (cases r)
    (simp_all add: Hero_move_right_def Hero_move_left_def Hero_move_up_def Hero_move_down_def)

lemma hero_move_started:
  assumes "player_move (player h) = (True, p1)"
  shows "hero_move player_move ok_msg blocked_msg h =
    (ok_msg, h\<lparr> player := p1, last_command_result := Some ok_msg \<rparr>)"
  using assms by (simp add: hero_move_def)

lemma hero_move_refused:
  assumes "player_move (player h) = (False, p1)"
  shows "hero_move player_move ok_msg blocked_msg h =
    (let msg = (if is_moving p1 then MSG_STILL_MOVING
                else if is_spinning p1 \<or> is_dancing p1 then MSG_BUSY_PERFORMING
                else blocked_msg)
     in (msg, h\<lparr> player := p1, last_command_result := Some msg \<rparr>))"
  using assms by (simp add: hero_move_def)

lemma hero_Game_init:
  "hero Game_init = Hero_init (Player_init PLAYER_START_COL PLAYER_START_ROW create_obstacles)"
  by (simp add: Game_init_def show_current_challenge_def Let_def)

lemma grid_to_pixel_x_inj: "grid_to_pixel_x a = grid_to_pixel_x b \<longleftrightarrow> a = b"
  by (simp add: grid_to_pixel_x_def settings_defs)

lemma grid_to_pixel_y_inj: "grid_to_pixel_y a = grid_to_pixel_y b \<longleftrightarrow> a = b"
  by (simp add: grid_to_pixel_y_def settings_defs)

lemma toward_neq: "toward r (c, w) \<noteq> (c, w)"
  by (cases r) simp_all

lemma busy_not_blocked: "msg \<in> set busy_results \<Longrightarrow> msg \<noteq> blocked_result r"
  by (cases r) (auto simp add: busy_results_def MSG_STILL_MOVING_def MSG_BUSY_PERFORMING_def)

text \<open>
  C1. A move request of an idle actor toward an adjacent cell that is inside the board
  and free of obstacles succeeds: the player method returns \<open>True\<close>, the hero answers
  with the message of a started move, and the logical grid position is the target cell
  in the state the request returns. The pixel position is still the one before the
  request and the pixel target is the centre of the new cell, so an actor that rested on
  the centre of its cell has not reached the target yet.
\<close>

theorem move_request_succeeds_immediately:
  assumes "idle (player h)"
    and "toward r (position (player h)) = (col, row)"
    and "within_bounds col row"
    and "\<not> is_blocked (player h) col row"
  shows "fst (Player_request r (player h)) = True
    \<and> Hero_request r h =
        (moving_result r,
         h\<lparr> player := snd (Player_request r (player h)),
            last_command_result := Some (moving_result r) \<rparr>)
    \<and> position (player (snd (Hero_request r h))) = (col, row)
    \<and> is_moving (player (snd (Hero_request r h)))
    \<and> pixel_x (player (snd (Hero_request r h))) = pixel_x (player h)
    \<and> pixel_y (player (snd (Hero_request r h))) = pixel_y (player h)
    \<and> target_x (player (snd (Hero_request r h))) = grid_to_pixel_x col
    \<and> target_y (player (snd (Hero_request r h))) = grid_to_pixel_y row
    \<and> (pixel_x (player h) = grid_to_pixel_x (grid_col (player h))
         \<and> pixel_y (player h) = grid_to_pixel_y (grid_row (player h))
       \<longrightarrow> (pixel_x (player (snd (Hero_request r h))), pixel_y (player (snd (Hero_request r h))))
            \<noteq> (target_x (player (snd (Hero_request r h))), target_y (player (snd (Hero_request r h)))))"
proof -
  let ?p = "player h"
  let ?dx = "fst (toward r (0, 0))" and ?dy = "snd (toward r (0, 0))"
  have cell: "col = grid_col ?p + ?dx" "row = grid_row ?p + ?dy"
    using assms(2) toward_delta [of r "grid_col ?p" "grid_row ?p"]
    by (simp_all add: position_def)
  have moved: "Player_request r ?p =
      (True, ?p\<lparr> grid_col := col, grid_row := row,
                 target_x := grid_to_pixel_x col, target_y := grid_to_pixel_y row,
                 direction := request_direction r, eye_direction := request_direction r,
                 is_moving := True \<rparr>)"
    using try_move_success [of ?p ?dx ?dy "request_direction r"] assms(1,3,4)
    by (simp add: Player_request_try_move cell)
  have differs: "(col, row) \<noteq> (grid_col ?p, grid_row ?p)"
    using assms(2) toward_neq [of r "grid_col ?p" "grid_row ?p"]
    by (simp add: position_def)
  have hero: "Hero_request r h =
      (moving_result r,
       h\<lparr> player := snd (Player_request r ?p),
          last_command_result := Some (moving_result r) \<rparr>)"
    using hero_move_started [of "Player_request r" h, OF moved]
    by (simp add: Hero_request_hero_move moved)
  show ?thesis
    using differs
    by (auto simp add: hero moved position_def grid_to_pixel_x_inj grid_to_pixel_y_inj)
qed

theorem move_request_succeeds_immediately_witness:
  "idle (player (hero Game_init))
   \<and> within_bounds 4 4
   \<and> \<not> is_blocked (player (hero Game_init)) 4 4
   \<and> fst (Hero_request Move_left (hero Game_init)) = MSG_MOVING_LEFT
   \<and> position (player (snd (Hero_request Move_left (hero Game_init)))) = (4, 4)
   \<and> is_moving (player (snd (Hero_request Move_left (hero Game_init))))
   \<and> pixel_x (player (snd (Hero_request Move_left (hero Game_init)))) = 392
   \<and> target_x (player (snd (Hero_request Move_left (hero Game_init)))) = 328"
proof -
  let ?h = "hero Game_init"
  have a: "idle (player ?h)"
    by (simp add: idle_def hero_Game_init Hero_init_def Player_init_def)
  have b: "toward Move_left (position (player ?h)) = (4, 4)"
    by (simp add: position_def hero_Game_init Hero_init_def Player_init_def settings_defs)
  have c: "within_bounds 4 4"
    by (simp add: within_bounds_def settings_defs)
  have d: "\<not> is_blocked (player ?h) 4 4"
    by (simp add: is_blocked_def hero_Game_init Hero_init_def Player_init_def create_obstacles_def)
  note w = move_request_succeeds_immediately [OF a b c d]
  have e: "fst (Hero_request Move_left ?h) = MSG_MOVING_LEFT"
    using w by simp
  have "pixel_x (player ?h) = 392"
    by (simp add: hero_Game_init Hero_init_def Player_init_def grid_to_pixel_x_def settings_defs)
  moreover have "pixel_x (player (snd (Hero_request Move_left ?h))) = pixel_x (player ?h)"
    using w by blast
  ultimately have f: "pixel_x (player (snd (Hero_request Move_left ?h))) = 392"
    by simp
  have "grid_to_pixel_x 4 = 328"
    by (simp add: grid_to_pixel_x_def settings_defs)
  moreover have "target_x (player (snd (Hero_request Move_left ?h))) = grid_to_pixel_x 4"
    using w by blast
  ultimately have g: "target_x (player (snd (Hero_request Move_left ?h))) = 328"
    by simp
  show ?thesis
    using a c d e f g w by blast
qed

text \<open>
  C2. A move request of an actor that is moving, spinning or dancing is turned down with
  a busy message (still moving, or busy performing), which is none of the blocked
  messages, and the player is left exactly as it was: grid position, pixel target and
  action flags included.
\<close>

theorem busy_move_request_rejected:
  assumes "is_moving (player h) \<or> is_spinning (player h) \<or> is_dancing (player h)"
  shows "Player_request r (player h) = (False, player h)
    \<and> fst (Hero_request r h) =
        (if is_moving (player h) then MSG_STILL_MOVING else MSG_BUSY_PERFORMING)
    \<and> fst (Hero_request r h) \<in> set busy_results
    \<and> (\<forall>r'. fst (Hero_request r h) \<noteq> blocked_result r')
    \<and> player (snd (Hero_request r h)) = player h"
proof -
  have busy: "Player_request r (player h) = (False, player h)"
    using assms by (simp add: Player_request_try_move try_move_busy idle_def)
  have msg: "fst (Hero_request r h) =
      (if is_moving (player h) then MSG_STILL_MOVING else MSG_BUSY_PERFORMING)"
    using assms hero_move_refused [of "Player_request r" h, OF busy]
    by (auto simp add: Hero_request_hero_move Let_def)
  have in_busy: "fst (Hero_request r h) \<in> set busy_results"
    by (simp add: msg busy_results_def)
  have same: "player (snd (Hero_request r h)) = player h"
    using hero_move_refused [of "Player_request r" h, OF busy]
    by (simp add: Hero_request_hero_move Let_def)
  show ?thesis
    using busy msg in_busy same busy_not_blocked [OF in_busy] by blast
qed

theorem busy_move_request_rejected_witness:
  "is_moving (player (snd (Hero_request Move_left (hero Game_init))))
   \<and> fst (Hero_request Move_up (snd (Hero_request Move_left (hero Game_init)))) = MSG_STILL_MOVING
   \<and> player (snd (Hero_request Move_up (snd (Hero_request Move_left (hero Game_init)))))
       = player (snd (Hero_request Move_left (hero Game_init)))"
proof -
  let ?h = "snd (Hero_request Move_left (hero Game_init))"
  have a: "is_moving (player ?h)"
    by (simp add: hero_Game_init Hero_init_def Player_init_def Hero_move_left_def hero_move_def
        move_left_def try_move_def is_blocked_def create_obstacles_def settings_defs Let_def)
  then have b: "is_moving (player ?h) \<or> is_spinning (player ?h) \<or> is_dancing (player ?h)"
    by simp
  show ?thesis
    using a busy_move_request_rejected [OF b, of Move_up] by simp
qed

text \<open>
  C3, as stated: the failure of a move request of an idle actor would tell a target
  outside the board from a target occupied by an obstacle. It does not: from (11, 4) the
  cell to the right is outside the board and free, from (5, 4) it is inside and holds a
  crate, and both requests return \<open>False\<close> and the same message.
\<close>

theorem move_failure_reason_counterexample:
  "\<not> within_bounds 12 4
   \<and> \<not> is_blocked (Player_init 11 4 create_obstacles) 12 4
   \<and> within_bounds 6 4
   \<and> is_blocked (Player_init 5 4 create_obstacles) 6 4
   \<and> fst (Player_request Move_right (Player_init 11 4 create_obstacles))
       = fst (Player_request Move_right (Player_init 5 4 create_obstacles))
   \<and> fst (Hero_request Move_right (Hero_init (Player_init 11 4 create_obstacles)))
       = fst (Hero_request Move_right (Hero_init (Player_init 5 4 create_obstacles)))"
  by (simp add: within_bounds_def is_blocked_def Player_init_def Hero_init_def
      create_obstacles_def Hero_move_right_def hero_move_def move_right_def try_move_def
      settings_defs Let_def)

text \<open>
  C3, amended. A move request of an idle actor whose target cell is outside the board or
  occupied by an obstacle fails and leaves the player as it was; in both cases the hero
  answers with the one blocked message of the direction, which is not a busy message,
  and records it as its last result.
\<close>

theorem refused_move_request_reports_blocked:
  assumes "idle (player h)"
    and "toward r (position (player h)) = (col, row)"
    and "\<not> within_bounds col row \<or> is_blocked (player h) col row"
  shows "Player_request r (player h) = (False, player h)
    \<and> Hero_request r h = (blocked_result r, h\<lparr> last_command_result := Some (blocked_result r) \<rparr>)
    \<and> player (snd (Hero_request r h)) = player h
    \<and> blocked_result r \<notin> set busy_results"
proof -
  let ?p = "player h"
  let ?dx = "fst (toward r (0, 0))" and ?dy = "snd (toward r (0, 0))"
  have cell: "col = grid_col ?p + ?dx" "row = grid_row ?p + ?dy"
    using assms(2) toward_delta [of r "grid_col ?p" "grid_row ?p"]
    by (simp_all add: position_def)
  have refused: "Player_request r ?p = (False, ?p)"
    using try_move_refused [of ?p ?dx ?dy "request_direction r"] assms(3)
    by (simp add: Player_request_try_move cell)
  have answer: "Hero_request r h =
      (blocked_result r, h\<lparr> last_command_result := Some (blocked_result r) \<rparr>)"
    using assms(1) hero_move_refused [of "Player_request r" h, OF refused]
    by (simp add: Hero_request_hero_move idle_def Let_def)
  have "blocked_result r \<notin> set busy_results"
    using busy_not_blocked [of "blocked_result r" r] by blast
  then show ?thesis
    using refused answer by simp
qed

theorem refused_move_request_reports_blocked_witness:
  "idle (Player_init 11 4 create_obstacles)
   \<and> \<not> within_bounds 12 4
   \<and> Hero_request Move_right (Hero_init (Player_init 11 4 create_obstacles)) =
       (''Can't move right - blocked!'',
        (Hero_init (Player_init 11 4 create_obstacles))
          \<lparr> last_command_result := Some ''Can't move right - blocked!'' \<rparr>)"
proof -
  let ?h = "Hero_init (Player_init 11 4 create_obstacles)"
  have a: "idle (player ?h)"
    by (simp add: idle_def Hero_init_def Player_init_def)
  have b: "toward Move_right (position (player ?h)) = (12, 4)"
    by (simp add: position_def Hero_init_def Player_init_def)
  have c: "\<not> within_bounds 12 4"
    by (simp add: within_bounds_def settings_defs)
  then have d: "\<not> within_bounds 12 4 \<or> is_blocked (player ?h) 12 4"
    by simp
  have e: "idle (Player_init 11 4 create_obstacles)"
    using a by (simp add: Hero_init_def)
  show ?thesis
    using c e refused_move_request_reports_blocked [OF a b d] by simp
qed

section \<open>The reset\<close>

lemma show_current_challenge_fields:
  "obstacles (show_current_challenge g) = obstacles g"
  "collectibles (show_current_challenge g) = collectibles g"
  "hero (show_current_challenge g) = hero g"
  "score (show_current_challenge g) = score g"
  "gems_collected (show_current_challenge g) = gems_collected g"
  "commands_executed (show_current_challenge g) = commands_executed g"
  "successful_moves (show_current_challenge g) = successful_moves g"
  "challenges (show_current_challenge g) = challenges g"
  "current_challenge_idx (show_current_challenge g) = current_challenge_idx g"
  "challenges_completed (show_current_challenge g) = challenges_completed g"
  by (simp_all add: show_current_challenge_def Let_def)

lemma create_collectibles_uncollected:
  "list_all (\<lambda>gem. \<not> collected gem) (create_collectibles obs)"
  by (simp add: create_collectibles_def Collectible_init_def list_all_iff split_beta)

lemma collectibles_Game_init:
  "collectibles Game_init = create_collectibles create_obstacles"
  by (simp add: Game_init_def show_current_challenge_fields)

text \<open>
  C9. Whatever the state of the session, the reset sets the score and the counters to 0,
  marks every challenge incomplete (and changes nothing else of it), sets the current
  challenge index to 0, replaces the collectibles by the canonical ones that lie on no
  obstacle and not on the start cell, all uncollected (with the obstacles of a fresh
  session these are the collectibles of a fresh session), puts the actor on its start
  cell, at rest on the centre of that cell with no action in progress, and leaves the
  obstacles of the game and of the player as they are.
\<close>

theorem reset_restores_session:
  "score (reset_game g) = 0
   \<and> gems_collected (reset_game g) = 0
   \<and> challenges_completed (reset_game g) = 0
   \<and> commands_executed (reset_game g) = 0
   \<and> successful_moves (reset_game g) = 0
   \<and> challenges (reset_game g) = map (\<lambda>ch. ch\<lparr> completed := False \<rparr>) (challenges g)
   \<and> list_all (\<lambda>ch. \<not> completed ch) (challenges (reset_game g))
   \<and> current_challenge_idx (reset_game g) = 0
   \<and> collectibles (reset_game g) = create_collectibles (obstacles g)
   \<and> list_all (\<lambda>gem. \<not> collected gem) (collectibles (reset_game g))
   \<and> (obstacles g = obstacles Game_init
        \<longrightarrow> collectibles (reset_game g) = collectibles Game_init)
   \<and> position (player (hero (reset_game g))) = (PLAYER_START_COL, PLAYER_START_ROW)
   \<and> idle (player (hero (reset_game g)))
   \<and> pixel_x (player (hero (reset_game g))) = grid_to_pixel_x PLAYER_START_COL
   \<and> pixel_y (player (hero (reset_game g))) = grid_to_pixel_y PLAYER_START_ROW
   \<and> target_x (player (hero (reset_game g))) = grid_to_pixel_x PLAYER_START_COL
   \<and> target_y (player (hero (reset_game g))) = grid_to_pixel_y PLAYER_START_ROW
   \<and> direction (player (hero (reset_game g))) = NONE
   \<and> obstacles (reset_game g) = obstacles g
   \<and> p_obstacles (player (hero (reset_game g))) = p_obstacles (player (hero g))"
proof -
  have fresh: "obstacles Game_init = create_obstacles"
    by (simp add: Game_init_def show_current_challenge_fields)
  have gems: "collectibles (reset_game g) = create_collectibles (obstacles g)"
    by (simp add: reset_game_def Let_def show_current_challenge_fields)
  have uncollected: "list_all (\<lambda>gem. \<not> collected gem) (collectibles (reset_game g))"
    by (simp add: gems create_collectibles_uncollected)
  have chs: "challenges (reset_game g) = map (\<lambda>ch. ch\<lparr> completed := False \<rparr>) (challenges g)"
    by (simp add: reset_game_def Let_def show_current_challenge_fields)
  have incomplete: "list_all (\<lambda>ch. \<not> completed ch) (challenges (reset_game g))"
    by (simp add: chs list_all_iff)
  have canonical: "obstacles g = obstacles Game_init
      \<longrightarrow> collectibles (reset_game g) = collectibles Game_init"
    by (simp add: gems fresh collectibles_Game_init)
  have rest: "score (reset_game g) = 0" "gems_collected (reset_game g) = 0"
    "challenges_completed (reset_game g) = 0" "commands_executed (reset_game g) = 0"
    "successful_moves (reset_game g) = 0" "current_challenge_idx (reset_game g) = 0"
    "obstacles (reset_game g) = obstacles g"
    by (simp_all add: reset_game_def Let_def show_current_challenge_fields)
  have actor: "hero (reset_game g) = (hero g)\<lparr> player := reset_position (player (hero g)) \<rparr>"
    by (simp add: reset_game_def Let_def show_current_challenge_fields)
  have placed: "position (player (hero (reset_game g))) = (PLAYER_START_COL, PLAYER_START_ROW)"
    "idle (player (hero (reset_game g)))"
    "pixel_x (player (hero (reset_game g))) = grid_to_pixel_x PLAYER_START_COL"
    "pixel_y (player (hero (reset_game g))) = grid_to_pixel_y PLAYER_START_ROW"
    "target_x (player (hero (reset_game g))) = grid_to_pixel_x PLAYER_START_COL"
    "target_y (player (hero (reset_game g))) = grid_to_pixel_y PLAYER_START_ROW"
    "direction (player (hero (reset_game g))) = NONE"
    "p_obstacles (player (hero (reset_game g))) = p_obstacles (player (hero g))"
    by (simp_all add: actor reset_position_def position_def idle_def)
  show ?thesis
    using gems uncollected chs incomplete canonical rest placed by blast
qed

theorem reset_restores_session_witness:
  "obstacles (Game_init\<lparr> score := 75, current_challenge_idx := 2 \<rparr>) = obstacles Game_init
   \<and> score (reset_game (Game_init\<lparr> score := 75, current_challenge_idx := 2 \<rparr>)) = 0
   \<and> current_challenge_idx (reset_game (Game_init\<lparr> score := 75, current_challenge_idx := 2 \<rparr>)) = 0
   \<and> collectibles (reset_game (Game_init\<lparr> score := 75, current_challenge_idx := 2 \<rparr>))
       = collectibles Game_init
   \<and> map (\<lambda>gem. (gem_grid_col gem, gem_grid_row gem, collected gem)) (collectibles Game_init)
       = [(1, 1, False), (10, 1, False), (0, 7, False), (11, 8, False), (6, 7, False),
          (3, 3, False), (8, 5, False)]"
proof -
  let ?g = "Game_init\<lparr> score := 75, current_challenge_idx := 2 \<rparr>"
  have a: "obstacles ?g = obstacles Game_init"
    by simp
  have b: "map (\<lambda>gem. (gem_grid_col gem, gem_grid_row gem, collected gem)) (collectibles Game_init)
       = [(1, 1, False), (10, 1, False), (0, 7, False), (11, 8, False), (6, 7, False),
          (3, 3, False), (8, 5, False)]"
    by (simp add: collectibles_Game_init create_collectibles_def create_obstacles_def
        gem_positions_def Collectible_init_def)
  note w = reset_restores_session [of ?g]
  have c: "collectibles (reset_game ?g) = collectibles Game_init"
    using w a by blast
  have d: "score (reset_game ?g) = 0" "current_challenge_idx (reset_game ?g) = 0"
    using w by blast+
  show ?thesis
    using a b c d by blast
qed

section \<open>The command interpreter\<close>

lemmas interp_defs =
  execute_hero_command_def invoke_def startswith_def endswith_def match_hero_call_def
  is_word_char_def LOWERCASE_def UPPERCASE_def DIGITS_def NEWLINE_def strip_def is_space_def
  VALID_HERO_METHODS_def hasattr_hero_def HERO_METHODS_def call_method_def call_no_arg_def

lemma rejection_results_unfold:
  "set rejection_results =
     {MSG_STILL_MOVING, MSG_BUSY_PERFORMING, ''Can't move right - blocked!'',
      ''Can't move left - blocked!'', ''Can't move up - blocked!'',
      ''Can't move down - blocked!'', ''Can't spin right now!'', ''Can't dance right now!''}"
  by (auto simp add: rejection_results_def busy_results_def)

lemma returning_untouched:
  assumes "msg \<notin> set rejection_results"
  shows "succeeds_untouched (returning msg) h"
  using assms by (simp add: succeeds_untouched_def returning_def)

subsection \<open>Educational errors\<close>

lemma educational_suggestion:
  assumes "map_of METHOD_SUGGESTIONS (stripped_cmd command) = Some canonical"
  shows "add_educational_error command error_type c = emit (suggestion_lines canonical) c"
  using assms
  by (simp add: add_educational_error_def emit_def suggestion_lines_def out_line_def
      add_output_def add_error_def Let_def)

lemma educational_name:
  assumes "map_of METHOD_SUGGESTIONS (stripped_cmd command) = None"
  shows "add_educational_error command ''name'' c = emit namespace_lines c"
  using assms
  by (simp add: add_educational_error_def emit_def namespace_lines_def out_line_def
      add_output_def add_error_def Let_def)

lemma limit_lines_drop:
  "limit_lines ls = drop (length ls - (CONSOLE_MAX_OUTPUT_LINES + 20)) ls"
proof (induction ls rule: limit_lines.induct)
  case (1 ls)
  show ?case
  proof (cases "length ls > CONSOLE_MAX_OUTPUT_LINES + 20")
    case True
    then have "ls \<noteq> []" by auto
    then obtain a rest where ls: "ls = a # rest" by (cases ls) auto
    have "limit_lines ls = limit_lines (tl ls)"
      using True by (subst limit_lines.simps) simp
    also have "\<dots> = drop (length (tl ls) - (CONSOLE_MAX_OUTPUT_LINES + 20)) (tl ls)"
      using "1.IH" True by simp
    also have "\<dots> = drop (length ls - (CONSOLE_MAX_OUTPUT_LINES + 20)) ls"
      using True by (simp add: ls Suc_diff_le)
    finally show ?thesis .
  next
    case False
    then show ?thesis by (subst limit_lines.simps) simp
  qed
qed

lemma suffix_limit_lines:
  assumes "length ls \<le> CONSOLE_MAX_OUTPUT_LINES + 20"
  shows "suffix ls (limit_lines (old @ ls))"
proof -
  have "length (old @ ls) - (CONSOLE_MAX_OUTPUT_LINES + 20) \<le> length old"
    using assms by simp
  then have "drop (length (old @ ls) - (CONSOLE_MAX_OUTPUT_LINES + 20)) (old @ ls)
      = drop (length (old @ ls) - (CONSOLE_MAX_OUTPUT_LINES + 20)) old @ ls"
    by simp
  then show ?thesis
    by (simp add: limit_lines_drop suffix_def del: drop_append)
qed

lemma limit_lines_absorb:
  "limit_lines (limit_lines old @ ls) = limit_lines (old @ ls)"
proof (cases "length old \<le> CONSOLE_MAX_OUTPUT_LINES + 20")
  case True
  then show ?thesis by (simp add: limit_lines_drop)
next
  case False
  let ?M = "CONSOLE_MAX_OUTPUT_LINES + 20"
  have len: "length (drop (length old - ?M) old) = ?M"
    using False by simp
  have "limit_lines (limit_lines old @ ls)
      = drop (length ls) (drop (length old - ?M) old @ ls)"
    using len by (simp add: limit_lines_drop)
  also have "\<dots> = drop (length ls + (length old - ?M)) old @ drop (length ls - ?M) ls"
    using len by simp
  also have "\<dots> = drop (length (old @ ls) - ?M) (old @ ls)"
  proof -
    have "length ls + (length old - ?M) = length (old @ ls) - ?M"
      using False by simp
    moreover have "length ls - ?M = length (old @ ls) - ?M - length old"
      using False by simp
    ultimately show ?thesis by simp
  qed
  finally show ?thesis by (simp add: limit_lines_drop)
qed

lemma OutputLine_eta:
  "\<lparr> line_text = line_text l, color = color l, line_type = line_type l \<rparr> = (l :: OutputLine)"
  by (cases l) simp

lemma output_lines_emit:
  assumes "ls \<noteq> []"
  shows "output_lines (emit ls c) = limit_lines (output_lines c @ ls)"
  using assms
proof (induction ls arbitrary: c)
  case Nil
  then show ?case by simp
next
  case (Cons l ls)
  let ?c1 = "add_output_typed (line_text l) (color l) (line_type l) c"
  show ?case
  proof (cases "ls = []")
    case True
    then show ?thesis
      by (simp add: emit_def add_output_typed_def OutputLine_eta)
  next
    case False
    have "output_lines (emit (l # ls) c) = output_lines (emit ls ?c1)"
      by (simp add: emit_def)
    also have "\<dots> = limit_lines (limit_lines (output_lines c @ [l]) @ ls)"
      using Cons.IH [OF False, of ?c1] by (simp add: add_output_typed_def OutputLine_eta)
    finally show ?thesis
      by (simp add: limit_lines_absorb)
  qed
qed

lemma emit_suffix:
  assumes "ls \<noteq> []" and "length ls \<le> CONSOLE_MAX_OUTPUT_LINES + 20"
  shows "suffix ls (output_lines (emit ls c))"
  using assms by (simp add: output_lines_emit suffix_limit_lines)

lemma suggestion_cases:
  assumes "(typo, canonical) \<in> set METHOD_SUGGESTIONS"
  shows "(typo, canonical) \<in>
     {(''moveright'', ''move_right''), (''moveleft'', ''move_left''),
      (''moveup'', ''move_up''), (''movedown'', ''move_down''),
      (''move_rigth'', ''move_right''), (''move_rigt'', ''move_right''),
      (''move_leftt'', ''move_left''), (''move_u'', ''move_up''),
      (''move_d'', ''move_down''), (''right'', ''move_right''),
      (''left'', ''move_left''), (''up'', ''move_up''), (''down'', ''move_down''),
      (''spinn'', ''spin''), (''dans'', ''dance''), (''dansce'', ''dance'')}"
  using assms unfolding METHOD_SUGGESTIONS_def by simp

lemma educational_unknown_method:
  assumes "map_of METHOD_SUGGESTIONS (stripped_cmd command) = None"
  shows "add_educational_error command ''unknown_method'' c = emit unknown_method_lines c"
  using assms
  by (simp add: add_educational_error_def emit_def unknown_method_lines_def out_line_def
      add_output_def add_error_def Let_def)

lemma failed_command_handled:
  assumes "strip raw \<noteq> []" and "lower (strip raw) \<notin> set KEYWORDS"
    and "execute_hero_command py_eval (strip raw)
           (g\<lparr> commands_executed := commands_executed g + 1 \<rparr>) = (Inl e, g1)"
  shows "handle_command py_eval raw g =
    g1\<lparr> console := add_educational_error (strip raw) (error_type_of e) (console g1) \<rparr>"
proof -
  have not_keyword: "lower (strip raw) \<noteq> ''help''" "lower (strip raw) \<noteq> ''clear''"
    "lower (strip raw) \<noteq> ''hint''"
    using assms(2) by (simp_all add: KEYWORDS_def)
  show ?thesis
    unfolding handle_command_def Let_def
    using assms(1,3) not_keyword by simp
qed

lemma typo_call_facts:
  assumes "(typo, canonical) \<in> set METHOD_SUGGESTIONS"
  shows "strip (''hero.'' @ typo @ ''()'') = ''hero.'' @ typo @ ''()''"
    and "lower (''hero.'' @ typo @ ''()'') \<notin> set KEYWORDS"
    and "stripped_cmd (''hero.'' @ typo @ ''()'') = typo"
    and "map_of METHOD_SUGGESTIONS typo = Some canonical"
    and "execute_hero_command py_eval (''hero.'' @ typo @ ''()'') g = (Inl AttributeError, g)"
  using suggestion_cases [OF assms]
  by (elim insertE emptyE; clarify;
      simp add: METHOD_SUGGESTIONS_def KEYWORDS_def strip_def is_space_def lower_def
        lower_char_def UPPERCASE_def LOWERCASE_def stripped_cmd_def replace.simps interp_defs)+

text \<open>
  C5, as stated: every command whose method token is a key of the misspelling table
  would be an unknown method reported with the spelling suggestion. The command
  \<^verbatim>\<open>hero.moveright(1)\<close> has the method token \<^verbatim>\<open>moveright\<close>, a key of the table, and is an
  unknown method; the console answers it with the bare block of an unknown command, and
  the line of the suggestion is nowhere in the output log.
\<close>

theorem typo_with_argument_counterexample:
  "match_hero_call ''hero.moveright(1)'' = Some (''moveright'', ''1'')
   \<and> map_of METHOD_SUGGESTIONS ''moveright'' = Some ''move_right''
   \<and> fst (execute_hero_command (\<lambda>txt g. (None, g)) ''hero.moveright(1)'' Game_init)
       = Inl AttributeError
   \<and> console (handle_command (\<lambda>txt g. (None, g)) ''hero.moveright(1)'' Game_init)
       = emit unknown_method_lines (console Game_init)
   \<and> out_line ''  Did you mean: hero.move_right() ?'' COLOR_WARNING ''normal''
       \<notin> set (output_lines
               (console (handle_command (\<lambda>txt g. (None, g)) ''hero.moveright(1)'' Game_init)))"
proof -
  let ?ev = "\<lambda>txt g. (None :: py_value option, g :: Game)"
  let ?g = "Game_init\<lparr> commands_executed := commands_executed Game_init + 1 \<rparr>"
  have s: "strip ''hero.moveright(1)'' = ''hero.moveright(1)''"
    by (simp add: strip_def is_space_def)
  have a: "match_hero_call ''hero.moveright(1)'' = Some (''moveright'', ''1'')"
    by (simp add: match_hero_call_def is_word_char_def LOWERCASE_def UPPERCASE_def DIGITS_def
        NEWLINE_def)
  have b: "map_of METHOD_SUGGESTIONS ''moveright'' = Some ''move_right''"
    by (simp add: METHOD_SUGGESTIONS_def)
  have raised: "execute_hero_command ?ev ''hero.moveright(1)'' g1 = (Inl AttributeError, g1)" for g1
    by (simp add: execute_hero_command_def a startswith_def VALID_HERO_METHODS_def strip_def
        is_space_def)
  have c: "strip ''hero.moveright(1)'' \<noteq> []"
    by (simp add: s)
  have d: "lower (strip ''hero.moveright(1)'') \<notin> set KEYWORDS"
    by (simp add: s KEYWORDS_def lower_def lower_char_def UPPERCASE_def LOWERCASE_def)
  have e: "map_of METHOD_SUGGESTIONS (stripped_cmd (strip ''hero.moveright(1)'')) = None"
    by (simp add: s stripped_cmd_def replace.simps strip_def is_space_def METHOD_SUGGESTIONS_def)
  have "handle_command ?ev ''hero.moveright(1)'' Game_init =
      ?g\<lparr> console := add_educational_error (strip ''hero.moveright(1)'')
                         (error_type_of AttributeError) (console ?g) \<rparr>"
    using c d by (rule failed_command_handled) (simp add: s raised)
  then have f: "console (handle_command ?ev ''hero.moveright(1)'' Game_init)
       = emit unknown_method_lines (console Game_init)"
    by (simp add: error_type_of_def educational_unknown_method [OF e])
  have h: "out_line ''  Did you mean: hero.move_right() ?'' COLOR_WARNING ''normal''
       \<notin> set (output_lines (emit unknown_method_lines (console Game_init)))"
    by (simp add: emit_def unknown_method_lines_def out_line_def Game_init_def
        show_current_challenge_def create_challenges_def Challenge_init_def Console_init_def
        add_welcome_message_def add_output_def add_output_typed_def limit_lines.simps
        CONSOLE_MAX_OUTPUT_LINES_def BOX_V_def BOX_H_def BALLOT_X_def str_int_def
        str_nat.simps digit_char_def DIGITS_def COLOR_WARNING_def COLOR_CONSOLE_BORDER_def
        COLOR_TEXT_MUTED_def Let_def)
  show ?thesis
    using a b f h by (simp add: raised)
qed

text \<open>
  C5, amended. For every key of the misspelling table the command \<^verbatim>\<open>hero.<key>()\<close> is an
  unknown method for the interpreter (\<^verbatim>\<open>AttributeError\<close>, error type \<^verbatim>\<open>unknown_method\<close>),
  and the console reports the block with the line "Did you mean: hero.<canonical>() ?"
  for the canonical method of the table, not the block of a bare unknown method; the
  block is the end of the output log after the command. In general a failing command
  gets that suggestion, whatever the classification of its failure, when its text
  without every \<^verbatim>\<open>hero.\<close> and \<^verbatim>\<open>()\<close>, trimmed, is the key; an unknown method whose text so
  stripped is no key of the table gets the bare block of an unknown command.
\<close>

theorem known_typo_yields_suggestion:
  assumes "(typo, canonical) \<in> set METHOD_SUGGESTIONS"
  shows "execute_hero_command py_eval (''hero.'' @ typo @ ''()'') g = (Inl AttributeError, g)
    \<and> error_type_of AttributeError = ''unknown_method''
    \<and> handle_command py_eval (''hero.'' @ typo @ ''()'') g =
        g\<lparr> commands_executed := commands_executed g + 1,
           console := emit (suggestion_lines canonical) (console g) \<rparr>
    \<and> suffix (suggestion_lines canonical)
        (output_lines (console (handle_command py_eval (''hero.'' @ typo @ ''()'') g)))
    \<and> out_line (''  Did you mean: hero.'' @ canonical @ ''() ?'') COLOR_WARNING ''normal''
        \<in> set (suggestion_lines canonical)
    \<and> suggestion_lines canonical \<noteq> unknown_method_lines
    \<and> (strip raw \<noteq> [] \<and> lower (strip raw) \<notin> set KEYWORDS
        \<and> execute_hero_command py_eval (strip raw)
              (g\<lparr> commands_executed := commands_executed g + 1 \<rparr>) = (Inl e, g1)
        \<and> stripped_cmd (strip raw) = typo
       \<longrightarrow> handle_command py_eval raw g =
             g1\<lparr> console := emit (suggestion_lines canonical) (console g1) \<rparr>)
    \<and> (strip raw \<noteq> [] \<and> lower (strip raw) \<notin> set KEYWORDS
        \<and> execute_hero_command py_eval (strip raw)
              (g\<lparr> commands_executed := commands_executed g + 1 \<rparr>) = (Inl AttributeError, g1)
        \<and> map_of METHOD_SUGGESTIONS (stripped_cmd (strip raw)) = None
       \<longrightarrow> handle_command py_eval raw g =
             g1\<lparr> console := emit unknown_method_lines (console g1) \<rparr>)"
proof -
  let ?cmd = "''hero.'' @ typo @ ''()''"
  let ?g = "g\<lparr> commands_executed := commands_executed g + 1 \<rparr>"
  note facts = typo_call_facts [OF assms]
  have et: "error_type_of AttributeError = ''unknown_method''"
    by (simp add: error_type_of_def)
  have general: "handle_command py_eval raw g =
      g1\<lparr> console := emit (suggestion_lines canonical) (console g1) \<rparr>"
    if "strip raw \<noteq> []" and "lower (strip raw) \<notin> set KEYWORDS"
      and "execute_hero_command py_eval (strip raw) ?g = (Inl e, g1)"
      and "stripped_cmd (strip raw) = typo"
    for raw e g1
  proof -
    have "map_of METHOD_SUGGESTIONS (stripped_cmd (strip raw)) = Some canonical"
      using that(4) facts(4) by simp
    then show ?thesis
      using failed_command_handled [OF that(1,2,3)] by (simp add: educational_suggestion)
  qed
  have bare: "handle_command py_eval raw g =
      g1\<lparr> console := emit unknown_method_lines (console g1) \<rparr>"
    if "strip raw \<noteq> []" and "lower (strip raw) \<notin> set KEYWORDS"
      and "execute_hero_command py_eval (strip raw) ?g = (Inl AttributeError, g1)"
      and "map_of METHOD_SUGGESTIONS (stripped_cmd (strip raw)) = None"
    for raw g1
    using failed_command_handled [OF that(1,2,3)] that(4)
    by (simp add: et educational_unknown_method)
  have nonempty: "strip ?cmd \<noteq> []"
    unfolding facts(1) by simp
  have keyword: "lower (strip ?cmd) \<notin> set KEYWORDS"
    unfolding facts(1) by (rule facts(2))
  have raised: "execute_hero_command py_eval (strip ?cmd) ?g = (Inl AttributeError, ?g)"
    unfolding facts(1) by (rule facts(5))
  have key: "stripped_cmd (strip ?cmd) = typo"
    unfolding facts(1) by (rule facts(3))
  have handled: "handle_command py_eval ?cmd g =
      g\<lparr> commands_executed := commands_executed g + 1,
         console := emit (suggestion_lines canonical) (console g) \<rparr>"
    using general [OF nonempty keyword raised key] by simp
  have tail: "suffix (suggestion_lines canonical)
      (output_lines (console (handle_command py_eval ?cmd g)))"
  proof -
    have "suggestion_lines canonical \<noteq> []"
      and "length (suggestion_lines canonical) \<le> CONSOLE_MAX_OUTPUT_LINES + 20"
      by (simp_all add: suggestion_lines_def CONSOLE_MAX_OUTPUT_LINES_def)
    then have "suffix (suggestion_lines canonical)
        (output_lines (emit (suggestion_lines canonical) (console g)))"
      by (rule emit_suffix)
    then show ?thesis
      unfolding handled by simp
  qed
  have line: "out_line (''  Did you mean: hero.'' @ canonical @ ''() ?'') COLOR_WARNING ''normal''
      \<in> set (suggestion_lines canonical)"
    by (simp add: suggestion_lines_def)
  have other: "suggestion_lines canonical \<noteq> unknown_method_lines"
    by (simp add: suggestion_lines_def unknown_method_lines_def out_line_def)
  show ?thesis
    using facts(5) et handled tail line other general bare by blast
qed

theorem known_typo_yields_suggestion_witness:
  "(''moveright'', ''move_right'') \<in> set METHOD_SUGGESTIONS
   \<and> execute_hero_command (\<lambda>txt g. (None, g)) ''hero.moveright()'' Game_init
       = (Inl AttributeError, Game_init)
   \<and> console (handle_command (\<lambda>txt g. (None, g)) ''hero.moveright()'' Game_init)
       = emit (suggestion_lines ''move_right'') (console Game_init)
   \<and> out_line ''  Did you mean: hero.move_right() ?'' COLOR_WARNING ''normal''
       \<in> set (output_lines
               (console (handle_command (\<lambda>txt g. (None, g)) ''hero.moveright()'' Game_init)))
   \<and> stripped_cmd (strip ''hero.moveright'') = ''moveright''
   \<and> console (handle_command (\<lambda>txt g. (None, g)) ''hero.moveright'' Game_init)
       = emit (suggestion_lines ''move_right'') (console Game_init)
   \<and> map_of METHOD_SUGGESTIONS (stripped_cmd (strip ''hero.moveright(1)'')) = None
   \<and> console (handle_command (\<lambda>txt g. (None, g)) ''hero.moveright(1)'' Game_init)
       = emit unknown_method_lines (console Game_init)"
proof -
  let ?ev = "\<lambda>txt g. (None :: py_value option, g :: Game)"
  let ?g = "Game_init\<lparr> commands_executed := commands_executed Game_init + 1 \<rparr>"
  have a: "(''moveright'', ''move_right'') \<in> set METHOD_SUGGESTIONS"
    by (simp add: METHOD_SUGGESTIONS_def)
  note w = known_typo_yields_suggestion
    [OF a, of ?ev Game_init "''hero.moveright''" SyntaxError ?g,
     unfolded append_Cons append_Nil]
  have b: "execute_hero_command ?ev ''hero.moveright()'' Game_init = (Inl AttributeError, Game_init)"
    using w by blast
  have "handle_command ?ev ''hero.moveright()'' Game_init =
      Game_init\<lparr> commands_executed := commands_executed Game_init + 1,
                 console := emit (suggestion_lines ''move_right'') (console Game_init) \<rparr>"
    using w by blast
  then have c: "console (handle_command ?ev ''hero.moveright()'' Game_init)
       = emit (suggestion_lines ''move_right'') (console Game_init)"
    by simp
  have "suffix (suggestion_lines ''move_right'')
      (output_lines (console (handle_command ?ev ''hero.moveright()'' Game_init)))"
    using w by blast
  then have "set (suggestion_lines ''move_right'')
      \<subseteq> set (output_lines (console (handle_command ?ev ''hero.moveright()'' Game_init)))"
    by (rule set_mono_suffix)
  moreover have "out_line ''  Did you mean: hero.move_right() ?'' COLOR_WARNING ''normal''
      \<in> set (suggestion_lines ''move_right'')"
    using w by blast
  ultimately have d: "out_line ''  Did you mean: hero.move_right() ?'' COLOR_WARNING ''normal''
      \<in> set (output_lines (console (handle_command ?ev ''hero.moveright()'' Game_init)))"
    by blast
  have s: "strip ''hero.moveright'' = ''hero.moveright''"
    by (simp add: strip_def is_space_def)
  have h1: "strip ''hero.moveright'' \<noteq> []"
    by (simp add: s)
  have h2: "lower (strip ''hero.moveright'') \<notin> set KEYWORDS"
    by (simp add: s KEYWORDS_def lower_def lower_char_def UPPERCASE_def LOWERCASE_def)
  have h3: "execute_hero_command ?ev (strip ''hero.moveright'') ?g = (Inl SyntaxError, ?g)"
    by (simp add: s execute_hero_command_def startswith_def match_hero_call_def
        is_word_char_def LOWERCASE_def UPPERCASE_def DIGITS_def)
  have h4: "stripped_cmd (strip ''hero.moveright'') = ''moveright''"
    by (simp add: s stripped_cmd_def replace.simps strip_def is_space_def)
  have "handle_command ?ev ''hero.moveright'' Game_init =
      ?g\<lparr> console := emit (suggestion_lines ''move_right'') (console ?g) \<rparr>"
    using w h1 h2 h3 h4 by blast
  then have e: "console (handle_command ?ev ''hero.moveright'' Game_init)
       = emit (suggestion_lines ''move_right'') (console Game_init)"
    by simp
  note w1 = known_typo_yields_suggestion
    [OF a, of ?ev Game_init "''hero.moveright(1)''" AttributeError ?g,
     unfolded append_Cons append_Nil]
  have t: "strip ''hero.moveright(1)'' = ''hero.moveright(1)''"
    by (simp add: strip_def is_space_def)
  have k1: "strip ''hero.moveright(1)'' \<noteq> []"
    by (simp add: t)
  have k2: "lower (strip ''hero.moveright(1)'') \<notin> set KEYWORDS"
    by (simp add: t KEYWORDS_def lower_def lower_char_def UPPERCASE_def LOWERCASE_def)
  have k3: "execute_hero_command ?ev (strip ''hero.moveright(1)'') ?g = (Inl AttributeError, ?g)"
    by (simp add: t execute_hero_command_def startswith_def match_hero_call_def
        is_word_char_def LOWERCASE_def UPPERCASE_def DIGITS_def NEWLINE_def
        VALID_HERO_METHODS_def strip_def is_space_def)
  have k4: "map_of METHOD_SUGGESTIONS (stripped_cmd (strip ''hero.moveright(1)'')) = None"
    by (simp add: t stripped_cmd_def replace.simps strip_def is_space_def METHOD_SUGGESTIONS_def)
  have "handle_command ?ev ''hero.moveright(1)'' Game_init =
      ?g\<lparr> console := emit unknown_method_lines (console ?g) \<rparr>"
    using w1 k1 k2 k3 k4 by blast
  then have f: "console (handle_command ?ev ''hero.moveright(1)'' Game_init)
       = emit unknown_method_lines (console Game_init)"
    by simp
  show ?thesis
    using a b c d h4 e k4 f by blast
qed

subsection \<open>Commands without the namespace\<close>

lemma missing_namespace_handled:
  assumes "strip raw \<noteq> []" and "lower (strip raw) \<notin> set KEYWORDS"
    and "\<not> startswith (strip raw) ''hero.''"
  shows "execute_hero_command py_eval (strip raw) g0 = (Inl NameError, g0)"
    and "handle_command py_eval raw g =
      g\<lparr> commands_executed := commands_executed g + 1,
         console := emit (case map_of METHOD_SUGGESTIONS (stripped_cmd (strip raw)) of
                            None \<Rightarrow> namespace_lines
                          | Some canonical \<Rightarrow> suggestion_lines canonical) (console g) \<rparr>"
proof -
  show raised: "execute_hero_command py_eval (strip raw) g0 = (Inl NameError, g0)" for g0
    using assms(1,3) by (simp add: execute_hero_command_def)
  have not_keyword: "lower (strip raw) \<noteq> ''help''" "lower (strip raw) \<noteq> ''clear''"
    "lower (strip raw) \<noteq> ''hint''"
    using assms(2) by (simp_all add: KEYWORDS_def)
  have report: "add_educational_error (strip raw) ''name'' c =
      emit (case map_of METHOD_SUGGESTIONS (stripped_cmd (strip raw)) of
              None \<Rightarrow> namespace_lines
            | Some canonical \<Rightarrow> suggestion_lines canonical) c" for c
    by (cases "map_of METHOD_SUGGESTIONS (stripped_cmd (strip raw))")
      (simp_all add: educational_name educational_suggestion)
  show "handle_command py_eval raw g =
      g\<lparr> commands_executed := commands_executed g + 1,
         console := emit (case map_of METHOD_SUGGESTIONS (stripped_cmd (strip raw)) of
                            None \<Rightarrow> namespace_lines
                          | Some canonical \<Rightarrow> suggestion_lines canonical) (console g) \<rparr>"
    unfolding handle_command_def Let_def
    using assms(1) not_keyword report by (simp add: raised error_type_of_def)
qed

text \<open>
  C6, as stated: every command that is not empty, not a keyword and does not start with
  \<^verbatim>\<open>hero.\<close> would get the namespace hint. The command \<^verbatim>\<open>moveright()\<close> is such a command,
  and the console answers it with the spelling suggestion; the line of the namespace
  hint is nowhere in the output log.
\<close>

theorem missing_namespace_hint_counterexample:
  "strip ''moveright()'' \<noteq> []
   \<and> lower (strip ''moveright()'') \<notin> set KEYWORDS
   \<and> \<not> startswith (strip ''moveright()'') ''hero.''
   \<and> console (handle_command (\<lambda>txt g. (None, g)) ''moveright()'' Game_init)
       = emit (suggestion_lines ''move_right'') (console Game_init)
   \<and> out_line ''  Did you forget 'hero.' at the start?'' COLOR_WARNING ''normal''
       \<notin> set (output_lines (console (handle_command (\<lambda>txt g. (None, g)) ''moveright()'' Game_init)))"
proof -
  have s: "strip ''moveright()'' = ''moveright()''"
    by (simp add: strip_def is_space_def)
  have a: "strip ''moveright()'' \<noteq> []"
    by (simp add: s)
  have b: "lower (strip ''moveright()'') \<notin> set KEYWORDS"
    by (simp add: s KEYWORDS_def lower_def lower_char_def UPPERCASE_def LOWERCASE_def)
  have c: "\<not> startswith (strip ''moveright()'') ''hero.''"
    by (simp add: s startswith_def)
  have d: "map_of METHOD_SUGGESTIONS (stripped_cmd (strip ''moveright()'')) = Some ''move_right''"
    by (simp add: s stripped_cmd_def replace.simps strip_def is_space_def METHOD_SUGGESTIONS_def)
  have e: "console (handle_command (\<lambda>txt g. (None, g)) ''moveright()'' Game_init)
       = emit (suggestion_lines ''move_right'') (console Game_init)"
    by (simp add: missing_namespace_handled(2) [OF a b c] d)
  have f: "out_line ''  Did you forget 'hero.' at the start?'' COLOR_WARNING ''normal''
       \<notin> set (output_lines (emit (suggestion_lines ''move_right'') (console Game_init)))"
    by (simp add: emit_def suggestion_lines_def out_line_def Game_init_def
        show_current_challenge_def create_challenges_def Challenge_init_def Console_init_def
        add_welcome_message_def add_output_def add_output_typed_def limit_lines.simps
        CONSOLE_MAX_OUTPUT_LINES_def BOX_V_def BOX_H_def BALLOT_X_def str_int_def
        str_nat.simps digit_char_def DIGITS_def COLOR_WARNING_def COLOR_CONSOLE_BORDER_def
        Let_def)
  show ?thesis
    using a b c e f by simp
qed

text \<open>
  C6, amended. A command that, trimmed, is not empty, not a keyword and does not start
  with \<^verbatim>\<open>hero.\<close> raises \<^verbatim>\<open>NameError\<close> in the interpreter (error type \<^verbatim>\<open>name\<close>, the missing
  namespace). The console answers with the namespace hint, which differs from the hints
  of a syntax error and of an unknown method, unless the command without its \<^verbatim>\<open>hero.\<close>
  and \<^verbatim>\<open>()\<close> is a key of the misspelling table: then it answers with the spelling
  suggestion instead.
\<close>

theorem missing_namespace_report:
  assumes "strip raw \<noteq> []" and "lower (strip raw) \<notin> set KEYWORDS"
    and "\<not> startswith (strip raw) ''hero.''"
  shows "execute_hero_command py_eval (strip raw) g0 = (Inl NameError, g0)
    \<and> error_type_of NameError = ''name''
    \<and> handle_command py_eval raw g =
        g\<lparr> commands_executed := commands_executed g + 1,
           console := emit (case map_of METHOD_SUGGESTIONS (stripped_cmd (strip raw)) of
                              None \<Rightarrow> namespace_lines
                            | Some canonical \<Rightarrow> suggestion_lines canonical) (console g) \<rparr>
    \<and> namespace_lines \<noteq> syntax_lines
    \<and> namespace_lines \<noteq> unknown_method_lines
    \<and> (\<forall>canonical. suggestion_lines canonical \<noteq> namespace_lines)"
proof -
  have et: "error_type_of NameError = ''name''"
    by (simp add: error_type_of_def)
  have distinct: "namespace_lines \<noteq> syntax_lines" "namespace_lines \<noteq> unknown_method_lines"
    "\<forall>canonical. suggestion_lines canonical \<noteq> namespace_lines"
    by (simp_all add: namespace_lines_def syntax_lines_def unknown_method_lines_def
        suggestion_lines_def out_line_def)
  show ?thesis
    using missing_namespace_handled [OF assms] et distinct by blast
qed

theorem missing_namespace_report_witness:
  "strip ''move_right()'' \<noteq> []
   \<and> lower (strip ''move_right()'') \<notin> set KEYWORDS
   \<and> \<not> startswith (strip ''move_right()'') ''hero.''
   \<and> execute_hero_command (\<lambda>txt g. (None, g)) (strip ''move_right()'') Game_init
       = (Inl NameError, Game_init)
   \<and> console (handle_command (\<lambda>txt g. (None, g)) ''move_right()'' Game_init)
       = emit namespace_lines (console Game_init)"
proof -
  have s: "strip ''move_right()'' = ''move_right()''"
    by (simp add: strip_def is_space_def)
  have a: "strip ''move_right()'' \<noteq> []"
    by (simp add: s)
  have b: "lower (strip ''move_right()'') \<notin> set KEYWORDS"
    by (simp add: s KEYWORDS_def lower_def lower_char_def UPPERCASE_def LOWERCASE_def)
  have c: "\<not> startswith (strip ''move_right()'') ''hero.''"
    by (simp add: s startswith_def)
  have d: "map_of METHOD_SUGGESTIONS (stripped_cmd (strip ''move_right()'')) = None"
    by (simp add: s stripped_cmd_def replace.simps strip_def is_space_def METHOD_SUGGESTIONS_def)
  note w = missing_namespace_report [OF a b c, of "\<lambda>txt g. (None, g)" Game_init Game_init]
  have e: "execute_hero_command (\<lambda>txt g. (None, g)) (strip ''move_right()'') Game_init
      = (Inl NameError, Game_init)"
    using w by blast
  have "handle_command (\<lambda>txt g. (None, g)) ''move_right()'' Game_init =
      Game_init\<lparr> commands_executed := commands_executed Game_init + 1,
                 console := emit (case map_of METHOD_SUGGESTIONS (stripped_cmd (strip ''move_right()'')) of
                              None \<Rightarrow> namespace_lines
                            | Some canonical \<Rightarrow> suggestion_lines canonical) (console Game_init) \<rparr>"
    using w by blast
  then have f: "console (handle_command (\<lambda>txt g. (None, g)) ''move_right()'' Game_init)
       = emit namespace_lines (console Game_init)"
    by (simp add: d)
  show ?thesis
    using a b c e f by blast
qed

subsection \<open>Arguments\<close>

lemma match_say_call:
  assumes "NEWLINE \<notin> set arg_text"
  shows "match_hero_call (''hero.say('' @ arg_text @ '')'') = Some (''say'', arg_text)"
  using assms
  by (simp add: match_hero_call_def is_word_char_def LOWERCASE_def UPPERCASE_def DIGITS_def
      NEWLINE_def butlast_append)

lemma invoke_say:
  "invoke ''say'' (Some v) g =
     (Inr (Some (fst (Hero_say v (hero g)))), g\<lparr> hero := snd (Hero_say v (hero g)) \<rparr>)"
  by (simp add: invoke_def call_method_def split_beta)

text \<open>
  C4. The claim holds that an argument which is neither a quoted string nor a literal
  is an argument parse failure and is never evaluated. The interpreter instead hands
  the text of every argument that is not a quoted string to the evaluator, literal or
  not, and calls the method with the value: for \<^verbatim>\<open>hero.say(<text>)\<close> the answer is the
  message of \<^verbatim>\<open>say\<close> with whatever the text evaluates to, in the game the evaluation
  leaves, and only an evaluation that raises is a failure.
\<close>

theorem bare_argument_is_evaluated:
  assumes "NEWLINE \<notin> set arg_text" and "strip arg_text \<noteq> []"
    and "\<not> (startswith (strip arg_text) ''\"'' \<and> endswith (strip arg_text) ''\"'')"
    and "\<not> (startswith (strip arg_text) [CHR 0x27] \<and> endswith (strip arg_text) [CHR 0x27])"
  shows "execute_hero_command py_eval (''hero.say('' @ arg_text @ '')'') g =
    (case py_eval (strip arg_text) g of
       (None, g1) \<Rightarrow> (Inl SyntaxError, g1)
     | (Some v, g1) \<Rightarrow>
         (Inr (Some (fst (Hero_say v (hero g1)))), g1\<lparr> hero := snd (Hero_say v (hero g1)) \<rparr>))"
proof -
  have namespace: "startswith (''hero.say('' @ arg_text @ '')'') ''hero.''"
    by (simp add: startswith_def)
  have "execute_hero_command py_eval (''hero.say('' @ arg_text @ '')'') g =
    (case py_eval (strip arg_text) g of
       (None, g1) \<Rightarrow> (Inl SyntaxError, g1)
     | (Some arg, g1) \<Rightarrow>
         (case invoke ''say'' (Some arg) g1 of
            (Inl e, g2) \<Rightarrow> (Inl SyntaxError, g2)
          | (Inr result, g2) \<Rightarrow> (Inr result, g2)))"
    unfolding execute_hero_command_def match_say_call [OF assms(1)]
    using assms(2,3,4) namespace
    by (auto simp add: VALID_HERO_METHODS_def hasattr_hero_def HERO_METHODS_def Let_def)
  then show ?thesis
    by (simp add: invoke_say split: option.splits prod.splits)
qed

theorem bare_argument_is_evaluated_witness:
  "NEWLINE \<notin> set ''1+1''
   \<and> strip ''1+1'' = ''1+1''
   \<and> execute_hero_command (\<lambda>txt g. if txt = ''1+1'' then (Some (PyInt 2), g) else (None, g))
        ''hero.say(1+1)'' Game_init
       = (Inr (Some ''Hero says: \"2\"''),
          Game_init\<lparr> hero := (hero Game_init)\<lparr> last_command_result := Some ''Hero says: \"2\"'' \<rparr> \<rparr>)"
proof -
  let ?ev = "\<lambda>txt g. if txt = ''1+1'' then (Some (PyInt 2), g :: Game) else (None, g)"
  have s: "strip ''1+1'' = ''1+1''"
    by (simp add: strip_def is_space_def)
  have a: "NEWLINE \<notin> set ''1+1''"
    by (simp add: NEWLINE_def)
  have b: "strip ''1+1'' \<noteq> []"
    by (simp add: s)
  have c: "\<not> (startswith (strip ''1+1'') ''\"'' \<and> endswith (strip ''1+1'') ''\"'')"
    by (simp add: s startswith_def)
  have d: "\<not> (startswith (strip ''1+1'') [CHR 0x27] \<and> endswith (strip ''1+1'') [CHR 0x27])"
    by (simp add: s startswith_def)
  note w = bare_argument_is_evaluated
    [OF a b c d, of ?ev Game_init, unfolded append_Cons append_Nil]
  have e: "Hero_say (PyInt 2) (hero Game_init) =
      (''Hero says: \"2\"'', (hero Game_init)\<lparr> last_command_result := Some ''Hero says: \"2\"'' \<rparr>)"
    by (simp add: Hero_say_def returning_def str_int_def str_nat.simps digit_char_def DIGITS_def)
  have "execute_hero_command ?ev ''hero.say(1+1)'' Game_init
       = (Inr (Some ''Hero says: \"2\"''),
          Game_init\<lparr> hero := (hero Game_init)\<lparr> last_command_result := Some ''Hero says: \"2\"'' \<rparr> \<rparr>)"
    unfolding w by (simp add: s e)
  then show ?thesis
    using a s by blast
qed

subsection \<open>Commands that do not move the actor\<close>

lemma strip_unpadded:
  assumes "s \<noteq> []" and "\<not> is_space (hd s)" and "\<not> is_space (last s)"
  shows "strip s = s"
proof -
  have front: "dropWhile is_space s = s"
    using assms(1,2) by (cases s) simp_all
  have "rev s \<noteq> []" and "\<not> is_space (hd (rev s))"
    using assms(1,3) by (simp_all add: hd_rev)
  then have "dropWhile is_space (rev s) = rev s"
    by (cases "rev s") simp_all
  then show ?thesis
    by (simp add: strip_def front)
qed

lemma say_quoted:
  assumes "NEWLINE \<notin> set msg" and "q = CHR 0x22 \<or> q = CHR 0x27"
  shows "execute_hero_command py_eval (''hero.say('' @ [q] @ msg @ [q] @ '')'') g =
    (Inr (Some (''Hero says: \"'' @ msg @ ''\"'')),
     g\<lparr> hero := (hero g)\<lparr> last_command_result := Some (''Hero says: \"'' @ msg @ ''\"'') \<rparr> \<rparr>)"
proof -
  define arg where "arg = [q] @ msg @ [q]"
  have quote: "\<not> is_space q" "q \<noteq> NEWLINE"
    using assms(2) by (auto simp add: is_space_def NEWLINE_def)
  have matched: "match_hero_call (''hero.say('' @ arg @ '')'') = Some (''say'', arg)"
    by (rule match_say_call) (use assms(1) quote in \<open>auto simp add: arg_def\<close>)
  have unpadded: "strip arg = arg"
    by (rule strip_unpadded) (use quote in \<open>simp_all add: arg_def\<close>)
  have inner: "butlast (tl arg) = msg" and nonempty: "arg \<noteq> []"
    by (simp_all add: arg_def butlast_append)
  have quoted: "startswith arg [q]" "endswith arg [q]"
    by (simp_all add: arg_def startswith_def endswith_def suffix_def)
  have namespace: "startswith (''hero.say('' @ arg @ '')'') ''hero.''"
    by (simp add: startswith_def)
  have said: "invoke ''say'' (Some (PyStr msg)) g =
      (Inr (Some (''Hero says: \"'' @ msg @ ''\"'')),
       g\<lparr> hero := (hero g)\<lparr> last_command_result := Some (''Hero says: \"'' @ msg @ ''\"'') \<rparr> \<rparr>)"
    by (simp add: invoke_say Hero_say_def returning_def)
  have "execute_hero_command py_eval (''hero.say('' @ arg @ '')'') g
      = invoke ''say'' (Some (PyStr msg)) g"
    unfolding execute_hero_command_def matched
    using assms(2) namespace quoted nonempty
    by (auto simp add: unpadded inner VALID_HERO_METHODS_def hasattr_hero_def HERO_METHODS_def
        Let_def)
  then show ?thesis
    using said by (simp add: arg_def)
qed

lemma succeeded_command_handled:
  assumes "strip raw \<noteq> []" and "lower (strip raw) \<notin> set KEYWORDS"
    and "execute_hero_command py_eval (strip raw)
           (g\<lparr> commands_executed := commands_executed g + 1 \<rparr>) = (Inr (Some msg), g1)"
    and "msg \<noteq> []" and "\<not> contains msg ''Moving''"
  shows "handle_command py_eval raw g = g1\<lparr> console := add_success msg (console g1) \<rparr>"
proof -
  have not_keyword: "lower (strip raw) \<noteq> ''help''" "lower (strip raw) \<noteq> ''clear''"
    "lower (strip raw) \<noteq> ''hint''"
    using assms(2) by (simp_all add: KEYWORDS_def)
  show ?thesis
    unfolding handle_command_def Let_def
    using assms(1,3,4,5) not_keyword by simp
qed

lemma no_argument_call:
  assumes "method_name \<in> {''say'', ''jump'', ''attack'', ''defend'', ''collect''}"
  shows "strip (''hero.'' @ method_name @ ''()'') = ''hero.'' @ method_name @ ''()''"
    and "lower (''hero.'' @ method_name @ ''()'') \<notin> set KEYWORDS"
    and "execute_hero_command py_eval (''hero.'' @ method_name @ ''()'') g =
      (Inr (Some (fst (call_no_arg method_name (hero g)))),
       g\<lparr> hero := snd (call_no_arg method_name (hero g)) \<rparr>)"
  using assms
  by (elim insertE emptyE; clarify;
      simp add: KEYWORDS_def strip_def is_space_def lower_def lower_char_def UPPERCASE_def
        LOWERCASE_def interp_defs split_beta)+

text \<open>
  C10. In every state of the actor (moving, spinning and dancing included) the methods
  say, jump, attack, defend and collect leave the player as it is (grid position, pixel
  position and action flags) and answer with their own message: the four fixed texts of
  jump, attack, defend and collect, and the quoted text of say. None of them is empty or
  one of the busy or blocked rejections. The interpreter dispatches the five commands
  to these methods, without an argument and, for say, with a quoted argument, and returns
  that message; the game is otherwise as before. A submitted line of one of the four
  argument-free commands counts the command, records the message as the last result
  and prints it as a success line.
\<close>

theorem non_movement_commands_always_succeed:
  "succeeds_untouched (Hero_say v) h
   \<and> succeeds_untouched Hero_jump h
   \<and> succeeds_untouched Hero_attack h
   \<and> succeeds_untouched Hero_defend h
   \<and> succeeds_untouched Hero_collect h
   \<and> fst (Hero_say v h) = ''Hero says: \"'' @ py_str v @ ''\"''
   \<and> fst (Hero_jump h)
       = ''Jump! '' @ [CHR 0xC3, CHR 0xB0, CHR 0xC5, CHR 0xB8, CHR 0xC2, CHR 0xA6, CHR 0xCB, CHR 0x9C]
         @ '' (Visual coming soon...)''
   \<and> fst (Hero_attack h)
       = ''Attack! '' @ [CHR 0xC3, CHR 0xA2, CHR 0xC5, CHR 0xA1, CHR 0xE2, CHR 0x80, CHR 0x9D,
                         CHR 0xC3, CHR 0xAF, CHR 0xC2, CHR 0xB8]
         @ '' (Combat coming soon...)''
   \<and> fst (Hero_defend h)
       = ''Defend! '' @ [CHR 0xC3, CHR 0xB0, CHR 0xC5, CHR 0xB8, CHR 0xE2, CHR 0x80, CHR 0xBA,
                         CHR 0xC2, CHR 0xA1, CHR 0xC3, CHR 0xAF, CHR 0xC2, CHR 0xB8]
         @ '' (Combat coming soon...)''
   \<and> fst (Hero_collect h) = ''Looking for items... (Use auto-collect by walking!)''
   \<and> execute_hero_command py_eval ''hero.say()'' g
       = (Inr (Some (fst (Hero_say (PyStr ''Hello!'') (hero g)))),
          g\<lparr> hero := snd (Hero_say (PyStr ''Hello!'') (hero g)) \<rparr>)
   \<and> execute_hero_command py_eval ''hero.jump()'' g
       = (Inr (Some (fst (Hero_jump (hero g)))), g\<lparr> hero := snd (Hero_jump (hero g)) \<rparr>)
   \<and> execute_hero_command py_eval ''hero.attack()'' g
       = (Inr (Some (fst (Hero_attack (hero g)))), g\<lparr> hero := snd (Hero_attack (hero g)) \<rparr>)
   \<and> execute_hero_command py_eval ''hero.defend()'' g
       = (Inr (Some (fst (Hero_defend (hero g)))), g\<lparr> hero := snd (Hero_defend (hero g)) \<rparr>)
   \<and> execute_hero_command py_eval ''hero.collect()'' g
       = (Inr (Some (fst (Hero_collect (hero g)))), g\<lparr> hero := snd (Hero_collect (hero g)) \<rparr>)
   \<and> (NEWLINE \<notin> set msg \<and> (q = CHR 0x22 \<or> q = CHR 0x27) \<longrightarrow>
        execute_hero_command py_eval (''hero.say('' @ [q] @ msg @ [q] @ '')'') g
        = (Inr (Some (fst (Hero_say (PyStr msg) (hero g)))),
           g\<lparr> hero := snd (Hero_say (PyStr msg) (hero g)) \<rparr>))
   \<and> handle_command py_eval ''hero.jump()'' g
       = g\<lparr> commands_executed := commands_executed g + 1,
            hero := snd (Hero_jump (hero g)),
            console := add_success (fst (Hero_jump (hero g))) (console g) \<rparr>
   \<and> handle_command py_eval ''hero.attack()'' g
       = g\<lparr> commands_executed := commands_executed g + 1,
            hero := snd (Hero_attack (hero g)),
            console := add_success (fst (Hero_attack (hero g))) (console g) \<rparr>
   \<and> handle_command py_eval ''hero.defend()'' g
       = g\<lparr> commands_executed := commands_executed g + 1,
            hero := snd (Hero_defend (hero g)),
            console := add_success (fst (Hero_defend (hero g))) (console g) \<rparr>
   \<and> handle_command py_eval ''hero.collect()'' g
       = g\<lparr> commands_executed := commands_executed g + 1,
            hero := snd (Hero_collect (hero g)),
            console := add_success (fst (Hero_collect (hero g))) (console g) \<rparr>"
proof -
  note rejections = rejection_results_unfold MSG_STILL_MOVING_def MSG_BUSY_PERFORMING_def
  have say: "succeeds_untouched (Hero_say v) h"
    unfolding Hero_say_def by (rule returning_untouched) (simp add: rejections)
  have jump: "succeeds_untouched Hero_jump h"
    unfolding Hero_jump_def by (rule returning_untouched) (simp add: rejections)
  have attack: "succeeds_untouched Hero_attack h"
    unfolding Hero_attack_def by (rule returning_untouched) (simp add: rejections)
  have defend: "succeeds_untouched Hero_defend h"
    unfolding Hero_defend_def by (rule returning_untouched) (simp add: rejections)
  have collect: "succeeds_untouched Hero_collect h"
    unfolding Hero_collect_def by (rule returning_untouched) (simp add: rejections)
  have m1: "fst (Hero_say v h) = ''Hero says: \"'' @ py_str v @ ''\"''"
    by (simp add: Hero_say_def returning_def)
  have m2: "fst (Hero_jump h)
       = ''Jump! '' @ [CHR 0xC3, CHR 0xB0, CHR 0xC5, CHR 0xB8, CHR 0xC2, CHR 0xA6, CHR 0xCB, CHR 0x9C]
         @ '' (Visual coming soon...)''"
    by (simp add: Hero_jump_def returning_def)
  have m3: "fst (Hero_attack h)
       = ''Attack! '' @ [CHR 0xC3, CHR 0xA2, CHR 0xC5, CHR 0xA1, CHR 0xE2, CHR 0x80, CHR 0x9D,
                         CHR 0xC3, CHR 0xAF, CHR 0xC2, CHR 0xB8]
         @ '' (Combat coming soon...)''"
    by (simp add: Hero_attack_def returning_def)
  have m4: "fst (Hero_defend h)
       = ''Defend! '' @ [CHR 0xC3, CHR 0xB0, CHR 0xC5, CHR 0xB8, CHR 0xE2, CHR 0x80, CHR 0xBA,
                         CHR 0xC2, CHR 0xA1, CHR 0xC3, CHR 0xAF, CHR 0xC2, CHR 0xB8]
         @ '' (Combat coming soon...)''"
    by (simp add: Hero_defend_def returning_def)
  have m5: "fst (Hero_collect h) = ''Looking for items... (Use auto-collect by walking!)''"
    by (simp add: Hero_collect_def returning_def)
  have e1: "execute_hero_command py_eval ''hero.say()'' g
       = (Inr (Some (fst (Hero_say (PyStr ''Hello!'') (hero g)))),
          g\<lparr> hero := snd (Hero_say (PyStr ''Hello!'') (hero g)) \<rparr>)"
    using no_argument_call(3) [of "''say''" py_eval g] by (simp add: call_no_arg_def)
  have e2: "execute_hero_command py_eval ''hero.jump()'' g
       = (Inr (Some (fst (Hero_jump (hero g)))), g\<lparr> hero := snd (Hero_jump (hero g)) \<rparr>)" for g
    using no_argument_call(3) [of "''jump''" py_eval g] by (simp add: call_no_arg_def)
  have e3: "execute_hero_command py_eval ''hero.attack()'' g
       = (Inr (Some (fst (Hero_attack (hero g)))), g\<lparr> hero := snd (Hero_attack (hero g)) \<rparr>)" for g
    using no_argument_call(3) [of "''attack''" py_eval g] by (simp add: call_no_arg_def)
  have e4: "execute_hero_command py_eval ''hero.defend()'' g
       = (Inr (Some (fst (Hero_defend (hero g)))), g\<lparr> hero := snd (Hero_defend (hero g)) \<rparr>)" for g
    using no_argument_call(3) [of "''defend''" py_eval g] by (simp add: call_no_arg_def)
  have e5: "execute_hero_command py_eval ''hero.collect()'' g
       = (Inr (Some (fst (Hero_collect (hero g)))), g\<lparr> hero := snd (Hero_collect (hero g)) \<rparr>)" for g
    using no_argument_call(3) [of "''collect''" py_eval g] by (simp add: call_no_arg_def)
  have e6: "NEWLINE \<notin> set msg \<and> (q = CHR 0x22 \<or> q = CHR 0x27) \<longrightarrow>
        execute_hero_command py_eval (''hero.say('' @ [q] @ msg @ [q] @ '')'') g
        = (Inr (Some (fst (Hero_say (PyStr msg) (hero g)))),
           g\<lparr> hero := snd (Hero_say (PyStr msg) (hero g)) \<rparr>)"
    using say_quoted [of msg q py_eval g] by (simp add: Hero_say_def returning_def)
  have h2: "handle_command py_eval ''hero.jump()'' g
       = g\<lparr> commands_executed := commands_executed g + 1,
            hero := snd (Hero_jump (hero g)),
            console := add_success (fst (Hero_jump (hero g))) (console g) \<rparr>"
    using succeeded_command_handled [of "''hero.jump()''" py_eval g "fst (Hero_jump (hero g))"
        "g\<lparr> commands_executed := commands_executed g + 1, hero := snd (Hero_jump (hero g)) \<rparr>"]
      no_argument_call(1,2) [of "''jump''"] e2
    by (simp add: Hero_jump_def returning_def)
  have h3: "handle_command py_eval ''hero.attack()'' g
       = g\<lparr> commands_executed := commands_executed g + 1,
            hero := snd (Hero_attack (hero g)),
            console := add_success (fst (Hero_attack (hero g))) (console g) \<rparr>"
    using succeeded_command_handled [of "''hero.attack()''" py_eval g "fst (Hero_attack (hero g))"
        "g\<lparr> commands_executed := commands_executed g + 1, hero := snd (Hero_attack (hero g)) \<rparr>"]
      no_argument_call(1,2) [of "''attack''"] e3
    by (simp add: Hero_attack_def returning_def)
  have h4: "handle_command py_eval ''hero.defend()'' g
       = g\<lparr> commands_executed := commands_executed g + 1,
            hero := snd (Hero_defend (hero g)),
            console := add_success (fst (Hero_defend (hero g))) (console g) \<rparr>"
    using succeeded_command_handled [of "''hero.defend()''" py_eval g "fst (Hero_defend (hero g))"
        "g\<lparr> commands_executed := commands_executed g + 1, hero := snd (Hero_defend (hero g)) \<rparr>"]
      no_argument_call(1,2) [of "''defend''"] e4
    by (simp add: Hero_defend_def returning_def)
  have h5: "handle_command py_eval ''hero.collect()'' g
       = g\<lparr> commands_executed := commands_executed g + 1,
            hero := snd (Hero_collect (hero g)),
            console := add_success (fst (Hero_collect (hero g))) (console g) \<rparr>"
    using succeeded_command_handled [of "''hero.collect()''" py_eval g "fst (Hero_collect (hero g))"
        "g\<lparr> commands_executed := commands_executed g + 1, hero := snd (Hero_collect (hero g)) \<rparr>"]
      no_argument_call(1,2) [of "''collect''"] e5
    by (simp add: Hero_collect_def returning_def)
  show ?thesis
    using say jump attack defend collect m1 m2 m3 m4 m5 e1 e2 [of g] e3 [of g] e4 [of g] e5 [of g]
      e6 h2 h3 h4 h5
    by blast
qed

theorem non_movement_commands_always_succeed_witness:
  "is_moving (player (snd (Hero_request Move_left (hero Game_init))))
   \<and> player (snd (Hero_jump (snd (Hero_request Move_left (hero Game_init)))))
       = player (snd (Hero_request Move_left (hero Game_init)))
   \<and> fst (Hero_say (PyInt 42) (snd (Hero_request Move_left (hero Game_init))))
       = ''Hero says: \"42\"''
   \<and> NEWLINE \<notin> set ''hi''
   \<and> fst (execute_hero_command (\<lambda>txt g. (None, g)) ''hero.say(\"hi\")''
         (Game_init\<lparr> hero := snd (Hero_request Move_left (hero Game_init)) \<rparr>))
       = Inr (Some ''Hero says: \"hi\"'')
   \<and> player (hero (snd (execute_hero_command (\<lambda>txt g. (None, g)) ''hero.say(\"hi\")''
         (Game_init\<lparr> hero := snd (Hero_request Move_left (hero Game_init)) \<rparr>))))
       = player (snd (Hero_request Move_left (hero Game_init)))"
proof -
  let ?h = "snd (Hero_request Move_left (hero Game_init))"
  let ?g = "Game_init\<lparr> hero := ?h \<rparr>"
  note inst = non_movement_commands_always_succeed
    [where v = "PyInt 42" and h = ?h and py_eval = "\<lambda>txt g. (None, g)" and g = ?g
       and msg = "''hi''" and q = "CHR 0x22", unfolded append_Cons append_Nil]
  have a: "is_moving (player ?h)"
    by (simp add: hero_Game_init Hero_init_def Player_init_def Hero_move_left_def hero_move_def
        move_left_def try_move_def is_blocked_def create_obstacles_def settings_defs Let_def)
  have b: "py_str (PyInt 42) = ''42''"
    by (simp add: str_int_def str_nat.simps digit_char_def DIGITS_def)
  have c: "NEWLINE \<notin> set ''hi''"
    by (simp add: NEWLINE_def)
  have jump: "succeeds_untouched Hero_jump ?h"
    using inst by blast
  have say: "fst (Hero_say (PyInt 42) ?h) = ''Hero says: \"'' @ py_str (PyInt 42) @ ''\"''"
    unfolding append_Cons append_Nil using inst by blast
  have quoted: "execute_hero_command (\<lambda>txt g. (None, g)) ''hero.say(\"hi\")'' ?g
      = (Inr (Some (fst (Hero_say (PyStr ''hi'') (hero ?g)))),
         ?g\<lparr> hero := snd (Hero_say (PyStr ''hi'') (hero ?g)) \<rparr>)"
    using inst c by blast
  show ?thesis
    using a c jump
    unfolding quoted say b
    by (simp add: succeeds_untouched_def Hero_say_def returning_def)
qed

section \<open>Sessions\<close>

text \<open>
  The lemmas on sessions below are about plain sessions, in which the evaluation of a
  command argument has no effect on the game. The challenge check and the collection
  check are covered for every game.
\<close>

subsection \<open>What each operation leaves alone\<close>

lemma console_update_fields:
  "obstacles (g\<lparr> console := c \<rparr>) = obstacles g"
  "collectibles (g\<lparr> console := c \<rparr>) = collectibles g"
  "challenges (g\<lparr> console := c \<rparr>) = challenges g"
  by simp_all

lemma show_help_fields:
  "collectibles (show_help g) = collectibles g" "challenges (show_help g) = challenges g"
  "current_challenge_idx (show_help g) = current_challenge_idx g" "score (show_help g) = score g"
  "gems_collected (show_help g) = gems_collected g"
  "challenges_completed (show_help g) = challenges_completed g"
  "obstacles (show_help g) = obstacles g" "hero (show_help g) = hero g"
  by (simp_all add: show_help_def)

lemma show_hint_fields:
  "collectibles (show_hint g) = collectibles g" "challenges (show_hint g) = challenges g"
  "current_challenge_idx (show_hint g) = current_challenge_idx g" "score (show_hint g) = score g"
  "gems_collected (show_hint g) = gems_collected g"
  "challenges_completed (show_hint g) = challenges_completed g"
  "obstacles (show_hint g) = obstacles g" "hero (show_hint g) = hero g"
  by (simp_all add: show_hint_def Let_def)

text \<open>
  A command whose argument is evaluated without effect changes the hero, the console and
  the counters of the commands, and nothing else.
\<close>

lemma invoke_frame:
  assumes "\<And>g h. f (g\<lparr> hero := h \<rparr>) = f g"
  shows "f (snd (invoke method_name arg g)) = f g"
  by (simp add: invoke_def assms split: sum.splits prod.splits)

lemma execute_hero_command_frame:
  assumes "effect_free py_eval" and "\<And>g h. f (g\<lparr> hero := h \<rparr>) = f g"
  shows "f (snd (execute_hero_command py_eval command g)) = f g"
proof -
  have unchanged: "snd (py_eval arg_text g) = g" for arg_text
    using assms(1) by (simp add: effect_free_def)
  note called = invoke_frame [of f, OF assms(2)]
  show ?thesis
    unfolding execute_hero_command_def Let_def
    by (simp add: split_beta unchanged called split: option.splits sum.splits)
qed

lemma handle_command_frame:
  assumes "effect_free py_eval" and "\<And>g h. f (g\<lparr> hero := h \<rparr>) = f g"
    and "\<And>g c. f (g\<lparr> console := c \<rparr>) = f g"
    and "\<And>g n. f (g\<lparr> commands_executed := n \<rparr>) = f g"
    and "\<And>g n. f (g\<lparr> successful_moves := n \<rparr>) = f g"
  shows "f (handle_command py_eval command g) = f g"
proof -
  let ?g = "g\<lparr> commands_executed := commands_executed g + 1 \<rparr>"
  obtain r g1 where r: "execute_hero_command py_eval (strip command) ?g = (r, g1)"
    by (cases "execute_hero_command py_eval (strip command) ?g")
  have g1: "f g1 = f g"
    using execute_hero_command_frame [of py_eval f "strip command" ?g, OF assms(1,2)]
    by (simp add: r assms(4))
  have shown: "f (show_help ?g) = f g" "f (show_hint ?g) = f g"
    by (simp_all add: show_help_def show_hint_def add_outputs_def Let_def assms(3,4))
  show ?thesis
    unfolding handle_command_def Let_def
    by (simp add: r g1 shown assms(3,4,5) split: sum.splits option.splits)
qed

lemma handle_command_fields:
  assumes "effect_free py_eval"
  shows "collectibles (handle_command py_eval command g) = collectibles g"
    and "challenges (handle_command py_eval command g) = challenges g"
    and "current_challenge_idx (handle_command py_eval command g) = current_challenge_idx g"
    and "score (handle_command py_eval command g) = score g"
    and "gems_collected (handle_command py_eval command g) = gems_collected g"
    and "challenges_completed (handle_command py_eval command g) = challenges_completed g"
    and "obstacles (handle_command py_eval command g) = obstacles g"
  by (rule handle_command_frame [OF assms]; simp)+

lemma collect_loop_fields:
  "challenges (snd (collect_loop gems g)) = challenges g"
  "current_challenge_idx (snd (collect_loop gems g)) = current_challenge_idx g"
  "challenges_completed (snd (collect_loop gems g)) = challenges_completed g"
  "hero (snd (collect_loop gems g)) = hero g"
  "obstacles (snd (collect_loop gems g)) = obstacles g"
  by (induction gems arbitrary: g; simp add: Let_def split_beta)+

lemma check_collections_fields:
  "challenges (check_collections g) = challenges g"
  "current_challenge_idx (check_collections g) = current_challenge_idx g"
  "challenges_completed (check_collections g) = challenges_completed g"
  "hero (check_collections g) = hero g"
  "obstacles (check_collections g) = obstacles g"
  by (simp_all add: check_collections_def split_beta collect_loop_fields)

lemma Player_update_position:
  "grid_col (Player_update p) = grid_col p" "grid_row (Player_update p) = grid_row p"
  by (simp_all add: Player_update_def update_moving_def update_spinning_def update_dancing_def
      Let_def)

subsection \<open>The challenge check\<close>

lemma check_challenge_idle:
  assumes "current_challenge_idx g \<ge> length (challenges g)
    \<or> completed (challenges g ! current_challenge_idx g)
    \<or> \<not> on_cell g (target_col (challenges g ! current_challenge_idx g))
            (target_row (challenges g ! current_challenge_idx g))"
  shows "check_challenge g = g"
  using assms
  by (auto simp add: check_challenge_def check_completion_def on_cell_def Let_def)

lemma check_challenge_completes:
  assumes "current_challenge_idx g < length (challenges g)"
    and "\<not> completed (challenges g ! current_challenge_idx g)"
    and "on_cell g (target_col (challenges g ! current_challenge_idx g))
           (target_row (challenges g ! current_challenge_idx g))"
  shows "challenges (check_challenge g) =
      (challenges g)[current_challenge_idx g :=
         (challenges g ! current_challenge_idx g)\<lparr> completed := True \<rparr>]"
    and "current_challenge_idx (check_challenge g) = Suc (current_challenge_idx g)"
    and "score (check_challenge g) = score g + reward (challenges g ! current_challenge_idx g)"
    and "challenges_completed (check_challenge g) = challenges_completed g + 1"
    and "collectibles (check_challenge g) = collectibles g"
    and "gems_collected (check_challenge g) = gems_collected g"
    and "hero (check_challenge g) = hero g"
    and "obstacles (check_challenge g) = obstacles g"
  using assms
  by (simp_all add: check_challenge_def check_completion_def on_cell_def Let_def
      show_current_challenge_fields)

subsection \<open>The order of the challenges\<close>

lemma run_Nil: "run [] g = g"
  by (simp add: run_def)

lemma run_Cons: "run (e # es) g = run es (step e g)"
  by (simp add: run_def)

lemma flags_after_completion:
  assumes "i < n"
  shows "(replicate i True @ replicate (n - i) False)[i := True]
       = replicate (Suc i) True @ replicate (n - Suc i) False"
proof -
  obtain m where m: "n - i = Suc m"
    using assms by (cases "n - i") auto
  then have "n - Suc i = m" by simp
  then show ?thesis
    by (simp add: m list_update_append replicate_app_Cons_same)
qed

lemma in_order_Game_init: "in_order Game_init"
  by (simp add: in_order_def Game_init_def show_current_challenge_fields create_challenges_def
      Challenge_init_def)

lemma in_order_reset_game: "in_order (reset_game g)"
  by (simp add: in_order_def reset_game_def Let_def show_current_challenge_fields comp_def
      map_replicate_const)

lemma in_order_handle_command:
  assumes "effect_free py_eval"
  shows "in_order (handle_command py_eval command g) = in_order g"
  by (simp add: in_order_def handle_command_fields [OF assms])

lemma in_order_check_challenge:
  assumes "in_order g"
  shows "in_order (check_challenge g)"
proof (cases "current_challenge_idx g < length (challenges g)
    \<and> \<not> completed (challenges g ! current_challenge_idx g)
    \<and> on_cell g (target_col (challenges g ! current_challenge_idx g))
         (target_row (challenges g ! current_challenge_idx g))")
  case True
  let ?i = "current_challenge_idx g"
  note completes = check_challenge_completes [of g]
  have "map completed (challenges (check_challenge g)) = (map completed (challenges g))[?i := True]"
    using True by (simp add: completes(1) map_update)
  also have "\<dots> = replicate (Suc ?i) True @ replicate (length (challenges g) - Suc ?i) False"
    using assms True by (simp add: in_order_def flags_after_completion)
  finally show ?thesis
    using True by (simp add: in_order_def completes(1,2))
next
  case False
  then have "check_challenge g = g"
    by (intro check_challenge_idle) auto
  then show ?thesis
    using assms by simp
qed

lemma in_order_update:
  assumes "in_order g"
  shows "in_order (update g)"
proof -
  have "in_order (check_collections
      (g\<lparr> hero := (hero g)\<lparr> player := Player_update (player (hero g)) \<rparr> \<rparr>))"
    using assms by (simp add: in_order_def check_collections_fields)
  then show ?thesis
    unfolding update_def by (rule in_order_check_challenge)
qed

lemma in_order_step:
  assumes "in_order g" and "plain_event e"
  shows "in_order (step e g)"
  using assms
  by (cases e) (simp_all add: in_order_update in_order_handle_command in_order_reset_game)

lemma in_order_run:
  assumes "in_order g" and "plain es"
  shows "in_order (run es g)"
  using assms
  by (induction es arbitrary: g) (simp_all add: run_Nil run_Cons in_order_step plain_def)

lemma takeWhile_flags:
  "takeWhile (\<lambda>b. b) (replicate i True @ replicate k False) = replicate i True"
  by (induction i) (simp_all add: takeWhile_replicate)

lemma in_order_lowest_incomplete:
  assumes "in_order g"
  shows "current_challenge_idx g = lowest_incomplete (challenges g)"
proof -
  have "length (takeWhile completed (challenges g))
      = length (takeWhile (\<lambda>b. b) (map completed (challenges g)))"
    by (simp add: takeWhile_map comp_def)
  also have "\<dots> = current_challenge_idx g"
    using assms by (simp add: in_order_def takeWhile_flags)
  finally show ?thesis
    by (simp add: lowest_incomplete_def)
qed

lemma in_order_previous_completed:
  assumes "in_order g" and "current_challenge_idx g = Suc i"
  shows "completed (challenges g ! i)"
proof -
  have "i < length (challenges g)"
    using assms by (simp add: in_order_def)
  then have "completed (challenges g ! i) = map completed (challenges g) ! i"
    by simp
  also have "\<dots> = (replicate (Suc i) True @ replicate (length (challenges g) - Suc i) False) ! i"
    using assms by (simp add: in_order_def)
  also have "\<dots> = True"
    by (simp add: nth_append del: replicate.simps)
  finally show ?thesis by simp
qed

lemma challenges_kept_refl: "challenges_kept chs chs"
  by (simp add: challenges_kept_def list_all2_same)

lemma challenge_kept_trans:
  fixes a b c :: Challenge
  assumes "b = a\<lparr> completed := completed b \<rparr>" and "c = b\<lparr> completed := completed c \<rparr>"
  shows "c = a\<lparr> completed := completed c \<rparr>"
  using assms by (cases a, cases b, cases c) simp

lemma challenges_kept_trans:
  assumes "challenges_kept xs ys" and "challenges_kept ys zs"
  shows "challenges_kept xs zs"
  using assms unfolding challenges_kept_def
  by (rule list_all2_trans [rotated]) (use challenge_kept_trans in blast)

lemma challenges_kept_completion:
  "challenges_kept chs (chs[i := (chs ! i)\<lparr> completed := True \<rparr>])"
proof (cases "i < length chs")
  case True
  then show ?thesis
    by (auto simp add: challenges_kept_def list_all2_conv_all_nth nth_list_update)
next
  case False
  then have "chs[i := (chs ! i)\<lparr> completed := True \<rparr>] = chs"
    by (simp add: list_update_beyond)
  then show ?thesis
    by (simp add: challenges_kept_refl)
qed

lemma check_challenge_kept:
  "challenges_kept (challenges g) (challenges (check_challenge g))"
  "current_challenge_idx g \<le> current_challenge_idx (check_challenge g)"
proof -
  let ?P = "current_challenge_idx g < length (challenges g)
    \<and> \<not> completed (challenges g ! current_challenge_idx g)
    \<and> on_cell g (target_col (challenges g ! current_challenge_idx g))
         (target_row (challenges g ! current_challenge_idx g))"
  show "challenges_kept (challenges g) (challenges (check_challenge g))"
  proof (cases ?P)
    case True
    then show ?thesis
      by (simp add: check_challenge_completes(1) challenges_kept_completion)
  next
    case False
    then have "check_challenge g = g"
      by (intro check_challenge_idle) auto
    then show ?thesis
      by (simp add: challenges_kept_refl)
  qed
  show "current_challenge_idx g \<le> current_challenge_idx (check_challenge g)"
  proof (cases ?P)
    case True
    then show ?thesis
      by (simp add: check_challenge_completes(2))
  next
    case False
    then have "check_challenge g = g"
      by (intro check_challenge_idle) auto
    then show ?thesis by simp
  qed
qed

lemma update_kept:
  "challenges_kept (challenges g) (challenges (update g))"
  "current_challenge_idx g \<le> current_challenge_idx (update g)"
  using check_challenge_kept
    [of "check_collections (g\<lparr> hero := (hero g)\<lparr> player := Player_update (player (hero g)) \<rparr> \<rparr>)"]
  by (simp_all add: update_def check_collections_fields)

lemma step_kept:
  assumes "e \<noteq> Reset" and "plain_event e"
  shows "challenges_kept (challenges g) (challenges (step e g))"
    and "current_challenge_idx g \<le> current_challenge_idx (step e g)"
  using assms
  by (cases e; simp add: update_kept handle_command_fields challenges_kept_refl)+

lemma run_kept:
  assumes "no_reset es" and "plain es"
  shows "challenges_kept (challenges g) (challenges (run es g))
    \<and> current_challenge_idx g \<le> current_challenge_idx (run es g)"
  using assms
proof (induction es arbitrary: g)
  case Nil
  then show ?case by (simp add: run_Nil challenges_kept_refl)
next
  case (Cons e es)
  then have e: "e \<noteq> Reset" "plain_event e" and es: "no_reset es" "plain es"
    by (auto simp add: no_reset_def plain_def)
  show ?case
    using step_kept [OF e, of g] Cons.IH [OF es, of "step e g"]
    by (auto simp add: run_Cons intro: challenges_kept_trans)
qed


lemma check_challenge_others:
  assumes "j \<noteq> current_challenge_idx g"
  shows "challenges (check_challenge g) ! j = challenges g ! j"
proof (cases "current_challenge_idx g < length (challenges g)
    \<and> \<not> completed (challenges g ! current_challenge_idx g)
    \<and> on_cell g (target_col (challenges g ! current_challenge_idx g))
         (target_row (challenges g ! current_challenge_idx g))")
  case True
  then show ?thesis
    using assms by (simp add: check_challenge_completes(1))
next
  case False
  then have "check_challenge g = g"
    by (intro check_challenge_idle) auto
  then show ?thesis by simp
qed

lemma check_challenge_advance:
  assumes "current_challenge_idx (check_challenge g) \<noteq> current_challenge_idx g"
  shows "current_challenge_idx (check_challenge g) = Suc (current_challenge_idx g)
    \<and> completed (challenges (check_challenge g) ! current_challenge_idx g)"
proof (cases "current_challenge_idx g < length (challenges g)
    \<and> \<not> completed (challenges g ! current_challenge_idx g)
    \<and> on_cell g (target_col (challenges g ! current_challenge_idx g))
         (target_row (challenges g ! current_challenge_idx g))")
  case True
  then show ?thesis
    by (simp add: check_challenge_completes(1,2))
next
  case False
  then have "check_challenge g = g"
    by (intro check_challenge_idle) auto
  then show ?thesis
    using assms by simp
qed

lemma step_advance:
  assumes "e \<noteq> Reset" and "current_challenge_idx (step e g) \<noteq> current_challenge_idx g"
    and "plain_event e"
  shows "e = Tick \<and> current_challenge_idx (step e g) = Suc (current_challenge_idx g)
    \<and> completed (challenges (step e g) ! current_challenge_idx g)"
proof (cases e)
  case Tick
  let ?g1 = "check_collections (g\<lparr> hero := (hero g)\<lparr> player := Player_update (player (hero g)) \<rparr> \<rparr>)"
  have same: "current_challenge_idx ?g1 = current_challenge_idx g"
    by (simp add: check_collections_fields)
  have "current_challenge_idx (check_challenge ?g1) \<noteq> current_challenge_idx ?g1"
    using assms(2) Tick by (simp add: update_def same)
  from check_challenge_advance [OF this] show ?thesis
    using Tick by (simp add: update_def same)
next
  case (Command py_eval command)
  then show ?thesis
    using assms(2,3) by (simp add: handle_command_fields)
next
  case Reset
  then show ?thesis
    using assms(1) by simp
qed

subsection \<open>A challenge index set by an argument\<close>

text \<open>
  The order of the challenges above is that of plain sessions. An argument that is
  evaluated with the game in its scope can set the index itself.
\<close>

lemma Game_init_challenges:
  "challenges Game_init = create_challenges" "current_challenge_idx Game_init = 0"
  by (simp_all add: Game_init_def show_current_challenge_def Let_def)

lemma set_index_command:
  "strip ''hero.say(setattr(self, 'current_challenge_idx', 2))''
     = ''hero.say(setattr(self, 'current_challenge_idx', 2))''"
  "lower ''hero.say(setattr(self, 'current_challenge_idx', 2))'' \<notin> set KEYWORDS"
  "strip ''setattr(self, 'current_challenge_idx', 2)'' = ''setattr(self, 'current_challenge_idx', 2)''"
  "NEWLINE \<notin> set ''setattr(self, 'current_challenge_idx', 2)''"
  by (simp_all add: strip_def is_space_def KEYWORDS_def lower_def lower_char_def UPPERCASE_def
      LOWERCASE_def NEWLINE_def)

lemma evaluated_say:
  assumes "NEWLINE \<notin> set arg_text" and "strip arg_text = arg_text" and "arg_text \<noteq> []"
    and "hd arg_text \<noteq> CHR 0x22" and "hd arg_text \<noteq> CHR 0x27"
    and "py_eval arg_text g = (Some v, g1)"
  shows "execute_hero_command py_eval (''hero.say('' @ arg_text @ '')'') g =
    (Inr (Some (fst (Hero_say v (hero g1)))), g1\<lparr> hero := snd (Hero_say v (hero g1)) \<rparr>)"
proof -
  have namespace: "startswith (''hero.say('' @ arg_text @ '')'') ''hero.''"
    by (simp add: startswith_def)
  have unquoted: "\<not> startswith arg_text ''\"''" "\<not> startswith arg_text [CHR 0x27]"
    using assms(3,4,5) by (cases arg_text; simp add: startswith_def)+
  show ?thesis
    unfolding execute_hero_command_def match_say_call [OF assms(1)]
    using assms(2,3,6) namespace unquoted
    by (simp add: VALID_HERO_METHODS_def hasattr_hero_def HERO_METHODS_def Let_def invoke_say)
qed

text \<open>
  C8. The claim holds that at every reachable state the current challenge is the
  lowest-indexed incomplete one and that a challenge becomes current only after the one
  before it is completed. In a fresh game the command
  \<^verbatim>\<open>hero.say(setattr(self, 'current_challenge_idx', 2))\<close> is answered as a success, and
  after it the third challenge is the current one while no challenge is completed: the
  lowest incomplete challenge is the first, and the challenges before the index are not
  the completed ones.
\<close>

theorem challenge_index_set_by_argument:
  "in_order Game_init
   \<and> current_challenge_idx
        (run [Command eval_challenge_index ''hero.say(setattr(self, 'current_challenge_idx', 2))'']
           Game_init) = 2
   \<and> map completed (challenges
        (run [Command eval_challenge_index ''hero.say(setattr(self, 'current_challenge_idx', 2))'']
           Game_init)) = [False, False, False]
   \<and> lowest_incomplete (challenges
        (run [Command eval_challenge_index ''hero.say(setattr(self, 'current_challenge_idx', 2))'']
           Game_init)) = 0
   \<and> \<not> in_order
        (run [Command eval_challenge_index ''hero.say(setattr(self, 'current_challenge_idx', 2))'']
           Game_init)
   \<and> last_command_result (hero
        (run [Command eval_challenge_index ''hero.say(setattr(self, 'current_challenge_idx', 2))'']
           Game_init)) = Some ''Hero says: \"None\"''"
proof -
  let ?cmd = "''hero.say(setattr(self, 'current_challenge_idx', 2))''"
  let ?g0 = "Game_init\<lparr> commands_executed := commands_executed Game_init + 1 \<rparr>"
  let ?g1 = "?g0\<lparr> current_challenge_idx := 2 \<rparr>"
  let ?g2 = "?g1\<lparr> hero := snd (Hero_say PyNone (hero ?g1)) \<rparr>"
  have evaluated: "eval_challenge_index ''setattr(self, 'current_challenge_idx', 2)'' ?g0
      = (Some PyNone, ?g1)"
    by (simp add: eval_challenge_index_def)
  have said: "fst (Hero_say PyNone (hero ?g1)) = ''Hero says: \"None\"''"
    by (simp add: Hero_say_def returning_def)
  have nonempty: "strip ?cmd \<noteq> []"
    unfolding set_index_command(1) by simp
  have keyword: "lower (strip ?cmd) \<notin> set KEYWORDS"
    unfolding set_index_command(1) by (rule set_index_command(2))
  have executed: "execute_hero_command eval_challenge_index (strip ?cmd) ?g0
      = (Inr (Some ''Hero says: \"None\"''), ?g2)"
    unfolding set_index_command(1) said [symmetric]
    by (rule evaluated_say [where py_eval = eval_challenge_index,
          OF set_index_command(4) set_index_command(3) _ _ _ evaluated,
          unfolded append_Cons append_Nil]) simp_all
  have message: "''Hero says: \"None\"'' \<noteq> []" "\<not> contains ''Hero says: \"None\"'' ''Moving''"
    by simp_all
  have handled: "handle_command eval_challenge_index ?cmd Game_init
      = ?g2\<lparr> console := add_success ''Hero says: \"None\"'' (console ?g2) \<rparr>"
    by (rule succeeded_command_handled [OF nonempty keyword executed message])
  have ran: "run [Command eval_challenge_index ?cmd] Game_init
      = handle_command eval_challenge_index ?cmd Game_init"
    by (simp add: run_def)
  have start: "in_order Game_init"
    by (simp add: in_order_def Game_init_challenges create_challenges_def Challenge_init_def)
  have index: "current_challenge_idx (run [Command eval_challenge_index ?cmd] Game_init) = 2"
    unfolding ran handled by simp
  have flags: "map completed (challenges (run [Command eval_challenge_index ?cmd] Game_init))
      = [False, False, False]"
    unfolding ran handled
    by (simp add: Game_init_challenges create_challenges_def Challenge_init_def)
  have lowest: "lowest_incomplete (challenges (run [Command eval_challenge_index ?cmd] Game_init)) = 0"
    unfolding lowest_incomplete_def ran handled
    by (simp add: Game_init_challenges create_challenges_def Challenge_init_def)
  have disorder: "\<not> in_order (run [Command eval_challenge_index ?cmd] Game_init)"
    unfolding in_order_def index flags by (simp add: numeral_2_eq_2)
  have answered: "last_command_result (hero (run [Command eval_challenge_index ?cmd] Game_init))
      = Some ''Hero says: \"None\"''"
    unfolding ran handled by (simp add: Hero_say_def returning_def)
  show ?thesis
    using start index flags lowest disorder answered by blast
qed

subsection \<open>Gains\<close>

lemma gained_Nil: "gained flag worth [] after = 0"
  by (simp add: gained_def)

lemma gained_Cons:
  "gained flag worth (b # before) (a # after) =
     (if \<not> flag b \<and> flag a then worth b else 0) + gained flag worth before after"
  by (simp add: gained_def)

lemma gained_same: "gained flag worth xs xs = 0"
  by (induction xs) (simp_all add: gained_Nil gained_Cons)

lemma gained_list_update:
  assumes "i < length xs" and "\<not> flag (xs ! i)" and "flag x1"
  shows "gained flag worth xs (xs[i := x1]) = worth (xs ! i)"
  using assms
proof (induction xs arbitrary: i)
  case Nil
  then show ?case by simp
next
  case (Cons x xs)
  show ?case
  proof (cases i)
    case 0
    then show ?thesis
      using Cons.prems by (simp add: gained_Cons gained_same)
  next
    case (Suc k)
    then show ?thesis
      using Cons.prems Cons.IH [of k] by (simp add: gained_Cons)
  qed
qed

lemma gained_trans:
  assumes "list_all2 (\<lambda>b a. worth a = worth b \<and> (flag b \<longrightarrow> flag a)) xs ys"
    and "list_all2 (\<lambda>b a. worth a = worth b \<and> (flag b \<longrightarrow> flag a)) ys zs"
  shows "gained flag worth xs zs = gained flag worth xs ys + gained flag worth ys zs"
  using assms
proof (induction xs arbitrary: ys zs)
  case Nil
  then show ?case by (simp add: gained_Nil)
next
  case (Cons x xs)
  from Cons.prems(1) obtain y ys1 where ys: "ys = y # ys1"
    and xy: "worth y = worth x" "flag x \<longrightarrow> flag y"
    and rest1: "list_all2 (\<lambda>b a. worth a = worth b \<and> (flag b \<longrightarrow> flag a)) xs ys1"
    by (auto simp add: list_all2_Cons1)
  from Cons.prems(2) ys obtain z zs1 where zs: "zs = z # zs1"
    and yz: "worth z = worth y" "flag y \<longrightarrow> flag z"
    and rest2: "list_all2 (\<lambda>b a. worth a = worth b \<and> (flag b \<longrightarrow> flag a)) ys1 zs1"
    by (auto simp add: list_all2_Cons1)
  show ?case
    using Cons.IH [OF rest1 rest2] xy yz by (auto simp add: ys zs gained_Cons)
qed

lemma gems_kept_refl: "gems_kept gems gems"
  by (simp add: gems_kept_def list_all2_same)

lemma gem_kept_trans:
  fixes a b c :: Collectible
  assumes "b = a\<lparr> collected := collected b \<rparr>" and "c = b\<lparr> collected := collected c \<rparr>"
  shows "c = a\<lparr> collected := collected c \<rparr>"
  using assms by (cases a, cases b, cases c) simp

lemma gems_kept_trans:
  assumes "gems_kept xs ys" and "gems_kept ys zs"
  shows "gems_kept xs zs"
  using assms unfolding gems_kept_def
  by (rule list_all2_trans [rotated]) (use gem_kept_trans in blast)

lemma gem_kept_value:
  fixes a b :: Collectible
  assumes "a = b\<lparr> collected := collected a \<rparr>"
  shows "gem_value a = gem_value b"
  using assms by (cases a, cases b) simp

lemma challenge_kept_reward:
  fixes a b :: Challenge
  assumes "a = b\<lparr> completed := completed a \<rparr>"
  shows "reward a = reward b"
  using assms by (cases a, cases b) simp

lemma kept_gained:
  assumes "list_all2 (\<lambda>b a. same b a \<and> (flag b \<longrightarrow> flag a)) xs ys"
    and "list_all2 (\<lambda>b a. same b a \<and> (flag b \<longrightarrow> flag a)) ys zs"
    and "\<And>a b. same b a \<Longrightarrow> worth a = worth b"
  shows "gained flag worth xs zs = gained flag worth xs ys + gained flag worth ys zs"
proof (rule gained_trans)
  show "list_all2 (\<lambda>b a. worth a = worth b \<and> (flag b \<longrightarrow> flag a)) xs ys"
    using assms(1) by (rule list_all2_mono) (use assms(3) in auto)
  show "list_all2 (\<lambda>b a. worth a = worth b \<and> (flag b \<longrightarrow> flag a)) ys zs"
    using assms(2) by (rule list_all2_mono) (use assms(3) in auto)
qed

lemma gems_kept_gained:
  assumes "gems_kept xs ys" and "gems_kept ys zs"
  shows "gained collected gem_value xs zs
      = gained collected gem_value xs ys + gained collected gem_value ys zs"
    and "newly collected xs zs = newly collected xs ys + newly collected ys zs"
proof -
  let ?same = "\<lambda>(b :: Collectible) a. a = b\<lparr> collected := collected a \<rparr>"
  have xy: "list_all2 (\<lambda>b a. ?same b a \<and> (collected b \<longrightarrow> collected a)) xs ys"
    using assms(1) by (simp add: gems_kept_def)
  have yz: "list_all2 (\<lambda>b a. ?same b a \<and> (collected b \<longrightarrow> collected a)) ys zs"
    using assms(2) by (simp add: gems_kept_def)
  show "gained collected gem_value xs zs
      = gained collected gem_value xs ys + gained collected gem_value ys zs"
    using xy yz by (rule kept_gained [where same = ?same]) (rule gem_kept_value)
  show "newly collected xs zs = newly collected xs ys + newly collected ys zs"
    unfolding newly_def
    using xy yz by (rule kept_gained [where same = ?same]) simp
qed

lemma challenges_kept_gained:
  assumes "challenges_kept xs ys" and "challenges_kept ys zs"
  shows "gained completed reward xs zs
      = gained completed reward xs ys + gained completed reward ys zs"
proof -
  let ?same = "\<lambda>(b :: Challenge) a. a = b\<lparr> completed := completed a \<rparr>"
  have xy: "list_all2 (\<lambda>b a. ?same b a \<and> (completed b \<longrightarrow> completed a)) xs ys"
    using assms(1) by (simp add: challenges_kept_def)
  have yz: "list_all2 (\<lambda>b a. ?same b a \<and> (completed b \<longrightarrow> completed a)) ys zs"
    using assms(2) by (simp add: challenges_kept_def)
  show ?thesis
    using xy yz by (rule kept_gained [where same = ?same]) (rule challenge_kept_reward)
qed

subsection \<open>The collection check\<close>

lemma on_cell_counters:
  "on_cell (g\<lparr> gems_collected := n, score := sc, console := con \<rparr>) = on_cell g"
  by (simp add: on_cell_def fun_eq_iff)

lemma collect_loop_gems:
  "fst (collect_loop gems g) =
     map (\<lambda>gem. if \<not> collected gem \<and> on_cell g (gem_grid_col gem) (gem_grid_row gem)
                then gem\<lparr> collected := True \<rparr> else gem) gems"
proof (induction gems arbitrary: g)
  case Nil
  show ?case by simp
next
  case (Cons gem rest)
  let ?g1 = "g\<lparr> gems_collected := gems_collected g + 1,
                score := score g + gem_value gem,
                console := add_success (''Collected '' @ title_case (gem_type gem) @ '' gem! +''
                             @ str_int (gem_value gem) @ '' points'') (console g) \<rparr>"
  have here: "on_cell g (gem_grid_col gem) (gem_grid_row gem)
      \<longleftrightarrow> gem_grid_col gem = grid_col (player (hero g))
          \<and> gem_grid_row gem = grid_row (player (hero g))"
    by (auto simp add: on_cell_def)
  show ?case
  proof (cases "\<not> collected gem \<and> on_cell g (gem_grid_col gem) (gem_grid_row gem)")
    case True
    then show ?thesis
      using Cons.IH [of ?g1] here by (simp add: Let_def split_beta on_cell_counters)
  next
    case False
    then show ?thesis
      using Cons.IH [of g] here by (auto simp add: Let_def split_beta)
  qed
qed

lemma collect_loop_gained:
  "score (snd (collect_loop gems g))
     = score g + gained collected gem_value gems (fst (collect_loop gems g))"
  "gems_collected (snd (collect_loop gems g))
     = gems_collected g + newly collected gems (fst (collect_loop gems g))"
  by (induction gems arbitrary: g;
      simp add: Let_def split_beta gained_Nil gained_Cons newly_def)+

lemma collect_loop_kept: "gems_kept gems (fst (collect_loop gems g))"
  by (simp add: collect_loop_gems gems_kept_def list_all2_conv_all_nth)

lemma collect_loop_nothing:
  assumes "list_all (\<lambda>gem. collected gem \<or> \<not> on_cell g (gem_grid_col gem) (gem_grid_row gem)) gems"
  shows "collect_loop gems g = (gems, g)"
  using assms
  by (induction gems) (auto simp add: on_cell_def)

lemma check_collections_gems:
  "collectibles (check_collections g) =
     map (\<lambda>gem. if \<not> collected gem \<and> on_cell g (gem_grid_col gem) (gem_grid_row gem)
                then gem\<lparr> collected := True \<rparr> else gem) (collectibles g)"
  using collect_loop_gems [of "collectibles g" g]
  by (simp add: check_collections_def split_beta)

lemma check_collections_gained:
  "score (check_collections g)
     = score g + gained collected gem_value (collectibles g) (collectibles (check_collections g))"
  "gems_collected (check_collections g)
     = gems_collected g + newly collected (collectibles g) (collectibles (check_collections g))"
  "gems_kept (collectibles g) (collectibles (check_collections g))"
  using collect_loop_gained [of "collectibles g" g] collect_loop_kept [of "collectibles g" g]
  by (simp_all add: check_collections_def split_beta)

lemma check_collections_nothing:
  assumes "list_all (\<lambda>gem. collected gem \<or> \<not> on_cell g (gem_grid_col gem) (gem_grid_row gem))
             (collectibles g)"
  shows "check_collections g = g"
  using collect_loop_nothing [OF assms] by (simp add: check_collections_def)

lemma check_collections_on_cell:
  "on_cell (check_collections g) = on_cell g"
  by (simp add: on_cell_def fun_eq_iff check_collections_fields)

lemma check_collections_twice:
  "check_collections (check_collections g) = check_collections g"
  by (rule check_collections_nothing)
    (auto simp add: check_collections_on_cell check_collections_gems list_all_iff)

subsection \<open>The score of a session\<close>

lemma check_challenge_gained:
  "score (check_challenge g)
     = score g + gained completed reward (challenges g) (challenges (check_challenge g))"
  "collectibles (check_challenge g) = collectibles g"
  "gems_collected (check_challenge g) = gems_collected g"
proof -
  let ?P = "current_challenge_idx g < length (challenges g)
    \<and> \<not> completed (challenges g ! current_challenge_idx g)
    \<and> on_cell g (target_col (challenges g ! current_challenge_idx g))
         (target_row (challenges g ! current_challenge_idx g))"
  have idle: "check_challenge g = g" if "\<not> ?P"
    using that by (intro check_challenge_idle) auto
  show "score (check_challenge g)
     = score g + gained completed reward (challenges g) (challenges (check_challenge g))"
  proof (cases ?P)
    case True
    then show ?thesis
      by (simp add: check_challenge_completes(1,3) gained_list_update)
  next
    case False
    then show ?thesis
      by (simp add: idle gained_same)
  qed
  show "collectibles (check_challenge g) = collectibles g"
    by (cases ?P) (simp_all add: check_challenge_completes(5) idle)
  show "gems_collected (check_challenge g) = gems_collected g"
    by (cases ?P) (simp_all add: check_challenge_completes(6) idle)
qed

lemma update_gained:
  "gems_kept (collectibles g) (collectibles (update g))"
  "gems_collected (update g)
     = gems_collected g + newly collected (collectibles g) (collectibles (update g))"
  "score (update g)
     = score g + gained collected gem_value (collectibles g) (collectibles (update g))
       + gained completed reward (challenges g) (challenges (update g))"
proof -
  let ?g0 = "g\<lparr> hero := (hero g)\<lparr> player := Player_update (player (hero g)) \<rparr> \<rparr>"
  let ?g1 = "check_collections ?g0"
  have upd: "update g = check_challenge ?g1"
    by (simp add: update_def)
  note gems = check_collections_gained [of ?g0]
  note chal = check_challenge_gained [of ?g1]
  show "gems_kept (collectibles g) (collectibles (update g))"
    using gems(3) by (simp add: upd chal(2))
  show "gems_collected (update g)
     = gems_collected g + newly collected (collectibles g) (collectibles (update g))"
    using gems(2) by (simp add: upd chal(2,3))
  show "score (update g)
     = score g + gained collected gem_value (collectibles g) (collectibles (update g))
       + gained completed reward (challenges g) (challenges (update g))"
    using gems(1) chal(1) by (simp add: upd chal(2) check_collections_fields)
qed

lemma step_gained:
  assumes "e \<noteq> Reset" and "plain_event e"
  shows "gems_kept (collectibles g) (collectibles (step e g))"
    and "gems_collected (step e g)
      = gems_collected g + newly collected (collectibles g) (collectibles (step e g))"
    and "score (step e g)
      = score g + gained collected gem_value (collectibles g) (collectibles (step e g))
        + gained completed reward (challenges g) (challenges (step e g))"
  using assms
  by (cases e; simp add: update_gained handle_command_fields gems_kept_refl gained_same
      newly_def)+

lemma run_gained:
  assumes "no_reset es" and "plain es"
  shows "gems_kept (collectibles g) (collectibles (run es g))
    \<and> gems_collected (run es g)
        = gems_collected g + newly collected (collectibles g) (collectibles (run es g))
    \<and> score (run es g)
        = score g + gained collected gem_value (collectibles g) (collectibles (run es g))
          + gained completed reward (challenges g) (challenges (run es g))"
  using assms
proof (induction es arbitrary: g)
  case Nil
  show ?case
    by (simp add: run_Nil gems_kept_refl gained_same newly_def)
next
  case (Cons e es)
  then have e: "e \<noteq> Reset" "plain_event e" and es: "no_reset es" "plain es"
    by (auto simp add: no_reset_def plain_def)
  let ?g1 = "step e g"
  note first = step_gained [OF e, of g]
  note later = Cons.IH [OF es, of ?g1]
  note chs1 = step_kept(1) [OF e, of g]
  have chs2: "challenges_kept (challenges ?g1) (challenges (run es ?g1))"
    using run_kept [OF es, of ?g1] by simp
  have kept: "gems_kept (collectibles g) (collectibles (run es ?g1))"
    using first(1) later by (blast intro: gems_kept_trans)
  have gems: "gained collected gem_value (collectibles g) (collectibles (run es ?g1))
      = gained collected gem_value (collectibles g) (collectibles ?g1)
        + gained collected gem_value (collectibles ?g1) (collectibles (run es ?g1))"
    "newly collected (collectibles g) (collectibles (run es ?g1))
      = newly collected (collectibles g) (collectibles ?g1)
        + newly collected (collectibles ?g1) (collectibles (run es ?g1))"
    using first(1) later by (simp_all add: gems_kept_gained)
  have chal: "gained completed reward (challenges g) (challenges (run es ?g1))
      = gained completed reward (challenges g) (challenges ?g1)
        + gained completed reward (challenges ?g1) (challenges (run es ?g1))"
    using chs1 chs2 by (rule challenges_kept_gained)
  show ?case
    using kept first(2,3) later by (simp add: run_Cons gems chal)
qed

subsection \<open>A walk on the board\<close>

lemma run_append: "run (es @ es') g = run es' (run es g)"
  by (simp add: run_def)

lemma update_quiet:
  assumes "list_all (\<lambda>gem. collected gem \<or> \<not> on_cell g (gem_grid_col gem) (gem_grid_row gem))
             (collectibles g)"
    and "current_challenge_idx g \<ge> length (challenges g)
      \<or> completed (challenges g ! current_challenge_idx g)
      \<or> \<not> on_cell g (target_col (challenges g ! current_challenge_idx g))
              (target_row (challenges g ! current_challenge_idx g))"
  shows "update g = g\<lparr> hero := (hero g)\<lparr> player := Player_update (player (hero g)) \<rparr> \<rparr>"
proof -
  let ?g0 = "g\<lparr> hero := (hero g)\<lparr> player := Player_update (player (hero g)) \<rparr> \<rparr>"
  have cell: "on_cell ?g0 col row = on_cell g col row" for col row
    by (simp add: on_cell_def Player_update_position)
  have "check_collections ?g0 = ?g0"
    by (rule check_collections_nothing) (use assms(1) in \<open>simp add: cell\<close>)
  moreover have "check_challenge ?g0 = ?g0"
    by (rule check_challenge_idle) (use assms(2) in \<open>simp add: cell\<close>)
  ultimately show ?thesis
    by (simp add: update_def)
qed

lemma ticks_quiet:
  assumes "list_all (\<lambda>gem. collected gem \<or> \<not> on_cell g (gem_grid_col gem) (gem_grid_row gem))
             (collectibles g)"
    and "current_challenge_idx g \<ge> length (challenges g)
      \<or> completed (challenges g ! current_challenge_idx g)
      \<or> \<not> on_cell g (target_col (challenges g ! current_challenge_idx g))
              (target_row (challenges g ! current_challenge_idx g))"
  shows "run (replicate n Tick) g
    = g\<lparr> hero := (hero g)\<lparr> player := (Player_update ^^ n) (player (hero g)) \<rparr> \<rparr>"
  using assms
proof (induction n arbitrary: g)
  case 0
  show ?case
    by (simp add: run_Nil)
next
  case (Suc n)
  let ?g1 = "g\<lparr> hero := (hero g)\<lparr> player := Player_update (player (hero g)) \<rparr> \<rparr>"
  have first: "update g = ?g1"
    using Suc.prems by (rule update_quiet)
  have cell: "on_cell ?g1 col row = on_cell g col row" for col row
    by (simp add: on_cell_def Player_update_position)
  have later: "run (replicate n Tick) ?g1
    = ?g1\<lparr> hero := (hero ?g1)\<lparr> player := (Player_update ^^ n) (player (hero ?g1)) \<rparr> \<rparr>"
    by (rule Suc.IH) (use Suc.prems in \<open>simp_all add: cell\<close>)
  show ?case
    by (simp add: run_Cons first later funpow_swap1)
qed

text \<open>
  The animation of a step: the pixel position is one tile away from the target along one
  axis, the speed is 8 pixels a tick, and the ninth tick ends the move.
\<close>

lemma unit_step:
  fixes d :: real
  shows "8 \<le> d \<Longrightarrow> d / \<bar>d\<bar> * 8 = 8" and "d \<le> - 8 \<Longrightarrow> d / \<bar>d\<bar> * 8 = - 8"
  by simp_all

lemma update_moving_along_x:
  assumes "is_moving p" and "target_y p = pixel_y p"
  shows "update_moving p =
    (if \<bar>target_x p - pixel_x p\<bar> < move_speed p
     then p\<lparr> pixel_x := target_x p, is_moving := False, direction := NONE \<rparr>
     else p\<lparr> pixel_x := pixel_x p + (target_x p - pixel_x p) / \<bar>target_x p - pixel_x p\<bar> * move_speed p \<rparr>)"
  using assms by (simp add: update_moving_def Let_def)

lemma update_moving_along_y:
  assumes "is_moving p" and "target_x p = pixel_x p"
  shows "update_moving p =
    (if \<bar>target_y p - pixel_y p\<bar> < move_speed p
     then p\<lparr> pixel_y := target_y p, is_moving := False, direction := NONE \<rparr>
     else p\<lparr> pixel_y := pixel_y p + (target_y p - pixel_y p) / \<bar>target_y p - pixel_y p\<bar> * move_speed p \<rparr>)"
  using assms by (simp add: update_moving_def Let_def)

lemma tick_along_x:
  assumes "is_moving p" and "\<not> is_spinning p" and "\<not> is_dancing p" and "move_speed p = 8"
    and "target_y p = pixel_y p"
  shows "8 \<le> target_x p - pixel_x p \<Longrightarrow> Player_update p = p\<lparr> pixel_x := pixel_x p + 8 \<rparr>"
    and "target_x p - pixel_x p \<le> - 8 \<Longrightarrow> Player_update p = p\<lparr> pixel_x := pixel_x p - 8 \<rparr>"
    and "\<bar>target_x p - pixel_x p\<bar> < 8 \<Longrightarrow>
      Player_update p = p\<lparr> pixel_x := target_x p, is_moving := False, direction := NONE \<rparr>"
proof -
  have still: "update_dancing (update_spinning q) = q" if "\<not> is_spinning q" "\<not> is_dancing q" for q
    using that by (simp add: update_spinning_def update_dancing_def)
  note moving = update_moving_along_x [OF assms(1,5), unfolded assms(4)]
  show "Player_update p = p\<lparr> pixel_x := pixel_x p + 8 \<rparr>" if "8 \<le> target_x p - pixel_x p"
    unfolding Player_update_def moving unit_step(1) [OF that]
    using that assms(2,3) by (simp add: still)
  show "Player_update p = p\<lparr> pixel_x := pixel_x p - 8 \<rparr>" if "target_x p - pixel_x p \<le> - 8"
    unfolding Player_update_def moving unit_step(2) [OF that]
    using that assms(2,3) by (simp add: still)
  show "Player_update p = p\<lparr> pixel_x := target_x p, is_moving := False, direction := NONE \<rparr>"
    if "\<bar>target_x p - pixel_x p\<bar> < 8"
    unfolding Player_update_def moving
    using that assms(2,3) by (simp add: still)
qed

lemma tick_along_y:
  assumes "is_moving p" and "\<not> is_spinning p" and "\<not> is_dancing p" and "move_speed p = 8"
    and "target_x p = pixel_x p"
  shows "8 \<le> target_y p - pixel_y p \<Longrightarrow> Player_update p = p\<lparr> pixel_y := pixel_y p + 8 \<rparr>"
    and "target_y p - pixel_y p \<le> - 8 \<Longrightarrow> Player_update p = p\<lparr> pixel_y := pixel_y p - 8 \<rparr>"
    and "\<bar>target_y p - pixel_y p\<bar> < 8 \<Longrightarrow>
      Player_update p = p\<lparr> pixel_y := target_y p, is_moving := False, direction := NONE \<rparr>"
proof -
  have still: "update_dancing (update_spinning q) = q" if "\<not> is_spinning q" "\<not> is_dancing q" for q
    using that by (simp add: update_spinning_def update_dancing_def)
  note moving = update_moving_along_y [OF assms(1,5), unfolded assms(4)]
  show "Player_update p = p\<lparr> pixel_y := pixel_y p + 8 \<rparr>" if "8 \<le> target_y p - pixel_y p"
    unfolding Player_update_def moving unit_step(1) [OF that]
    using that assms(2,3) by (simp add: still)
  show "Player_update p = p\<lparr> pixel_y := pixel_y p - 8 \<rparr>" if "target_y p - pixel_y p \<le> - 8"
    unfolding Player_update_def moving unit_step(2) [OF that]
    using that assms(2,3) by (simp add: still)
  show "Player_update p = p\<lparr> pixel_y := target_y p, is_moving := False, direction := NONE \<rparr>"
    if "\<bar>target_y p - pixel_y p\<bar> < 8"
    unfolding Player_update_def moving
    using that assms(2,3) by (simp add: still)
qed

lemma approach_left:
  assumes "is_moving p" and "\<not> is_spinning p" and "\<not> is_dancing p" and "move_speed p = 8"
    and "target_y p = pixel_y p" and "target_x p = pixel_x p - 64" and "k \<le> 8"
  shows "(Player_update ^^ k) p = p\<lparr> pixel_x := pixel_x p - 8 * real k \<rparr>"
  using assms(7)
proof (induction k)
  case 0
  show ?case by simp
next
  case (Suc k)
  let ?q = "p\<lparr> pixel_x := pixel_x p - 8 * real k \<rparr>"
  have far: "target_x ?q - pixel_x ?q \<le> - 8"
    using Suc.prems assms(6) by simp
  have "(Player_update ^^ Suc k) p = Player_update ?q"
    using Suc by simp
  also have "\<dots> = ?q\<lparr> pixel_x := pixel_x ?q - 8 \<rparr>"
    by (rule tick_along_x(2) [OF _ _ _ _ _ far]) (use assms in simp_all)
  also have "\<dots> = p\<lparr> pixel_x := pixel_x p - 8 * real (Suc k) \<rparr>"
    by (simp add: algebra_simps)
  finally show ?case .
qed

lemma animation_left:
  assumes "is_moving p" and "\<not> is_spinning p" and "\<not> is_dancing p" and "move_speed p = 8"
    and "target_y p = pixel_y p" and "target_x p = pixel_x p - 64"
  shows "(Player_update ^^ 9) p
    = p\<lparr> pixel_x := target_x p, is_moving := False, direction := NONE \<rparr>"
proof -
  let ?q = "p\<lparr> pixel_x := pixel_x p - 8 * real 8 \<rparr>"
  have near: "\<bar>target_x ?q - pixel_x ?q\<bar> < 8"
    using assms(6) by simp
  have "(Player_update ^^ 9) p = Player_update ((Player_update ^^ 8) p)"
    by (simp add: eval_nat_numeral)
  also have "\<dots> = Player_update ?q"
    using approach_left [OF assms, of 8] by simp
  also have "\<dots> = ?q\<lparr> pixel_x := target_x ?q, is_moving := False, direction := NONE \<rparr>"
    by (rule tick_along_x(3) [OF _ _ _ _ _ near]) (use assms in simp_all)
  also have "\<dots> = p\<lparr> pixel_x := target_x p, is_moving := False, direction := NONE \<rparr>"
    by simp
  finally show ?thesis .
qed

lemma move_call:
  assumes "method_name \<in> {''move_right'', ''move_left'', ''move_up'', ''move_down''}"
  shows "strip (''hero.'' @ method_name @ ''()'') = ''hero.'' @ method_name @ ''()''"
    and "lower (''hero.'' @ method_name @ ''()'') \<notin> set KEYWORDS"
    and "execute_hero_command py_eval (''hero.'' @ method_name @ ''()'') g =
      (Inr (Some (fst (call_no_arg method_name (hero g)))),
       g\<lparr> hero := snd (call_no_arg method_name (hero g)) \<rparr>)"
  using assms
  by (elim insertE emptyE; clarify;
      simp add: KEYWORDS_def strip_def is_space_def lower_def lower_char_def UPPERCASE_def
        LOWERCASE_def interp_defs split_beta)+

lemma started_move_handled:
  assumes "method_name \<in> {''move_right'', ''move_left'', ''move_up'', ''move_down''}"
    and "call_no_arg method_name (hero g) = (msg, h1)" and "contains msg ''Moving''"
  shows "handle_command py_eval (''hero.'' @ method_name @ ''()'') g =
    g\<lparr> commands_executed := commands_executed g + 1, hero := h1,
       console := add_success msg (console g),
       successful_moves := successful_moves g + 1 \<rparr>"
proof -
  let ?raw = "''hero.'' @ method_name @ ''()''"
  let ?g = "g\<lparr> commands_executed := commands_executed g + 1 \<rparr>"
  note call = move_call [OF assms(1)]
  have not_keyword: "lower ?raw \<noteq> ''help''" "lower ?raw \<noteq> ''clear''" "lower ?raw \<noteq> ''hint''"
    using call(2) by (simp_all add: KEYWORDS_def)
  have nonempty: "msg \<noteq> []"
    using assms(3) by auto
  have executed: "execute_hero_command py_eval ?raw ?g = (Inr (Some msg), ?g\<lparr> hero := h1 \<rparr>)"
    using call(3) [of py_eval ?g] assms(2) by simp
  show ?thesis
    unfolding handle_command_def Let_def call(1) executed
    using not_keyword nonempty assms(3) by simp
qed

text \<open>
  A step to the left of an actor that rests on the centre of its cell, toward a free
  cell without an uncollected gem that is not the target of the current challenge:
  after the command and nine ticks the actor rests on the centre of the new cell, and
  only the counters of the commands and the console have changed besides.
\<close>

lemma walk_left:
  assumes "idle (player (hero g))" and "move_speed (player (hero g)) = 8"
    and "pixel_x (player (hero g)) = grid_to_pixel_x (grid_col (player (hero g)))"
    and "pixel_y (player (hero g)) = grid_to_pixel_y (grid_row (player (hero g)))"
    and "within_bounds (grid_col (player (hero g)) - 1) (grid_row (player (hero g)))"
    and "\<not> is_blocked (player (hero g)) (grid_col (player (hero g)) - 1) (grid_row (player (hero g)))"
    and "list_all (\<lambda>gem. collected gem
            \<or> \<not> (gem_grid_col gem = grid_col (player (hero g)) - 1
                  \<and> gem_grid_row gem = grid_row (player (hero g)))) (collectibles g)"
    and "current_challenge_idx g \<ge> length (challenges g)
      \<or> completed (challenges g ! current_challenge_idx g)
      \<or> \<not> (target_col (challenges g ! current_challenge_idx g) = grid_col (player (hero g)) - 1
            \<and> target_row (challenges g ! current_challenge_idx g) = grid_row (player (hero g)))"
  shows "run (Command py_eval ''hero.move_left()'' # replicate 9 Tick) g =
    g\<lparr> commands_executed := commands_executed g + 1,
       successful_moves := successful_moves g + 1,
       console := add_success MSG_MOVING_LEFT (console g),
       hero := (hero g)
         \<lparr> player := (player (hero g))
             \<lparr> grid_col := grid_col (player (hero g)) - 1,
               pixel_x := grid_to_pixel_x (grid_col (player (hero g)) - 1),
               target_x := grid_to_pixel_x (grid_col (player (hero g)) - 1),
               target_y := grid_to_pixel_y (grid_row (player (hero g))),
               direction := NONE, eye_direction := LEFT, is_moving := False \<rparr>,
           last_command_result := Some MSG_MOVING_LEFT \<rparr> \<rparr>"
proof -
  let ?p = "player (hero g)"
  let ?p1 = "?p\<lparr> grid_col := grid_col ?p + - 1, grid_row := grid_row ?p + 0,
              target_x := grid_to_pixel_x (grid_col ?p + - 1),
              target_y := grid_to_pixel_y (grid_row ?p + 0),
              direction := LEFT, eye_direction := LEFT, is_moving := True \<rparr>"
  let ?h1 = "(hero g)\<lparr> player := ?p1, last_command_result := Some MSG_MOVING_LEFT \<rparr>"
  let ?g1 = "g\<lparr> commands_executed := commands_executed g + 1, hero := ?h1,
       console := add_success MSG_MOVING_LEFT (console g),
       successful_moves := successful_moves g + 1 \<rparr>"
  have moved: "move_left ?p = (True, ?p1)"
    unfolding move_left_def
    by (rule try_move_success) (use assms(1,5,6) in simp_all)
  have called: "call_no_arg ''move_left'' (hero g) = (MSG_MOVING_LEFT, ?h1)"
    using hero_move_started [where player_move = move_left and h = "hero g", OF moved]
    by (simp add: call_no_arg_def Hero_move_left_def)
  have message: "contains MSG_MOVING_LEFT ''Moving''"
    by (simp add: MSG_MOVING_LEFT_def)
  have command: "handle_command py_eval ''hero.move_left()'' g = ?g1"
    using started_move_handled [OF _ called message, of py_eval] by simp
  have ticks: "run (replicate 9 Tick) ?g1
      = ?g1\<lparr> hero := (hero ?g1)\<lparr> player := (Player_update ^^ 9) (player (hero ?g1)) \<rparr> \<rparr>"
    by (rule ticks_quiet) (use assms(7,8) in \<open>auto simp add: on_cell_def list_all_iff\<close>)
  have animation: "(Player_update ^^ 9) ?p1
      = ?p1\<lparr> pixel_x := target_x ?p1, is_moving := False, direction := NONE \<rparr>"
    by (rule animation_left)
      (use assms(1,2,3,4) in \<open>simp_all add: idle_def grid_to_pixel_x_def settings_defs\<close>)
  have moving: "player (hero ?g1) = ?p1"
    by simp
  have "run (Command py_eval ''hero.move_left()'' # replicate 9 Tick) g
      = run (replicate 9 Tick) ?g1"
    by (simp only: run_Cons step.simps command)
  also have "\<dots> = ?g1\<lparr> hero := (hero ?g1)
      \<lparr> player := ?p1\<lparr> pixel_x := target_x ?p1, is_moving := False, direction := NONE \<rparr> \<rparr> \<rparr>"
    unfolding ticks moving animation ..
  finally show ?thesis
    by simp
qed

lemma walk_left_state:
  assumes "idle (player (hero g))" and "move_speed (player (hero g)) = 8"
    and "pixel_x (player (hero g)) = grid_to_pixel_x (grid_col (player (hero g)))"
    and "pixel_y (player (hero g)) = grid_to_pixel_y (grid_row (player (hero g)))"
    and "within_bounds (grid_col (player (hero g)) - 1) (grid_row (player (hero g)))"
    and "\<not> is_blocked (player (hero g)) (grid_col (player (hero g)) - 1) (grid_row (player (hero g)))"
    and "list_all (\<lambda>gem. collected gem
            \<or> \<not> (gem_grid_col gem = grid_col (player (hero g)) - 1
                  \<and> gem_grid_row gem = grid_row (player (hero g)))) (collectibles g)"
    and "current_challenge_idx g \<ge> length (challenges g)
      \<or> completed (challenges g ! current_challenge_idx g)
      \<or> \<not> (target_col (challenges g ! current_challenge_idx g) = grid_col (player (hero g)) - 1
            \<and> target_row (challenges g ! current_challenge_idx g) = grid_row (player (hero g)))"
    and "g1 = run (Command py_eval ''hero.move_left()'' # replicate 9 Tick) g"
  shows "idle (player (hero g1))" and "move_speed (player (hero g1)) = 8"
    and "pixel_x (player (hero g1)) = grid_to_pixel_x (grid_col (player (hero g1)))"
    and "pixel_y (player (hero g1)) = grid_to_pixel_y (grid_row (player (hero g1)))"
    and "grid_col (player (hero g1)) = grid_col (player (hero g)) - 1"
    and "grid_row (player (hero g1)) = grid_row (player (hero g))"
    and "p_obstacles (player (hero g1)) = p_obstacles (player (hero g))"
    and "collectibles g1 = collectibles g" and "score g1 = score g"
    and "gems_collected g1 = gems_collected g" and "challenges g1 = challenges g"
    and "current_challenge_idx g1 = current_challenge_idx g"
  using assms(1,2,3,4)
  unfolding assms(9) walk_left [OF assms(1-8)]
  by (simp_all add: idle_def)

lemma step_up_state:
  assumes "idle (player (hero g))"
    and "within_bounds (grid_col (player (hero g))) (grid_row (player (hero g)) - 1)"
    and "\<not> is_blocked (player (hero g)) (grid_col (player (hero g))) (grid_row (player (hero g)) - 1)"
    and "g1 = handle_command py_eval ''hero.move_up()'' g"
  shows "grid_col (player (hero g1)) = grid_col (player (hero g))"
    and "grid_row (player (hero g1)) = grid_row (player (hero g)) - 1"
    and "collectibles g1 = collectibles g" and "score g1 = score g"
    and "gems_collected g1 = gems_collected g" and "challenges g1 = challenges g"
    and "current_challenge_idx g1 = current_challenge_idx g"
proof -
  let ?p = "player (hero g)"
  let ?p1 = "?p\<lparr> grid_col := grid_col ?p + 0, grid_row := grid_row ?p + - 1,
              target_x := grid_to_pixel_x (grid_col ?p + 0),
              target_y := grid_to_pixel_y (grid_row ?p + - 1),
              direction := UP, eye_direction := UP, is_moving := True \<rparr>"
  let ?h1 = "(hero g)\<lparr> player := ?p1, last_command_result := Some MSG_MOVING_UP \<rparr>"
  have moved: "move_up ?p = (True, ?p1)"
    unfolding move_up_def
    by (rule try_move_success) (use assms(1,2,3) in simp_all)
  have called: "call_no_arg ''move_up'' (hero g) = (MSG_MOVING_UP, ?h1)"
    using hero_move_started [where player_move = move_up and h = "hero g", OF moved]
    by (simp add: call_no_arg_def Hero_move_up_def)
  have message: "contains MSG_MOVING_UP ''Moving''"
    by (simp add: MSG_MOVING_UP_def)
  have command: "g1 =
      g\<lparr> commands_executed := commands_executed g + 1, hero := ?h1,
         console := add_success MSG_MOVING_UP (console g),
         successful_moves := successful_moves g + 1 \<rparr>"
    unfolding assms(4)
    using started_move_handled [OF _ called message, of py_eval] by simp
  show "grid_col (player (hero g1)) = grid_col (player (hero g))"
    and "grid_row (player (hero g1)) = grid_row (player (hero g)) - 1"
    and "collectibles g1 = collectibles g" and "score g1 = score g"
    and "gems_collected g1 = gems_collected g" and "challenges g1 = challenges g"
    and "current_challenge_idx g1 = current_challenge_idx g"
    unfolding command by simp_all
qed

lemma check_challenge_hero: "hero (check_challenge g) = hero g"
proof (cases "current_challenge_idx g < length (challenges g)
    \<and> \<not> completed (challenges g ! current_challenge_idx g)
    \<and> on_cell g (target_col (challenges g ! current_challenge_idx g))
         (target_row (challenges g ! current_challenge_idx g))")
  case True
  then show ?thesis
    by (simp add: check_challenge_completes(7))
next
  case False
  then have "check_challenge g = g"
    by (intro check_challenge_idle) auto
  then show ?thesis by simp
qed

lemma update_state:
  "on_cell (update g) col row = on_cell g col row"
  "collectibles (update g) =
     map (\<lambda>gem. if \<not> collected gem \<and> on_cell g (gem_grid_col gem) (gem_grid_row gem)
                then gem\<lparr> collected := True \<rparr> else gem) (collectibles g)"
proof -
  let ?g0 = "g\<lparr> hero := (hero g)\<lparr> player := Player_update (player (hero g)) \<rparr> \<rparr>"
  have cell: "on_cell ?g0 c r = on_cell g c r" for c r
    by (simp add: on_cell_def Player_update_position)
  show "on_cell (update g) col row = on_cell g col row"
    using cell [of col row]
    by (simp add: update_def on_cell_def check_challenge_hero check_collections_fields)
  show "collectibles (update g) =
     map (\<lambda>gem. if \<not> collected gem \<and> on_cell g (gem_grid_col gem) (gem_grid_row gem)
                then gem\<lparr> collected := True \<rparr> else gem) (collectibles g)"
    using check_collections_gems [of ?g0]
    by (simp add: update_def check_challenge_gained(2) cell)
qed

lemma update_challenge_idle:
  assumes "current_challenge_idx g \<ge> length (challenges g)
      \<or> completed (challenges g ! current_challenge_idx g)
      \<or> \<not> on_cell g (target_col (challenges g ! current_challenge_idx g))
              (target_row (challenges g ! current_challenge_idx g))"
  shows "challenges (update g) = challenges g"
    and "current_challenge_idx (update g) = current_challenge_idx g"
proof -
  let ?g0 = "g\<lparr> hero := (hero g)\<lparr> player := Player_update (player (hero g)) \<rparr> \<rparr>"
  let ?g1 = "check_collections ?g0"
  have "on_cell ?g1 c r = on_cell g c r" for c r
    by (simp add: on_cell_def check_collections_fields Player_update_position)
  then have "check_challenge ?g1 = ?g1"
    using assms by (intro check_challenge_idle) (simp add: check_collections_fields)
  then show "challenges (update g) = challenges g"
    and "current_challenge_idx (update g) = current_challenge_idx g"
    by (simp_all add: update_def check_collections_fields)
qed

subsection \<open>A collected gem paid again\<close>

lemma uncollect_command:
  "strip ''hero.say(setattr(self.collectibles[5], 'collected', False))''
     = ''hero.say(setattr(self.collectibles[5], 'collected', False))''"
  "lower ''hero.say(setattr(self.collectibles[5], 'collected', False))'' \<notin> set KEYWORDS"
  "strip ''setattr(self.collectibles[5], 'collected', False)''
     = ''setattr(self.collectibles[5], 'collected', False)''"
  "NEWLINE \<notin> set ''setattr(self.collectibles[5], 'collected', False)''"
  by (simp_all add: strip_def is_space_def KEYWORDS_def lower_def lower_char_def UPPERCASE_def
      LOWERCASE_def NEWLINE_def)

lemma uncollect_handled:
  assumes "5 < length (collectibles g)"
  shows "handle_command eval_uncollect
      ''hero.say(setattr(self.collectibles[5], 'collected', False))'' g =
    g\<lparr> commands_executed := commands_executed g + 1,
       collectibles := (collectibles g)[5 := (collectibles g ! 5)\<lparr> collected := False \<rparr>],
       hero := (hero g)\<lparr> last_command_result := Some ''Hero says: \"None\"'' \<rparr>,
       console := add_success ''Hero says: \"None\"'' (console g) \<rparr>"
proof -
  let ?cmd = "''hero.say(setattr(self.collectibles[5], 'collected', False))''"
  let ?g0 = "g\<lparr> commands_executed := commands_executed g + 1 \<rparr>"
  let ?g1 = "?g0\<lparr> collectibles := (collectibles ?g0)[5 := (collectibles ?g0 ! 5)\<lparr> collected := False \<rparr>] \<rparr>"
  let ?g2 = "?g1\<lparr> hero := snd (Hero_say PyNone (hero ?g1)) \<rparr>"
  have evaluated: "eval_uncollect ''setattr(self.collectibles[5], 'collected', False)'' ?g0
      = (Some PyNone, ?g1)"
    using assms by (simp add: eval_uncollect_def)
  have said: "fst (Hero_say PyNone (hero ?g1)) = ''Hero says: \"None\"''"
    by (simp add: Hero_say_def returning_def)
  have nonempty: "strip ?cmd \<noteq> []"
    unfolding uncollect_command(1) by simp
  have keyword: "lower (strip ?cmd) \<notin> set KEYWORDS"
    unfolding uncollect_command(1) by (rule uncollect_command(2))
  have executed: "execute_hero_command eval_uncollect (strip ?cmd) ?g0
      = (Inr (Some ''Hero says: \"None\"''), ?g2)"
    unfolding uncollect_command(1) said [symmetric]
    by (rule evaluated_say [where py_eval = eval_uncollect,
          OF uncollect_command(4) uncollect_command(3) _ _ _ evaluated,
          unfolded append_Cons append_Nil]) simp_all
  have message: "''Hero says: \"None\"'' \<noteq> []" "\<not> contains ''Hero says: \"None\"'' ''Moving''"
    by simp_all
  have "handle_command eval_uncollect ?cmd g
      = ?g2\<lparr> console := add_success ''Hero says: \"None\"'' (console ?g2) \<rparr>"
    by (rule succeeded_command_handled [OF nonempty keyword executed message])
  then show ?thesis
    by (simp add: Hero_say_def returning_def)
qed

lemma fresh_collectibles:
  "create_collectibles create_obstacles =
     [Collectible_init 1 1 ''ruby'', Collectible_init 10 1 ''sapphire'',
      Collectible_init 0 7 ''emerald'', Collectible_init 11 8 ''gold'',
      Collectible_init 6 7 ''diamond'', Collectible_init 3 3 ''ruby'',
      Collectible_init 8 5 ''emerald'']"
  by (simp add: create_collectibles_def create_obstacles_def gem_positions_def)

lemma ruby_walk_state:
  "on_cell (run ruby_walk Game_init) col row \<longleftrightarrow> col = 3 \<and> row = 3"
  "collectibles (run ruby_walk Game_init) =
     [Collectible_init 1 1 ''ruby'', Collectible_init 10 1 ''sapphire'',
      Collectible_init 0 7 ''emerald'', Collectible_init 11 8 ''gold'',
      Collectible_init 6 7 ''diamond'', (Collectible_init 3 3 ''ruby'')\<lparr> collected := True \<rparr>,
      Collectible_init 8 5 ''emerald'']"
  "gems_collected (run ruby_walk Game_init) = 1"
  "score (run ruby_walk Game_init) = 10"
  "challenges (run ruby_walk Game_init) = create_challenges"
  "current_challenge_idx (run ruby_walk Game_init) = 0"
proof -
  define g1 where "g1 = run (Command eval_uncollect ''hero.move_left()'' # replicate 9 Tick) Game_init"
  define g2 where "g2 = run (Command eval_uncollect ''hero.move_left()'' # replicate 9 Tick) g1"
  define g3 where "g3 = handle_command eval_uncollect ''hero.move_up()'' g2"
  have walk: "run ruby_walk Game_init = update g3"
    unfolding ruby_walk_def g3_def g2_def g1_def
    by (simp only: run_append run_Cons run_Nil step.simps append_Cons [symmetric])
  note gems_defs = Collectible_init_def GEM_VALUES_def
  note chs_defs = create_challenges_def Challenge_init_def
  have start: "idle (player (hero Game_init))" "move_speed (player (hero Game_init)) = 8"
    "pixel_x (player (hero Game_init)) = grid_to_pixel_x (grid_col (player (hero Game_init)))"
    "pixel_y (player (hero Game_init)) = grid_to_pixel_y (grid_row (player (hero Game_init)))"
    "grid_col (player (hero Game_init)) = 5" "grid_row (player (hero Game_init)) = 4"
    "p_obstacles (player (hero Game_init)) = create_obstacles"
    "collectibles Game_init = create_collectibles create_obstacles"
    "score Game_init = 0" "gems_collected Game_init = 0"
    by (simp_all add: hero_Game_init Hero_init_def Player_init_def idle_def settings_defs
        collectibles_Game_init Game_init_def show_current_challenge_fields)
  have free1: "within_bounds (grid_col (player (hero Game_init)) - 1) (grid_row (player (hero Game_init)))"
    "\<not> is_blocked (player (hero Game_init)) (grid_col (player (hero Game_init)) - 1)
        (grid_row (player (hero Game_init)))"
    "list_all (\<lambda>gem. collected gem
        \<or> \<not> (gem_grid_col gem = grid_col (player (hero Game_init)) - 1
              \<and> gem_grid_row gem = grid_row (player (hero Game_init)))) (collectibles Game_init)"
    "current_challenge_idx Game_init \<ge> length (challenges Game_init)
      \<or> completed (challenges Game_init ! current_challenge_idx Game_init)
      \<or> \<not> (target_col (challenges Game_init ! current_challenge_idx Game_init)
              = grid_col (player (hero Game_init)) - 1
            \<and> target_row (challenges Game_init ! current_challenge_idx Game_init)
              = grid_row (player (hero Game_init)))"
    by (simp add: start within_bounds_def settings_defs,
        simp add: start is_blocked_def create_obstacles_def,
        simp add: start fresh_collectibles gems_defs,
        simp add: start Game_init_challenges chs_defs)
  note first = walk_left_state [where py_eval = eval_uncollect, OF start(1,2,3,4) free1 g1_def]
  have s1: "idle (player (hero g1))" "move_speed (player (hero g1)) = 8"
    "pixel_x (player (hero g1)) = grid_to_pixel_x (grid_col (player (hero g1)))"
    "pixel_y (player (hero g1)) = grid_to_pixel_y (grid_row (player (hero g1)))"
    "grid_col (player (hero g1)) = 4" "grid_row (player (hero g1)) = 4"
    "p_obstacles (player (hero g1)) = create_obstacles"
    "collectibles g1 = create_collectibles create_obstacles"
    "score g1 = 0" "gems_collected g1 = 0"
    "challenges g1 = create_challenges" "current_challenge_idx g1 = 0"
    using first by (simp_all add: start Game_init_challenges)
  have free2: "within_bounds (grid_col (player (hero g1)) - 1) (grid_row (player (hero g1)))"
    "\<not> is_blocked (player (hero g1)) (grid_col (player (hero g1)) - 1)
        (grid_row (player (hero g1)))"
    "list_all (\<lambda>gem. collected gem
        \<or> \<not> (gem_grid_col gem = grid_col (player (hero g1)) - 1
              \<and> gem_grid_row gem = grid_row (player (hero g1)))) (collectibles g1)"
    "current_challenge_idx g1 \<ge> length (challenges g1)
      \<or> completed (challenges g1 ! current_challenge_idx g1)
      \<or> \<not> (target_col (challenges g1 ! current_challenge_idx g1)
              = grid_col (player (hero g1)) - 1
            \<and> target_row (challenges g1 ! current_challenge_idx g1)
              = grid_row (player (hero g1)))"
    by (simp add: s1 within_bounds_def settings_defs,
        simp add: s1 is_blocked_def create_obstacles_def,
        simp add: s1 fresh_collectibles gems_defs,
        simp add: s1 chs_defs)
  note second = walk_left_state [where py_eval = eval_uncollect, OF s1(1,2,3,4) free2 g2_def]
  have s2: "idle (player (hero g2))"
    "grid_col (player (hero g2)) = 3" "grid_row (player (hero g2)) = 4"
    "p_obstacles (player (hero g2)) = create_obstacles"
    "collectibles g2 = create_collectibles create_obstacles"
    "score g2 = 0" "gems_collected g2 = 0"
    "challenges g2 = create_challenges" "current_challenge_idx g2 = 0"
    using second by (simp_all add: s1)
  have free3: "within_bounds (grid_col (player (hero g2))) (grid_row (player (hero g2)) - 1)"
    "\<not> is_blocked (player (hero g2)) (grid_col (player (hero g2)))
        (grid_row (player (hero g2)) - 1)"
    by (simp add: s2 within_bounds_def settings_defs,
        simp add: s2 is_blocked_def create_obstacles_def)
  note third = step_up_state [where py_eval = eval_uncollect, OF s2(1) free3 g3_def]
  have s3: "grid_col (player (hero g3)) = 3" "grid_row (player (hero g3)) = 3"
    "collectibles g3 = create_collectibles create_obstacles"
    "score g3 = 0" "gems_collected g3 = 0"
    "challenges g3 = create_challenges" "current_challenge_idx g3 = 0"
    using third by (simp_all add: s2)
  have cell: "on_cell g3 col row \<longleftrightarrow> col = 3 \<and> row = 3" for col row
    by (auto simp add: on_cell_def s3)
  have gems: "collectibles (update g3) =
     [Collectible_init 1 1 ''ruby'', Collectible_init 10 1 ''sapphire'',
      Collectible_init 0 7 ''emerald'', Collectible_init 11 8 ''gold'',
      Collectible_init 6 7 ''diamond'', (Collectible_init 3 3 ''ruby'')\<lparr> collected := True \<rparr>,
      Collectible_init 8 5 ''emerald'']"
    by (simp add: update_state(2) s3 fresh_collectibles cell gems_defs)
  have idle: "challenges (update g3) = challenges g3"
    "current_challenge_idx (update g3) = current_challenge_idx g3"
    by (rule update_challenge_idle; simp add: s3 cell chs_defs)+
  show "on_cell (run ruby_walk Game_init) col row \<longleftrightarrow> col = 3 \<and> row = 3"
    by (simp add: walk update_state(1) cell)
  show "collectibles (run ruby_walk Game_init) =
     [Collectible_init 1 1 ''ruby'', Collectible_init 10 1 ''sapphire'',
      Collectible_init 0 7 ''emerald'', Collectible_init 11 8 ''gold'',
      Collectible_init 6 7 ''diamond'', (Collectible_init 3 3 ''ruby'')\<lparr> collected := True \<rparr>,
      Collectible_init 8 5 ''emerald'']"
    by (simp add: walk gems)
  show "gems_collected (run ruby_walk Game_init) = 1"
    unfolding walk update_gained(2) [of g3] gems
    by (simp add: s3 fresh_collectibles newly_def gained_def gems_defs)
  show "score (run ruby_walk Game_init) = 10"
    unfolding walk update_gained(3) [of g3] gems idle
    by (simp add: s3 fresh_collectibles gained_same gained_def gems_defs)
  show "challenges (run ruby_walk Game_init) = create_challenges"
    by (simp add: walk idle s3)
  show "current_challenge_idx (run ruby_walk Game_init) = 0"
    by (simp add: walk idle s3)
qed

text \<open>
  C7. The claim holds that the flag of a collectible goes to true at most once in a
  session and that its value is paid once. In this session the actor walks from the
  start to the ruby on \<open>(3, 3)\<close>; the tick after its last step collects the gem (count 1,
  score 10). The command \<^verbatim>\<open>hero.say(setattr(self.collectibles[5], 'collected', False))\<close>
  is then answered as a success and clears the flag, and the next tick, with the actor
  still on the cell, collects the same gem again: the count is 2 and the score 20, with
  one gem collected and no reset in the session.
\<close>

theorem collected_gem_paid_again:
  "no_reset (ruby_walk
      @ [Command eval_uncollect ''hero.say(setattr(self.collectibles[5], 'collected', False))'', Tick])
   \<and> on_cell (run ruby_walk Game_init) 3 3
   \<and> map collected (collectibles (run ruby_walk Game_init))
       = [False, False, False, False, False, True, False]
   \<and> gems_collected (run ruby_walk Game_init) = 1
   \<and> score (run ruby_walk Game_init) = 10
   \<and> map collected (collectibles (run (ruby_walk
        @ [Command eval_uncollect ''hero.say(setattr(self.collectibles[5], 'collected', False))''])
        Game_init))
       = [False, False, False, False, False, False, False]
   \<and> last_command_result (hero (run (ruby_walk
        @ [Command eval_uncollect ''hero.say(setattr(self.collectibles[5], 'collected', False))''])
        Game_init))
       = Some ''Hero says: \"None\"''
   \<and> map collected (collectibles (run (ruby_walk
        @ [Command eval_uncollect ''hero.say(setattr(self.collectibles[5], 'collected', False))'', Tick])
        Game_init))
       = [False, False, False, False, False, True, False]
   \<and> gems_collected (run (ruby_walk
        @ [Command eval_uncollect ''hero.say(setattr(self.collectibles[5], 'collected', False))'', Tick])
        Game_init) = 2
   \<and> score (run (ruby_walk
        @ [Command eval_uncollect ''hero.say(setattr(self.collectibles[5], 'collected', False))'', Tick])
        Game_init) = 20"
proof -
  let ?cmd = "''hero.say(setattr(self.collectibles[5], 'collected', False))''"
  define gw where "gw = run ruby_walk Game_init"
  define g5 where "g5 = handle_command eval_uncollect ?cmd gw"
  note gems_defs = Collectible_init_def GEM_VALUES_def
  note chs_defs = create_challenges_def Challenge_init_def
  note walked = ruby_walk_state [folded gw_def]
  have session: "run (ruby_walk @ [Command eval_uncollect ?cmd]) Game_init = g5"
    "run (ruby_walk @ [Command eval_uncollect ?cmd, Tick]) Game_init = update g5"
    unfolding g5_def gw_def
    by (simp_all only: run_append run_Cons run_Nil step.simps)
  have no_reset: "no_reset (ruby_walk @ [Command eval_uncollect ?cmd, Tick])"
    by (simp add: no_reset_def ruby_walk_def)
  have handled: "g5 =
    gw\<lparr> commands_executed := commands_executed gw + 1,
        collectibles := (collectibles gw)[5 := (collectibles gw ! 5)\<lparr> collected := False \<rparr>],
        hero := (hero gw)\<lparr> last_command_result := Some ''Hero says: \"None\"'' \<rparr>,
        console := add_success ''Hero says: \"None\"'' (console gw) \<rparr>"
    unfolding g5_def by (rule uncollect_handled) (simp add: walked)
  have cell: "on_cell g5 col row \<longleftrightarrow> col = 3 \<and> row = 3" for col row
    using walked(1) [of col row] by (simp add: handled on_cell_def)
  have s5: "collectibles g5 = create_collectibles create_obstacles"
    "gems_collected g5 = 1" "score g5 = 10"
    "challenges g5 = create_challenges" "current_challenge_idx g5 = 0"
    "last_command_result (hero g5) = Some ''Hero says: \"None\"''"
    by (simp_all add: handled walked fresh_collectibles gems_defs)
  have gems: "collectibles (update g5) =
     [Collectible_init 1 1 ''ruby'', Collectible_init 10 1 ''sapphire'',
      Collectible_init 0 7 ''emerald'', Collectible_init 11 8 ''gold'',
      Collectible_init 6 7 ''diamond'', (Collectible_init 3 3 ''ruby'')\<lparr> collected := True \<rparr>,
      Collectible_init 8 5 ''emerald'']"
    by (simp add: update_state(2) s5 fresh_collectibles cell gems_defs)
  have idle: "challenges (update g5) = challenges g5"
    "current_challenge_idx (update g5) = current_challenge_idx g5"
    by (rule update_challenge_idle; simp add: s5 cell chs_defs)+
  have standing: "on_cell gw 3 3"
    by (simp add: walked(1))
  have first_flags: "map collected (collectibles gw)
      = [False, False, False, False, False, True, False]"
    by (simp add: walked gems_defs)
  have cleared: "map collected (collectibles g5)
      = [False, False, False, False, False, False, False]"
    by (simp add: s5 fresh_collectibles gems_defs)
  have second_flags: "map collected (collectibles (update g5))
      = [False, False, False, False, False, True, False]"
    by (simp add: gems gems_defs)
  have count: "gems_collected (update g5) = 2"
    unfolding update_gained(2) [of g5] gems
    by (simp add: s5 fresh_collectibles newly_def gained_def gems_defs)
  have paid: "score (update g5) = 20"
    unfolding update_gained(3) [of g5] gems idle
    by (simp add: s5 fresh_collectibles gained_same gained_def gems_defs)
  show ?thesis
    unfolding session gw_def [symmetric]
    using no_reset standing first_flags walked(3,4) cleared s5(6) second_flags count paid
    by blast
qed

end
